theory Spec2Isabelle
  imports Main "HOL-Library.Word" "HOL-Library.Monad_Syntax"
begin

unbundle bit_operations_syntax

section \<open>Data model of pacman.c\<close>

text \<open>
  The gameplay core of \<^verbatim>\<open>pacman.c\<close> keeps all of its state in one static nested struct
  \<^verbatim>\<open>state\<close>. The embedding below is a flat record of the fields the gameplay code reads and
  writes (\<^verbatim>\<open>state.timing.tick\<close> is \<open>timing_tick\<close>, \<^verbatim>\<open>state.intro.started\<close> is
  \<open>intro_started\<close>, \<^verbatim>\<open>state.gfx.video_ram\<close> is \<open>video_ram\<close>, every field of
  \<^verbatim>\<open>state.game\<close> keeps its name). Sound voices, sprites and the colour buffer are written by
  the gameplay code but never read back by it; they are left out.

  Unsigned C integers are words of their width. The \<^verbatim>\<open>int16_t\<close> coordinates of \<^verbatim>\<open>int2_t\<close>
  and the \<^verbatim>\<open>int8_t\<close> life counter are \<open>int\<close>, with the narrowing conversion written out
  (\<open>s16\<close>, \<open>s8\<close>) at every place where C stores an \<^verbatim>\<open>int\<close> result back into the narrow
  type. C division and remainder truncate towards zero: \<open>cdiv\<close> and \<open>cmod\<close>.
  A failing \<^verbatim>\<open>assert\<close> is the value \<open>None\<close>.
\<close>

type_synonym u8 = "8 word"
type_synonym u16 = "16 word"
type_synonym u32 = "32 word"

definition s16 :: "int \<Rightarrow> int" where
  "s16 n = (n + 32768) mod 65536 - 32768"

definition s8 :: "int \<Rightarrow> int" where
  "s8 n = (n + 128) mod 256 - 128"

definition s32 :: "int \<Rightarrow> int" where
  "s32 n = (n + 2147483648) mod 4294967296 - 2147483648"

definition cdiv :: "int \<Rightarrow> int \<Rightarrow> int" where
  "cdiv a b = sgn a * sgn b * (\<bar>a\<bar> div \<bar>b\<bar>)"

definition cmod :: "int \<Rightarrow> int \<Rightarrow> int" where
  "cmod a b = a - b * cdiv a b"

definition assert :: "bool \<Rightarrow> unit option" where
  "assert b = (if b then Some () else None)"

definition DISABLED_TICKS :: u32 where "DISABLED_TICKS = 0xFFFFFFFF"
definition TILE_WIDTH :: int where "TILE_WIDTH = 8"
definition TILE_HEIGHT :: int where "TILE_HEIGHT = 8"
definition DISPLAY_TILES_X :: int where "DISPLAY_TILES_X = 28"
definition DISPLAY_TILES_Y :: int where "DISPLAY_TILES_Y = 36"
definition DISPLAY_PIXELS_X :: int where "DISPLAY_PIXELS_X = DISPLAY_TILES_X * TILE_WIDTH"
definition DISPLAY_PIXELS_Y :: int where "DISPLAY_PIXELS_Y = DISPLAY_TILES_Y * TILE_HEIGHT"
definition NUM_LIVES :: int where "NUM_LIVES = 6"
definition NUM_DOTS :: u8 where "NUM_DOTS = 244"
definition ANTEPORTAS_X :: int where "ANTEPORTAS_X = 14 * TILE_WIDTH"
definition ANTEPORTAS_Y :: int where "ANTEPORTAS_Y = 14 * TILE_HEIGHT + cdiv TILE_HEIGHT 2"
definition FADE_TICKS :: u32 where "FADE_TICKS = 30"
definition GHOST_EATEN_FREEZE_TICKS :: u32 where "GHOST_EATEN_FREEZE_TICKS = 60"
definition PACMAN_EATEN_TICKS :: u32 where "PACMAN_EATEN_TICKS = 60"
definition PACMAN_DEATH_TICKS :: u32 where "PACMAN_DEATH_TICKS = 150"
definition GAMEOVER_TICKS :: u32 where "GAMEOVER_TICKS = 3 * 60"
definition ROUNDWON_TICKS :: u32 where "ROUNDWON_TICKS = 4 * 60"
definition FRUITACTIVE_TICKS :: u32 where "FRUITACTIVE_TICKS = 10 * 60"

definition TILE_SPACE :: u8 where "TILE_SPACE = 0x40"
definition TILE_DOT :: u8 where "TILE_DOT = 0x10"
definition TILE_PILL :: u8 where "TILE_PILL = 0x14"
definition TILE_DOOR :: u8 where "TILE_DOOR = 0xCF"

definition FREEZETYPE_PRELUDE :: u8 where "FREEZETYPE_PRELUDE = 1"
definition FREEZETYPE_READY :: u8 where "FREEZETYPE_READY = 2"
definition FREEZETYPE_EAT_GHOST :: u8 where "FREEZETYPE_EAT_GHOST = 4"
definition FREEZETYPE_DEAD :: u8 where "FREEZETYPE_DEAD = 8"
definition FREEZETYPE_WON :: u8 where "FREEZETYPE_WON = 16"

datatype gamestate_t = GAMESTATE_INTRO | GAMESTATE_GAME

datatype dir_t = DIR_RIGHT | DIR_DOWN | DIR_LEFT | DIR_UP

datatype fruit_t = FRUIT_NONE | FRUIT_CHERRIES | FRUIT_STRAWBERRY | FRUIT_PEACH | FRUIT_APPLE
  | FRUIT_GRAPES | FRUIT_GALAXIAN | FRUIT_BELL | FRUIT_KEY

datatype ghosttype_t = GHOSTTYPE_BLINKY | GHOSTTYPE_PINKY | GHOSTTYPE_INKY | GHOSTTYPE_CLYDE

datatype ghoststate_t = GHOSTSTATE_NONE | GHOSTSTATE_CHASE | GHOSTSTATE_SCATTER
  | GHOSTSTATE_FRIGHTENED | GHOSTSTATE_EYES | GHOSTSTATE_HOUSE | GHOSTSTATE_LEAVEHOUSE
  | GHOSTSTATE_ENTERHOUSE

record trigger_t =
  tick :: u32

text \<open>\<^verbatim>\<open>int2_t\<close>: the fields \<^verbatim>\<open>x\<close> and \<^verbatim>\<open>y\<close> are \<open>i2_x\<close> and \<open>i2_y\<close>.\<close>

record int2_t =
  i2_x :: int
  i2_y :: int

record actor_t =
  dir :: dir_t
  pos :: int2_t
  anim_tick :: u32

text \<open>\<^verbatim>\<open>ghost_t\<close>: the field \<^verbatim>\<open>type\<close> is \<open>gtype\<close>, the field \<^verbatim>\<open>state\<close> is \<open>gstate\<close>.\<close>

record ghost_t =
  actor :: actor_t
  gtype :: ghosttype_t
  next_dir :: dir_t
  target_pos :: int2_t
  gstate :: ghoststate_t
  frightened :: trigger_t
  eaten :: trigger_t
  dot_counter :: u16
  dot_limit :: u16

text \<open>\<^verbatim>\<open>pacman_t\<close> holds one actor; its field \<^verbatim>\<open>actor\<close> is \<open>pm_actor\<close>.\<close>

record pacman_t =
  pm_actor :: actor_t

record input_t =
  enabled :: bool
  up :: bool
  down :: bool
  left :: bool
  right :: bool
  esc :: bool
  anykey :: bool

text \<open>
  The array \<^verbatim>\<open>ghost[NUM_GHOSTS]\<close> is indexed by the four values of \<^verbatim>\<open>ghosttype_t\<close>:
  a function from \<open>ghosttype_t\<close>. \<^verbatim>\<open>video_ram[y][x]\<close> is a function of the row and the
  column; every access in the gameplay code is guarded by an assertion or a clamp.
\<close>

record pacman_state =
  gamestate :: gamestate_t
  timing_tick :: u32
  intro_started :: trigger_t
  xorshift :: u32
  hiscore :: u32
  started :: trigger_t
  ready_started :: trigger_t
  round_started :: trigger_t
  round_won :: trigger_t
  game_over :: trigger_t
  dot_eaten :: trigger_t
  pill_eaten :: trigger_t
  ghost_eaten :: trigger_t
  pacman_eaten :: trigger_t
  fruit_eaten :: trigger_t
  force_leave_house :: trigger_t
  fruit_active :: trigger_t
  freeze :: u8
  round :: u8
  score :: u32
  num_lives :: int
  num_ghosts_eaten :: u8
  num_dots_eaten :: u8
  global_dot_counter_active :: bool
  global_dot_counter :: u8
  ghost :: "ghosttype_t \<Rightarrow> ghost_t"
  pacman1 :: pacman_t
  pacman2 :: pacman_t
  player2 :: bool
  active_fruit :: fruit_t
  input1 :: input_t
  input2 :: input_t
  fadein :: trigger_t
  fadeout :: trigger_t
  video_ram :: "int \<Rightarrow> int \<Rightarrow> u8"

section \<open>Time triggers\<close>

text \<open>
  The trigger functions read the global tick \<^verbatim>\<open>state.timing.tick\<close>; the ones that take a
  \<^verbatim>\<open>trigger_t*\<close> return the new value of the trigger, which the caller stores back.
\<close>

definition start :: "pacman_state \<Rightarrow> trigger_t \<Rightarrow> trigger_t" where
  "start s t = t\<lparr>tick := timing_tick s + 1\<rparr>"

definition start_after :: "pacman_state \<Rightarrow> trigger_t \<Rightarrow> u32 \<Rightarrow> trigger_t" where
  "start_after s t ticks = t\<lparr>tick := timing_tick s + ticks\<rparr>"

definition disable :: "trigger_t \<Rightarrow> trigger_t" where
  "disable t = t\<lparr>tick := DISABLED_TICKS\<rparr>"

definition disabled_timer :: trigger_t where
  "disabled_timer = \<lparr>tick = DISABLED_TICKS\<rparr>"

definition now :: "pacman_state \<Rightarrow> trigger_t \<Rightarrow> bool" where
  "now s t = (tick t = timing_tick s)"

definition since :: "pacman_state \<Rightarrow> trigger_t \<Rightarrow> u32" where
  "since s t = (if timing_tick s \<ge> tick t then timing_tick s - tick t else DISABLED_TICKS)"

definition between :: "pacman_state \<Rightarrow> trigger_t \<Rightarrow> u32 \<Rightarrow> u32 \<Rightarrow> bool option" where
  "between s t begin' end' = do {
     assert (begin' < end');
     if tick t \<noteq> DISABLED_TICKS then
       (let ticks = since s t in Some (ticks \<ge> begin' \<and> ticks < end'))
     else Some False
   }"

definition after_once :: "pacman_state \<Rightarrow> trigger_t \<Rightarrow> u32 \<Rightarrow> bool" where
  "after_once s t ticks = (since s t = ticks)"

definition after :: "pacman_state \<Rightarrow> trigger_t \<Rightarrow> u32 \<Rightarrow> bool" where
  "after s t ticks = (let s' = since s t in if s' \<noteq> DISABLED_TICKS then s' \<ge> ticks else False)"

definition before :: "pacman_state \<Rightarrow> trigger_t \<Rightarrow> u32 \<Rightarrow> bool" where
  "before s t ticks = (let s' = since s t in if s' \<noteq> DISABLED_TICKS then s' < ticks else False)"


section \<open>Vectors, tiles and the playfield\<close>

definition i2 :: "int \<Rightarrow> int \<Rightarrow> int2_t" where
  "i2 x y = \<lparr>i2_x = s16 x, i2_y = s16 y\<rparr>"

definition add_i2 :: "int2_t \<Rightarrow> int2_t \<Rightarrow> int2_t" where
  "add_i2 v0 v1 = \<lparr>i2_x = s16 (i2_x v0 + i2_x v1), i2_y = s16 (i2_y v0 + i2_y v1)\<rparr>"

definition sub_i2 :: "int2_t \<Rightarrow> int2_t \<Rightarrow> int2_t" where
  "sub_i2 v0 v1 = \<lparr>i2_x = s16 (i2_x v0 - i2_x v1), i2_y = s16 (i2_y v0 - i2_y v1)\<rparr>"

definition mul_i2 :: "int2_t \<Rightarrow> int \<Rightarrow> int2_t" where
  "mul_i2 v sc = \<lparr>i2_x = s16 (i2_x v * s16 sc), i2_y = s16 (i2_y v * s16 sc)\<rparr>"

text \<open>
  The products and their sum are computed in \<^verbatim>\<open>int\<close> and returned as \<^verbatim>\<open>int32_t\<close>; the sum
  leaves the 32-bit range only for the difference \<open>(-32768, -32768)\<close>, where it wraps.
\<close>

definition squared_distance_i2 :: "int2_t \<Rightarrow> int2_t \<Rightarrow> int" where
  "squared_distance_i2 v0 v1 =
     (let d = \<lparr>i2_x = s16 (i2_x v1 - i2_x v0), i2_y = s16 (i2_y v1 - i2_y v0)\<rparr>
      in s32 (i2_x d * i2_x d + i2_y d * i2_y d))"

definition equal_i2 :: "int2_t \<Rightarrow> int2_t \<Rightarrow> bool" where
  "equal_i2 v0 v1 = (i2_x v0 = i2_x v1 \<and> i2_y v0 = i2_y v1)"

definition nearequal_i2 :: "int2_t \<Rightarrow> int2_t \<Rightarrow> int \<Rightarrow> bool" where
  "nearequal_i2 v0 v1 tolerance =
     (\<bar>i2_x v1 - i2_x v0\<bar> \<le> tolerance \<and> \<bar>i2_y v1 - i2_y v0\<bar> \<le> tolerance)"

definition dist_to_tile_mid :: "int2_t \<Rightarrow> int2_t" where
  "dist_to_tile_mid p =
     i2 (cdiv TILE_WIDTH 2 - cmod (i2_x p) TILE_WIDTH) (cdiv TILE_HEIGHT 2 - cmod (i2_y p) TILE_HEIGHT)"

definition valid_tile_pos :: "int2_t \<Rightarrow> bool" where
  "valid_tile_pos tile_pos =
     (i2_x tile_pos \<ge> 0 \<and> i2_x tile_pos < DISPLAY_TILES_X \<and>
      i2_y tile_pos \<ge> 0 \<and> i2_y tile_pos < DISPLAY_TILES_Y)"

definition vid_tile :: "pacman_state \<Rightarrow> int2_t \<Rightarrow> u8 \<Rightarrow> pacman_state option" where
  "vid_tile s tile_pos tile_code = do {
     assert (valid_tile_pos tile_pos);
     Some (s\<lparr>video_ram := (video_ram s)
       (i2_y tile_pos := (video_ram s (i2_y tile_pos))(i2_x tile_pos := tile_code))\<rparr>)
   }"

text \<open>\<^verbatim>\<open>vid_color_tile\<close> also writes the colour buffer, which is not modelled.\<close>

definition vid_color_tile :: "pacman_state \<Rightarrow> int2_t \<Rightarrow> u8 \<Rightarrow> pacman_state option" where
  "vid_color_tile s tile_pos tile_code = do {
     assert (valid_tile_pos tile_pos);
     Some (s\<lparr>video_ram := (video_ram s)
       (i2_y tile_pos := (video_ram s (i2_y tile_pos))(i2_x tile_pos := tile_code))\<rparr>)
   }"

definition fruit_score_tiles :: "fruit_t \<Rightarrow> u8 list" where
  "fruit_score_tiles f = (case f of
       FRUIT_NONE \<Rightarrow> [0x40, 0x40, 0x40, 0x40]
     | FRUIT_CHERRIES \<Rightarrow> [0x40, 0x81, 0x85, 0x40]
     | FRUIT_STRAWBERRY \<Rightarrow> [0x40, 0x82, 0x85, 0x40]
     | FRUIT_PEACH \<Rightarrow> [0x40, 0x83, 0x85, 0x40]
     | FRUIT_APPLE \<Rightarrow> [0x40, 0x84, 0x85, 0x40]
     | FRUIT_GRAPES \<Rightarrow> [0x40, 0x86, 0x8D, 0x8E]
     | FRUIT_GALAXIAN \<Rightarrow> [0x87, 0x88, 0x8D, 0x8E]
     | FRUIT_BELL \<Rightarrow> [0x89, 0x8A, 0x8D, 0x8E]
     | FRUIT_KEY \<Rightarrow> [0x8B, 0x8C, 0x8D, 0x8E])"

text \<open>\<^verbatim>\<open>vid_fruit_score\<close>: the loop \<^verbatim>\<open>for (i = 0; i < 4; i++)\<close> over the four score tiles.\<close>

fun vid_fruit_score_loop :: "fruit_t \<Rightarrow> int list \<Rightarrow> pacman_state \<Rightarrow> pacman_state option" where
  "vid_fruit_score_loop fruit_type [] s = Some s"
| "vid_fruit_score_loop fruit_type (i # is) s = do {
     s' \<leftarrow> vid_color_tile s (i2 (12 + i) 20) (fruit_score_tiles fruit_type ! nat i);
     vid_fruit_score_loop fruit_type is s'
   }"

definition vid_fruit_score :: "pacman_state \<Rightarrow> fruit_t \<Rightarrow> pacman_state option" where
  "vid_fruit_score s fruit_type = vid_fruit_score_loop fruit_type [0, 1, 2, 3] s"

definition pixel_to_tile_pos :: "int2_t \<Rightarrow> int2_t" where
  "pixel_to_tile_pos pix_pos = i2 (cdiv (i2_x pix_pos) TILE_WIDTH) (cdiv (i2_y pix_pos) TILE_HEIGHT)"

definition clamped_tile_pos :: "int2_t \<Rightarrow> int2_t" where
  "clamped_tile_pos tile_pos =
     (let res = tile_pos;
          res = (if i2_x res < 0 then res\<lparr>i2_x := 0\<rparr>
                 else if i2_x res \<ge> DISPLAY_TILES_X then res\<lparr>i2_x := s16 (DISPLAY_TILES_X - 1)\<rparr>
                 else res);
          res = (if i2_y res < 3 then res\<lparr>i2_y := 3\<rparr>
                 else if i2_y res \<ge> DISPLAY_TILES_Y - 2 then res\<lparr>i2_y := s16 (DISPLAY_TILES_Y - 3)\<rparr>
                 else res)
      in res)"

text \<open>\<^verbatim>\<open>dir_to_vec\<close> asserts that the direction is one of the four; every \<open>dir_t\<close> is.\<close>

definition dir_to_vec :: "dir_t \<Rightarrow> int2_t" where
  "dir_to_vec d = (case d of
       DIR_RIGHT \<Rightarrow> \<lparr>i2_x = 1, i2_y = 0\<rparr>
     | DIR_DOWN \<Rightarrow> \<lparr>i2_x = 0, i2_y = 1\<rparr>
     | DIR_LEFT \<Rightarrow> \<lparr>i2_x = - 1, i2_y = 0\<rparr>
     | DIR_UP \<Rightarrow> \<lparr>i2_x = 0, i2_y = - 1\<rparr>)"

definition reverse_dir :: "dir_t \<Rightarrow> dir_t" where
  "reverse_dir d = (case d of
       DIR_RIGHT \<Rightarrow> DIR_LEFT
     | DIR_DOWN \<Rightarrow> DIR_UP
     | DIR_LEFT \<Rightarrow> DIR_RIGHT
     | _ \<Rightarrow> DIR_DOWN)"

definition tile_code_at :: "pacman_state \<Rightarrow> int2_t \<Rightarrow> u8 option" where
  "tile_code_at s tile_pos = do {
     assert (i2_x tile_pos \<ge> 0 \<and> i2_x tile_pos < DISPLAY_TILES_X);
     assert (i2_y tile_pos \<ge> 0 \<and> i2_y tile_pos < DISPLAY_TILES_Y);
     Some (video_ram s (i2_y tile_pos) (i2_x tile_pos))
   }"

definition is_blocking_tile :: "pacman_state \<Rightarrow> int2_t \<Rightarrow> bool option" where
  "is_blocking_tile s tile_pos = do { c \<leftarrow> tile_code_at s tile_pos; Some (c \<ge> 0xC0) }"

definition is_dot :: "pacman_state \<Rightarrow> int2_t \<Rightarrow> bool option" where
  "is_dot s tile_pos = do { c \<leftarrow> tile_code_at s tile_pos; Some (c = TILE_DOT) }"

definition is_pill :: "pacman_state \<Rightarrow> int2_t \<Rightarrow> bool option" where
  "is_pill s tile_pos = do { c \<leftarrow> tile_code_at s tile_pos; Some (c = TILE_PILL) }"

definition is_tunnel :: "int2_t \<Rightarrow> bool" where
  "is_tunnel tile_pos = (i2_y tile_pos = 17 \<and> (i2_x tile_pos \<le> 5 \<or> i2_x tile_pos \<ge> 22))"

definition is_redzone :: "int2_t \<Rightarrow> bool" where
  "is_redzone tile_pos =
     (i2_x tile_pos \<ge> 11 \<and> i2_x tile_pos \<le> 16 \<and> (i2_y tile_pos = 14 \<or> i2_y tile_pos = 26))"

section \<open>Movement\<close>

definition can_move :: "pacman_state \<Rightarrow> int2_t \<Rightarrow> dir_t \<Rightarrow> bool \<Rightarrow> bool option" where
  "can_move s p wanted_dir allow_cornering = do {
     let dir_vec = dir_to_vec wanted_dir;
     let dist_mid = dist_to_tile_mid p;
     let move_dist_mid = (if i2_y dir_vec \<noteq> 0 then i2_y dist_mid else i2_x dist_mid);
     let perp_dist_mid = (if i2_y dir_vec \<noteq> 0 then i2_x dist_mid else i2_y dist_mid);
     let tile_pos = pixel_to_tile_pos p;
     let check_pos = clamped_tile_pos (add_i2 tile_pos dir_vec);
     is_blocked \<leftarrow> is_blocking_tile s check_pos;
     if (\<not> allow_cornering \<and> 0 \<noteq> perp_dist_mid) \<or> (is_blocked \<and> 0 = move_dist_mid)
     then Some False
     else Some True
   }"

definition move :: "int2_t \<Rightarrow> dir_t \<Rightarrow> bool \<Rightarrow> int2_t" where
  "move p d allow_cornering =
     (let dir_vec = dir_to_vec d;
          p = add_i2 p dir_vec;
          p = (if allow_cornering then
                 (let dist_mid = dist_to_tile_mid p in
                  if i2_x dir_vec \<noteq> 0 then
                    (if i2_y dist_mid < 0 then p\<lparr>i2_y := s16 (i2_y p - 1)\<rparr>
                     else if i2_y dist_mid > 0 then p\<lparr>i2_y := s16 (i2_y p + 1)\<rparr>
                     else p)
                  else if i2_y dir_vec \<noteq> 0 then
                    (if i2_x dist_mid < 0 then p\<lparr>i2_x := s16 (i2_x p - 1)\<rparr>
                     else if i2_x dist_mid > 0 then p\<lparr>i2_x := s16 (i2_x p + 1)\<rparr>
                     else p)
                  else p)
               else p)
      in if i2_x p < 0 then p\<lparr>i2_x := s16 (DISPLAY_PIXELS_X - 1)\<rparr>
         else if i2_x p \<ge> DISPLAY_PIXELS_X then p\<lparr>i2_x := 0\<rparr>
         else p)"


section \<open>Level table, input and random numbers\<close>

record levelspec_t =
  bonus_fruit :: fruit_t
  bonus_score :: u16
  fright_ticks :: u16

definition MAX_LEVELSPEC :: int where "MAX_LEVELSPEC = 21"

definition levelspec_table :: "levelspec_t list" where
  "levelspec_table = [
     \<lparr>bonus_fruit = FRUIT_CHERRIES, bonus_score = 10, fright_ticks = 6 * 60\<rparr>,
     \<lparr>bonus_fruit = FRUIT_STRAWBERRY, bonus_score = 30, fright_ticks = 5 * 60\<rparr>,
     \<lparr>bonus_fruit = FRUIT_PEACH, bonus_score = 50, fright_ticks = 4 * 60\<rparr>,
     \<lparr>bonus_fruit = FRUIT_PEACH, bonus_score = 50, fright_ticks = 3 * 60\<rparr>,
     \<lparr>bonus_fruit = FRUIT_APPLE, bonus_score = 70, fright_ticks = 2 * 60\<rparr>,
     \<lparr>bonus_fruit = FRUIT_APPLE, bonus_score = 70, fright_ticks = 5 * 60\<rparr>,
     \<lparr>bonus_fruit = FRUIT_GRAPES, bonus_score = 100, fright_ticks = 2 * 60\<rparr>,
     \<lparr>bonus_fruit = FRUIT_GRAPES, bonus_score = 100, fright_ticks = 2 * 60\<rparr>,
     \<lparr>bonus_fruit = FRUIT_GALAXIAN, bonus_score = 200, fright_ticks = 1 * 60\<rparr>,
     \<lparr>bonus_fruit = FRUIT_GALAXIAN, bonus_score = 200, fright_ticks = 5 * 60\<rparr>,
     \<lparr>bonus_fruit = FRUIT_BELL, bonus_score = 300, fright_ticks = 2 * 60\<rparr>,
     \<lparr>bonus_fruit = FRUIT_BELL, bonus_score = 300, fright_ticks = 1 * 60\<rparr>,
     \<lparr>bonus_fruit = FRUIT_KEY, bonus_score = 500, fright_ticks = 1 * 60\<rparr>,
     \<lparr>bonus_fruit = FRUIT_KEY, bonus_score = 500, fright_ticks = 3 * 60\<rparr>,
     \<lparr>bonus_fruit = FRUIT_KEY, bonus_score = 500, fright_ticks = 1 * 60\<rparr>,
     \<lparr>bonus_fruit = FRUIT_KEY, bonus_score = 500, fright_ticks = 1 * 60\<rparr>,
     \<lparr>bonus_fruit = FRUIT_KEY, bonus_score = 500, fright_ticks = 1\<rparr>,
     \<lparr>bonus_fruit = FRUIT_KEY, bonus_score = 500, fright_ticks = 1 * 60\<rparr>,
     \<lparr>bonus_fruit = FRUIT_KEY, bonus_score = 500, fright_ticks = 1\<rparr>,
     \<lparr>bonus_fruit = FRUIT_KEY, bonus_score = 500, fright_ticks = 1\<rparr>,
     \<lparr>bonus_fruit = FRUIT_KEY, bonus_score = 500, fright_ticks = 1\<rparr>]"

definition levelspec :: "int \<Rightarrow> levelspec_t option" where
  "levelspec rnd = do {
     assert (rnd \<ge> 0);
     let rnd = (if rnd \<ge> MAX_LEVELSPEC then MAX_LEVELSPEC - 1 else rnd);
     Some (levelspec_table ! nat rnd)
   }"

definition xorshift32 :: "pacman_state \<Rightarrow> u32 \<times> pacman_state" where
  "xorshift32 s =
     (let x = xorshift s;
          x = x XOR push_bit 13 x;
          x = x XOR drop_bit 17 x;
          x = x XOR push_bit 5 x
      in (x, s\<lparr>xorshift := x\<rparr>))"

definition input_disable :: "pacman_state \<Rightarrow> pacman_state" where
  "input_disable s =
     s\<lparr>input1 := \<lparr>enabled = False, up = False, down = False, left = False, right = False,
                  esc = False, anykey = False\<rparr>,
       input2 := \<lparr>enabled = False, up = False, down = False, left = False, right = False,
                  esc = False, anykey = False\<rparr>\<rparr>"

definition input_enable :: "pacman_state \<Rightarrow> pacman_state" where
  "input_enable s = s\<lparr>input1 := (input1 s)\<lparr>enabled := True\<rparr>, input2 := (input2 s)\<lparr>enabled := True\<rparr>\<rparr>"

definition input_dir :: "pacman_state \<Rightarrow> dir_t \<Rightarrow> dir_t" where
  "input_dir s default_dir =
     (if up (input1 s) then DIR_UP
      else if down (input1 s) then DIR_DOWN
      else if right (input1 s) then DIR_RIGHT
      else if left (input1 s) then DIR_LEFT
      else if up (input2 s) then DIR_UP
      else if down (input2 s) then DIR_DOWN
      else if right (input2 s) then DIR_RIGHT
      else if left (input2 s) then DIR_LEFT
      else default_dir)"

text \<open>
  The event callback \<^verbatim>\<open>input\<close>: the event types and key codes it distinguishes. The arrow
  keys clear \<^verbatim>\<open>player2\<close>, the keys W, S, A, D set it.
\<close>

datatype sapp_event_type = SAPP_EVENTTYPE_KEY_DOWN | SAPP_EVENTTYPE_KEY_UP | SAPP_EVENTTYPE_OTHER

datatype sapp_keycode = SAPP_KEYCODE_UP | SAPP_KEYCODE_DOWN | SAPP_KEYCODE_LEFT
  | SAPP_KEYCODE_RIGHT | SAPP_KEYCODE_ESCAPE | SAPP_KEYCODE_W | SAPP_KEYCODE_S | SAPP_KEYCODE_A
  | SAPP_KEYCODE_D | SAPP_KEYCODE_OTHER

record sapp_event =
  ev_type :: sapp_event_type
  key_code :: sapp_keycode

definition input :: "sapp_event \<Rightarrow> pacman_state \<Rightarrow> pacman_state" where
  "input ev s =
     (if enabled (input1 s) then
        (if ev_type ev = SAPP_EVENTTYPE_KEY_DOWN \<or> ev_type ev = SAPP_EVENTTYPE_KEY_UP then
           (let btn_down = (ev_type ev = SAPP_EVENTTYPE_KEY_DOWN) in
            case key_code ev of
              SAPP_KEYCODE_UP \<Rightarrow>
                s\<lparr>input1 := (input1 s)\<lparr>up := btn_down, anykey := btn_down\<rparr>, player2 := False\<rparr>
            | SAPP_KEYCODE_DOWN \<Rightarrow>
                s\<lparr>input1 := (input1 s)\<lparr>down := btn_down, anykey := btn_down\<rparr>, player2 := False\<rparr>
            | SAPP_KEYCODE_LEFT \<Rightarrow>
                s\<lparr>input1 := (input1 s)\<lparr>left := btn_down, anykey := btn_down\<rparr>, player2 := False\<rparr>
            | SAPP_KEYCODE_RIGHT \<Rightarrow>
                s\<lparr>input1 := (input1 s)\<lparr>right := btn_down, anykey := btn_down\<rparr>, player2 := False\<rparr>
            | SAPP_KEYCODE_ESCAPE \<Rightarrow>
                s\<lparr>input1 := (input1 s)\<lparr>esc := btn_down, anykey := btn_down\<rparr>\<rparr>
            | SAPP_KEYCODE_W \<Rightarrow>
                s\<lparr>input2 := (input2 s)\<lparr>up := btn_down, anykey := btn_down\<rparr>, player2 := True\<rparr>
            | SAPP_KEYCODE_S \<Rightarrow>
                s\<lparr>input2 := (input2 s)\<lparr>down := btn_down, anykey := btn_down\<rparr>, player2 := True\<rparr>
            | SAPP_KEYCODE_A \<Rightarrow>
                s\<lparr>input2 := (input2 s)\<lparr>left := btn_down, anykey := btn_down\<rparr>, player2 := True\<rparr>
            | SAPP_KEYCODE_D \<Rightarrow>
                s\<lparr>input2 := (input2 s)\<lparr>right := btn_down, anykey := btn_down\<rparr>, player2 := True\<rparr>
            | SAPP_KEYCODE_OTHER \<Rightarrow>
                s\<lparr>input1 := (input1 s)\<lparr>anykey := btn_down\<rparr>,
                  input2 := (input2 s)\<lparr>anykey := btn_down\<rparr>\<rparr>)
         else s)
      else s)"

section \<open>Ghost AI\<close>

definition ghost_scatter_targets :: "ghosttype_t \<Rightarrow> int2_t" where
  "ghost_scatter_targets t = (case t of
       GHOSTTYPE_BLINKY \<Rightarrow> \<lparr>i2_x = 25, i2_y = 0\<rparr>
     | GHOSTTYPE_PINKY \<Rightarrow> \<lparr>i2_x = 2, i2_y = 0\<rparr>
     | GHOSTTYPE_INKY \<Rightarrow> \<lparr>i2_x = 27, i2_y = 34\<rparr>
     | GHOSTTYPE_CLYDE \<Rightarrow> \<lparr>i2_x = 0, i2_y = 34\<rparr>)"

definition ghost_starting_pos :: "ghosttype_t \<Rightarrow> int2_t" where
  "ghost_starting_pos t = (case t of
       GHOSTTYPE_BLINKY \<Rightarrow> \<lparr>i2_x = 14 * 8, i2_y = 14 * 8 + 4\<rparr>
     | GHOSTTYPE_PINKY \<Rightarrow> \<lparr>i2_x = 14 * 8, i2_y = 17 * 8 + 4\<rparr>
     | GHOSTTYPE_INKY \<Rightarrow> \<lparr>i2_x = 12 * 8, i2_y = 17 * 8 + 4\<rparr>
     | GHOSTTYPE_CLYDE \<Rightarrow> \<lparr>i2_x = 16 * 8, i2_y = 17 * 8 + 4\<rparr>)"

definition ghost_house_target_pos :: "ghosttype_t \<Rightarrow> int2_t" where
  "ghost_house_target_pos t = (case t of
       GHOSTTYPE_BLINKY \<Rightarrow> \<lparr>i2_x = 14 * 8, i2_y = 17 * 8 + 4\<rparr>
     | GHOSTTYPE_PINKY \<Rightarrow> \<lparr>i2_x = 14 * 8, i2_y = 17 * 8 + 4\<rparr>
     | GHOSTTYPE_INKY \<Rightarrow> \<lparr>i2_x = 12 * 8, i2_y = 17 * 8 + 4\<rparr>
     | GHOSTTYPE_CLYDE \<Rightarrow> \<lparr>i2_x = 16 * 8, i2_y = 17 * 8 + 4\<rparr>)"

definition game_pacman_should_move :: "pacman_state \<Rightarrow> bool" where
  "game_pacman_should_move s =
     (if now s (dot_eaten s) then False
      else if since s (pill_eaten s) < 3 then False
      else 0 \<noteq> timing_tick s mod 8)"

text \<open>The number of pixels a ghost moves this tick: 0, 1 or 2.\<close>

definition game_ghost_speed :: "pacman_state \<Rightarrow> ghost_t \<Rightarrow> nat" where
  "game_ghost_speed s g = (case gstate g of
       GHOSTSTATE_HOUSE \<Rightarrow> unat (timing_tick s AND 1)
     | GHOSTSTATE_LEAVEHOUSE \<Rightarrow> unat (timing_tick s AND 1)
     | GHOSTSTATE_FRIGHTENED \<Rightarrow> unat (timing_tick s AND 1)
     | GHOSTSTATE_EYES \<Rightarrow> (if timing_tick s AND 1 \<noteq> 0 then 1 else 2)
     | GHOSTSTATE_ENTERHOUSE \<Rightarrow> (if timing_tick s AND 1 \<noteq> 0 then 1 else 2)
     | _ \<Rightarrow>
         (if is_tunnel (pixel_to_tile_pos (pos (actor g)))
          then (if (timing_tick s * 2) mod 4 \<noteq> 0 then 1 else 0)
          else (if timing_tick s mod 7 \<noteq> 0 then 1 else 0)))"

definition game_scatter_chase_phase :: "pacman_state \<Rightarrow> ghoststate_t" where
  "game_scatter_chase_phase s =
     (let t = since s (round_started s) in
      if t < 7 * 60 then GHOSTSTATE_SCATTER
      else if t < 27 * 60 then GHOSTSTATE_CHASE
      else if t < 34 * 60 then GHOSTSTATE_SCATTER
      else if t < 54 * 60 then GHOSTSTATE_CHASE
      else if t < 59 * 60 then GHOSTSTATE_SCATTER
      else if t < 79 * 60 then GHOSTSTATE_CHASE
      else if t < 84 * 60 then GHOSTSTATE_SCATTER
      else GHOSTSTATE_CHASE)"

text \<open>
  \<^verbatim>\<open>game_update_ghost_state(ghost_t* ghost)\<close> is only ever called with a pointer into the
  array \<^verbatim>\<open>state.game.ghost\<close>; the embedding takes the index \<open>i\<close> of that element. The first
  \<^verbatim>\<open>switch\<close> computes \<^verbatim>\<open>new_state\<close> and may write two fields of the global state
  (\<open>ghost_new_state\<close>); the second \<^verbatim>\<open>switch\<close>, on the \<^emph>\<open>old\<close> state, handles the transition.
\<close>

definition ghost_new_state :: "ghosttype_t \<Rightarrow> pacman_state \<Rightarrow> (ghoststate_t \<times> pacman_state) option" where
  "ghost_new_state i s =
     (let g = ghost s i; new_state = gstate g in
      case gstate g of
        GHOSTSTATE_EYES \<Rightarrow>
          Some (if nearequal_i2 (pos (actor g)) (i2 ANTEPORTAS_X ANTEPORTAS_Y) 1
                then GHOSTSTATE_ENTERHOUSE else new_state, s)
      | GHOSTSTATE_ENTERHOUSE \<Rightarrow>
          Some (if nearequal_i2 (pos (actor g)) (ghost_house_target_pos (gtype g)) 1
                then GHOSTSTATE_LEAVEHOUSE else new_state, s)
      | GHOSTSTATE_HOUSE \<Rightarrow>
          (if after_once s (force_leave_house s) (4 * 60) then
             Some (GHOSTSTATE_LEAVEHOUSE, s\<lparr>force_leave_house := start s (force_leave_house s)\<rparr>)
           else if global_dot_counter_active s then
             (if gtype g = GHOSTTYPE_PINKY \<and> global_dot_counter s = 7 then
                Some (GHOSTSTATE_LEAVEHOUSE, s)
              else if gtype g = GHOSTTYPE_INKY \<and> global_dot_counter s = 17 then
                Some (GHOSTSTATE_LEAVEHOUSE, s)
              else if gtype g = GHOSTTYPE_CLYDE \<and> global_dot_counter s = 32 then
                Some (GHOSTSTATE_LEAVEHOUSE, s\<lparr>global_dot_counter_active := False\<rparr>)
              else Some (new_state, s))
           else if dot_counter g = dot_limit g then
             Some (GHOSTSTATE_LEAVEHOUSE, s)
           else Some (new_state, s))
      | GHOSTSTATE_LEAVEHOUSE \<Rightarrow>
          Some (if i2_y (pos (actor g)) = ANTEPORTAS_Y then GHOSTSTATE_SCATTER else new_state, s)
      | _ \<Rightarrow> do {
          ls \<leftarrow> levelspec (uint (round s));
          Some (if before s (frightened g) (ucast (fright_ticks ls))
                then GHOSTSTATE_FRIGHTENED else game_scatter_chase_phase s, s)
        })"

definition game_update_ghost_state :: "ghosttype_t \<Rightarrow> pacman_state \<Rightarrow> pacman_state option" where
  "game_update_ghost_state i s = do {
     (new_state, s) \<leftarrow> ghost_new_state i s;
     let g = ghost s i;
     if new_state \<noteq> gstate g then
       (let g = (case gstate g of
                   GHOSTSTATE_LEAVEHOUSE \<Rightarrow>
                     g\<lparr>next_dir := DIR_LEFT, actor := (actor g)\<lparr>dir := DIR_LEFT\<rparr>\<rparr>
                 | GHOSTSTATE_ENTERHOUSE \<Rightarrow> g\<lparr>frightened := disable (frightened g)\<rparr>
                 | GHOSTSTATE_FRIGHTENED \<Rightarrow> g
                 | GHOSTSTATE_SCATTER \<Rightarrow> g\<lparr>next_dir := reverse_dir (dir (actor g))\<rparr>
                 | GHOSTSTATE_CHASE \<Rightarrow> g\<lparr>next_dir := reverse_dir (dir (actor g))\<rparr>
                 | _ \<Rightarrow> g)
        in Some (s\<lparr>ghost := (ghost s)(i := g\<lparr>gstate := new_state\<rparr>)\<rparr>))
     else Some s
   }"

text \<open>
  \<^verbatim>\<open>game_update_ghost_target\<close>. In CHASE state the code assigns the target twice for Blinky
  and Pinky, first from \<^verbatim>\<open>pacman1\<close> and then from \<^verbatim>\<open>pacman2\<close>; both assignments are kept.
  In FRIGHTENED state the two calls of \<^verbatim>\<open>xorshift32\<close> are arguments of one call of
  \<^verbatim>\<open>i2\<close>. C leaves their order open; the model draws the second argument (the row) first,
  as the gcc build does.
\<close>

definition game_update_ghost_target :: "ghosttype_t \<Rightarrow> pacman_state \<Rightarrow> pacman_state" where
  "game_update_ghost_target i s =
     (let g = ghost s i; p = target_pos g in
      case gstate g of
        GHOSTSTATE_SCATTER \<Rightarrow>
          s\<lparr>ghost := (ghost s)(i := g\<lparr>target_pos := ghost_scatter_targets (gtype g)\<rparr>)\<rparr>
      | GHOSTSTATE_CHASE \<Rightarrow>
          (let pm1 = pm_actor (pacman1 s);
               pm1_pos = pixel_to_tile_pos (pos pm1);
               pm1_dir = dir_to_vec (dir pm1);
               pm2 = pm_actor (pacman2 s);
               pm2_pos = pixel_to_tile_pos (pos pm2);
               pm2_dir = dir_to_vec (dir pm2);
               p = (case gtype g of
                      GHOSTTYPE_BLINKY \<Rightarrow>
                        (let p = pm1_pos; p = pm2_pos in p)
                    | GHOSTTYPE_PINKY \<Rightarrow>
                        (let p = add_i2 pm1_pos (mul_i2 pm1_dir 4);
                             p = add_i2 pm2_pos (mul_i2 pm2_dir 4)
                         in p)
                    | GHOSTTYPE_INKY \<Rightarrow>
                        (let blinky_pos = pixel_to_tile_pos (pos (actor (ghost s GHOSTTYPE_BLINKY)));
                             p' = add_i2 pm1_pos (mul_i2 pm1_dir 2);
                             d = sub_i2 p' blinky_pos
                         in add_i2 blinky_pos (mul_i2 d 2))
                    | GHOSTTYPE_CLYDE \<Rightarrow>
                        (if squared_distance_i2 (pixel_to_tile_pos (pos (actor g))) pm1_pos > 64
                         then pm1_pos
                         else if squared_distance_i2 (pixel_to_tile_pos (pos (actor g))) pm2_pos > 64
                         then pm2_pos
                         else ghost_scatter_targets GHOSTTYPE_CLYDE))
           in s\<lparr>ghost := (ghost s)(i := g\<lparr>target_pos := p\<rparr>)\<rparr>)
      | GHOSTSTATE_FRIGHTENED \<Rightarrow>
          (let (ry, s1) = xorshift32 s;
               (rx, s2) = xorshift32 s1;
               p = i2 (uint (rx mod 28)) (uint (ry mod 36))
           in s2\<lparr>ghost := (ghost s2)(i := (ghost s2 i)\<lparr>target_pos := p\<rparr>)\<rparr>)
      | GHOSTSTATE_EYES \<Rightarrow>
          s\<lparr>ghost := (ghost s)(i := g\<lparr>target_pos := i2 13 14\<rparr>)\<rparr>
      | _ \<Rightarrow> s\<lparr>ghost := (ghost s)(i := g\<lparr>target_pos := p\<rparr>)\<rparr>)"


text \<open>
  \<^verbatim>\<open>game_update_ghost_dir\<close>: one round of the loop over the four candidate directions
  (\<open>ghost_dir_step\<close>, with \<^verbatim>\<open>min_dist\<close> and the state as loop variables), the loop, and the
  function. The result pairs the returned \<^verbatim>\<open>bool\<close> (force the move) with the new state.
\<close>

definition ghost_dir_step ::
  "ghosttype_t \<Rightarrow> int2_t \<Rightarrow> dir_t \<Rightarrow> int \<times> pacman_state \<Rightarrow> (int \<times> pacman_state) option" where
  "ghost_dir_step i lookahead_pos d acc =
     (let min_dist = fst acc; s = snd acc; g = ghost s i in
      if is_redzone lookahead_pos \<and> d = DIR_UP \<and> gstate g \<noteq> GHOSTSTATE_EYES then Some acc
      else
        (let revdir = reverse_dir d;
             test_pos = clamped_tile_pos (add_i2 lookahead_pos (dir_to_vec d))
         in if revdir \<noteq> dir (actor g) then do {
              blocked \<leftarrow> is_blocking_tile s test_pos;
              if \<not> blocked then
                (let dist = squared_distance_i2 test_pos (target_pos g) in
                 if dist < min_dist
                 then Some (dist, s\<lparr>ghost := (ghost s)(i := g\<lparr>next_dir := d\<rparr>)\<rparr>)
                 else Some acc)
              else Some acc
            }
            else Some acc))"

fun ghost_dir_loop ::
  "ghosttype_t \<Rightarrow> int2_t \<Rightarrow> dir_t list \<Rightarrow> int \<times> pacman_state \<Rightarrow> (int \<times> pacman_state) option" where
  "ghost_dir_loop i lookahead_pos [] acc = Some acc"
| "ghost_dir_loop i lookahead_pos (d # ds) acc = do {
     acc' \<leftarrow> ghost_dir_step i lookahead_pos d acc;
     ghost_dir_loop i lookahead_pos ds acc'
   }"

text \<open>The local array \<^verbatim>\<open>dirs\<close> of \<^verbatim>\<open>game_update_ghost_dir\<close>: the order in which directions are tried.\<close>

definition dirs :: "dir_t list" where
  "dirs = [DIR_UP, DIR_LEFT, DIR_DOWN, DIR_RIGHT]"

definition game_update_ghost_dir :: "ghosttype_t \<Rightarrow> pacman_state \<Rightarrow> (bool \<times> pacman_state) option" where
  "game_update_ghost_dir i s =
     (let g = ghost s i in
      if gstate g = GHOSTSTATE_HOUSE then
        (let g = (if i2_y (pos (actor g)) \<le> 17 * TILE_HEIGHT then g\<lparr>next_dir := DIR_DOWN\<rparr>
                  else if i2_y (pos (actor g)) \<ge> 18 * TILE_HEIGHT then g\<lparr>next_dir := DIR_UP\<rparr>
                  else g);
             g = g\<lparr>actor := (actor g)\<lparr>dir := next_dir g\<rparr>\<rparr>
         in Some (True, s\<lparr>ghost := (ghost s)(i := g)\<rparr>))
      else if gstate g = GHOSTSTATE_LEAVEHOUSE then
        (let p = pos (actor g);
             g = (if i2_x p = ANTEPORTAS_X then
                    (if i2_y p > ANTEPORTAS_Y then g\<lparr>next_dir := DIR_UP\<rparr> else g)
                  else
                    (let mid_y = s16 (17 * TILE_HEIGHT + cdiv TILE_HEIGHT 2) in
                     if i2_y p > mid_y then g\<lparr>next_dir := DIR_UP\<rparr>
                     else if i2_y p < mid_y then g\<lparr>next_dir := DIR_DOWN\<rparr>
                     else g\<lparr>next_dir := (if i2_x p > ANTEPORTAS_X then DIR_LEFT else DIR_RIGHT)\<rparr>));
             g = g\<lparr>actor := (actor g)\<lparr>dir := next_dir g\<rparr>\<rparr>
         in Some (True, s\<lparr>ghost := (ghost s)(i := g)\<rparr>))
      else if gstate g = GHOSTSTATE_ENTERHOUSE then
        (let p = pos (actor g);
             tile_pos = pixel_to_tile_pos p;
             tgt_pos = ghost_house_target_pos (gtype g);
             g = (if i2_y tile_pos = 14 then
                    (if i2_x p \<noteq> ANTEPORTAS_X
                     then g\<lparr>next_dir := (if i2_x p < ANTEPORTAS_X then DIR_RIGHT else DIR_LEFT)\<rparr>
                     else g\<lparr>next_dir := DIR_DOWN\<rparr>)
                  else if i2_y p = i2_y tgt_pos
                  then g\<lparr>next_dir := (if i2_x p < i2_x tgt_pos then DIR_RIGHT else DIR_LEFT)\<rparr>
                  else g);
             g = g\<lparr>actor := (actor g)\<lparr>dir := next_dir g\<rparr>\<rparr>
         in Some (True, s\<lparr>ghost := (ghost s)(i := g)\<rparr>))
      else
        (let dist_to_mid = dist_to_tile_mid (pos (actor g)) in
         if i2_x dist_to_mid = 0 \<and> i2_y dist_to_mid = 0 then do {
           let g = g\<lparr>actor := (actor g)\<lparr>dir := next_dir g\<rparr>\<rparr>;
           let s = s\<lparr>ghost := (ghost s)(i := g)\<rparr>;
           let dir_vec = dir_to_vec (dir (actor g));
           let lookahead_pos = add_i2 (pixel_to_tile_pos (pos (actor g))) dir_vec;
           acc \<leftarrow> ghost_dir_loop i lookahead_pos dirs (100000, s);
           Some (False, snd acc)
         }
         else Some (False, s)))"

section \<open>Dot counters\<close>

text \<open>The loops \<^verbatim>\<open>for (i = 0; i < NUM_GHOSTS; i++)\<close> run over the four ghosts in this order.\<close>

definition ALL_GHOSTS :: "ghosttype_t list" where
  "ALL_GHOSTS = [GHOSTTYPE_BLINKY, GHOSTTYPE_PINKY, GHOSTTYPE_INKY, GHOSTTYPE_CLYDE]"

text \<open>The loop of \<^verbatim>\<open>game_update_ghosthouse_dot_counters\<close>, which ends at its \<^verbatim>\<open>break\<close>.\<close>

fun dot_counter_loop :: "ghosttype_t list \<Rightarrow> pacman_state \<Rightarrow> pacman_state" where
  "dot_counter_loop [] s = s"
| "dot_counter_loop (i # is) s =
     (if dot_counter (ghost s i) < dot_limit (ghost s i)
      then s\<lparr>ghost := (ghost s)(i := (ghost s i)\<lparr>dot_counter := dot_counter (ghost s i) + 1\<rparr>)\<rparr>
      else dot_counter_loop is s)"

definition game_update_ghosthouse_dot_counters :: "pacman_state \<Rightarrow> pacman_state" where
  "game_update_ghosthouse_dot_counters s =
     (if global_dot_counter_active s
      then s\<lparr>global_dot_counter := global_dot_counter s + 1\<rparr>
      else dot_counter_loop ALL_GHOSTS s)"

text \<open>\<^verbatim>\<open>game_update_dots_eaten\<close> without its sound effects.\<close>

definition game_update_dots_eaten :: "pacman_state \<Rightarrow> pacman_state" where
  "game_update_dots_eaten s =
     (let s = s\<lparr>num_dots_eaten := num_dots_eaten s + 1\<rparr> in
      if num_dots_eaten s = NUM_DOTS then s\<lparr>round_won := start s (round_won s)\<rparr>
      else if num_dots_eaten s = 70 \<or> num_dots_eaten s = 170
      then s\<lparr>fruit_active := start s (fruit_active s)\<rparr>
      else s)"

section \<open>The per-tick actor update\<close>

text \<open>
  \<^verbatim>\<open>game_update_actors\<close> holds the player code twice, once for \<^verbatim>\<open>pacman1\<close> (run when
  \<^verbatim>\<open>player2\<close> is true) and once for \<^verbatim>\<open>pacman2\<close> (run when it is false). The two copies are
  the same text except for the actor they use and for the bonus-fruit branch. The steps that
  are the same in both copies are one definition each here: \<open>pacman_move\<close> (input and
  movement), \<open>pacman_eat_dot\<close>, \<open>pacman_eat_pill\<close>, \<open>pacman_ghost_collisions\<close>; the fruit branches are
  \<open>pacman1_eat_fruit\<close> and \<open>pacman2_eat_fruit\<close>. Sound effects are left out.
\<close>

text \<open>The loop \<^verbatim>\<open>for (i...) start(&state.game.ghost[i].frightened)\<close>.\<close>

definition frighten_ghosts :: "pacman_state \<Rightarrow> pacman_state" where
  "frighten_ghosts s =
     fold (\<lambda>i s. s\<lparr>ghost := (ghost s)(i := (ghost s i)\<lparr>frightened := start s (frightened (ghost s i))\<rparr>)\<rparr>)
       ALL_GHOSTS s"

definition pacman_move :: "pacman_state \<Rightarrow> actor_t \<Rightarrow> actor_t option" where
  "pacman_move s a = do {
     let wanted_dir = input_dir s (dir a);
     let allow_cornering = True;
     c1 \<leftarrow> can_move s (pos a) wanted_dir allow_cornering;
     let a = (if c1 then a\<lparr>dir := wanted_dir\<rparr> else a);
     c2 \<leftarrow> can_move s (pos a) (dir a) allow_cornering;
     Some (if c2 then a\<lparr>pos := move (pos a) (dir a) allow_cornering, anim_tick := anim_tick a + 1\<rparr>
           else a)
   }"

definition pacman_eat_dot :: "int2_t \<Rightarrow> pacman_state \<Rightarrow> pacman_state option" where
  "pacman_eat_dot tile_pos s = do {
     d \<leftarrow> is_dot s tile_pos;
     if d then do {
       s \<leftarrow> vid_tile s tile_pos TILE_SPACE;
       let s = s\<lparr>score := score s + 1\<rparr>;
       let s = s\<lparr>dot_eaten := start s (dot_eaten s)\<rparr>;
       let s = s\<lparr>force_leave_house := start s (force_leave_house s)\<rparr>;
       let s = game_update_dots_eaten s;
       Some (game_update_ghosthouse_dot_counters s)
     } else Some s
   }"

definition pacman_eat_pill :: "int2_t \<Rightarrow> pacman_state \<Rightarrow> pacman_state option" where
  "pacman_eat_pill tile_pos s = do {
     p \<leftarrow> is_pill s tile_pos;
     if p then do {
       s \<leftarrow> vid_tile s tile_pos TILE_SPACE;
       let s = s\<lparr>score := score s + 5\<rparr>;
       let s = game_update_dots_eaten s;
       let s = s\<lparr>pill_eaten := start s (pill_eaten s)\<rparr>;
       let s = s\<lparr>num_ghosts_eaten := 0\<rparr>;
       Some (frighten_ghosts s)
     } else Some s
   }"

text \<open>The fruit branch of the \<^verbatim>\<open>pacman1\<close> copy, with the lines marked "Added by Tommy Pham".\<close>

definition pacman1_eat_fruit :: "actor_t \<Rightarrow> pacman_state \<Rightarrow> pacman_state option" where
  "pacman1_eat_fruit a s =
     (if active_fruit s \<noteq> FRUIT_NONE then
        (let test_pos = pixel_to_tile_pos (add_i2 (pos a) (i2 (cdiv TILE_WIDTH 2) 0)) in
         if equal_i2 test_pos (i2 14 20) then do {
           let s = s\<lparr>fruit_eaten := start s (fruit_eaten s)\<rparr>;
           ls \<leftarrow> levelspec (uint (round s));
           let sc = (ucast (bonus_score ls) :: u32);
           let s = s\<lparr>score := score s + sc\<rparr>;
           s \<leftarrow> vid_fruit_score s (active_fruit s);
           let s = s\<lparr>active_fruit := FRUIT_NONE\<rparr>;
           let s = s\<lparr>pill_eaten := start s (pill_eaten s)\<rparr>;
           let s = s\<lparr>num_ghosts_eaten := 0\<rparr>;
           Some (frighten_ghosts s)
         }
         else Some s)
      else Some s)"

text \<open>The fruit branch of the \<^verbatim>\<open>pacman2\<close> copy.\<close>

definition pacman2_eat_fruit :: "actor_t \<Rightarrow> pacman_state \<Rightarrow> pacman_state option" where
  "pacman2_eat_fruit a s =
     (if active_fruit s \<noteq> FRUIT_NONE then
        (let test_pos = pixel_to_tile_pos (add_i2 (pos a) (i2 (cdiv TILE_WIDTH 2) 0)) in
         if equal_i2 test_pos (i2 14 20) then do {
           let s = s\<lparr>fruit_eaten := start s (fruit_eaten s)\<rparr>;
           ls \<leftarrow> levelspec (uint (round s));
           let sc = (ucast (bonus_score ls) :: u32);
           let s = s\<lparr>score := score s + sc\<rparr>;
           s \<leftarrow> vid_fruit_score s (active_fruit s);
           Some (s\<lparr>active_fruit := FRUIT_NONE\<rparr>)
         }
         else Some s)
      else Some s)"

text \<open>
  One round of the collision loop. The score term \<^verbatim>\<open>10 * (1<<num_ghosts_eaten)\<close> is
  computed in \<^verbatim>\<open>int\<close> and added to the unsigned 32-bit score. C defines it only while the
  counter is below 28; the model takes the value the compiled code computes for every value
  of the counter: the shift count is reduced modulo 32 and the product wraps at 32 bits.
\<close>

definition pacman_ghost_collision :: "int2_t \<Rightarrow> ghosttype_t \<Rightarrow> pacman_state \<Rightarrow> pacman_state option" where
  "pacman_ghost_collision tile_pos i s =
     (let g = ghost s i;
          ghost_tile_pos = pixel_to_tile_pos (pos (actor g))
      in if equal_i2 tile_pos ghost_tile_pos then
           (if gstate g = GHOSTSTATE_FRIGHTENED then do {
              let g = g\<lparr>gstate := GHOSTSTATE_EYES\<rparr>;
              let g = g\<lparr>eaten := start s (eaten g)\<rparr>;
              let s = s\<lparr>ghost := (ghost s)(i := g)\<rparr>;
              let s = s\<lparr>ghost_eaten := start s (ghost_eaten s)\<rparr>;
              let s = s\<lparr>num_ghosts_eaten := num_ghosts_eaten s + 1\<rparr>;
              let s = s\<lparr>score := score s + 10 * 2 ^ (unat (num_ghosts_eaten s) mod 32)\<rparr>;
              Some (s\<lparr>freeze := freeze s OR FREEZETYPE_EAT_GHOST\<rparr>)
            }
            else if gstate g = GHOSTSTATE_CHASE \<or> gstate g = GHOSTSTATE_SCATTER then
              (let s = s\<lparr>pacman_eaten := start s (pacman_eaten s)\<rparr>;
                   s = s\<lparr>freeze := freeze s OR FREEZETYPE_DEAD\<rparr>
               in if num_lives s > 0
                  then Some (s\<lparr>ready_started :=
                         start_after s (ready_started s) (PACMAN_EATEN_TICKS + PACMAN_DEATH_TICKS)\<rparr>)
                  else Some (s\<lparr>game_over :=
                         start_after s (game_over s) (PACMAN_EATEN_TICKS + PACMAN_DEATH_TICKS)\<rparr>))
            else Some s)
         else Some s)"

fun pacman_ghost_collisions :: "int2_t \<Rightarrow> ghosttype_t list \<Rightarrow> pacman_state \<Rightarrow> pacman_state option" where
  "pacman_ghost_collisions tile_pos [] s = Some s"
| "pacman_ghost_collisions tile_pos (i # is) s = do {
     s' \<leftarrow> pacman_ghost_collision tile_pos i s;
     pacman_ghost_collisions tile_pos is s'
   }"

text \<open>The body of the first \<^verbatim>\<open>if\<close> of \<^verbatim>\<open>game_update_actors\<close> (actor \<^verbatim>\<open>pacman1\<close>).\<close>

definition update_pacman1 :: "pacman_state \<Rightarrow> pacman_state option" where
  "update_pacman1 s = do {
     actor1 \<leftarrow> pacman_move s (pm_actor (pacman1 s));
     let s = s\<lparr>pacman1 := (pacman1 s)\<lparr>pm_actor := actor1\<rparr>\<rparr>;
     let tile_pos = pixel_to_tile_pos (pos actor1);
     s \<leftarrow> pacman_eat_dot tile_pos s;
     s \<leftarrow> pacman_eat_pill tile_pos s;
     s \<leftarrow> pacman1_eat_fruit actor1 s;
     pacman_ghost_collisions tile_pos ALL_GHOSTS s
   }"

text \<open>The body of the second \<^verbatim>\<open>if\<close> of \<^verbatim>\<open>game_update_actors\<close> (actor \<^verbatim>\<open>pacman2\<close>).\<close>

definition update_pacman2 :: "pacman_state \<Rightarrow> pacman_state option" where
  "update_pacman2 s = do {
     actor2 \<leftarrow> pacman_move s (pm_actor (pacman2 s));
     let s = s\<lparr>pacman2 := (pacman2 s)\<lparr>pm_actor := actor2\<rparr>\<rparr>;
     let tile_pos = pixel_to_tile_pos (pos actor2);
     s \<leftarrow> pacman_eat_dot tile_pos s;
     s \<leftarrow> pacman_eat_pill tile_pos s;
     s \<leftarrow> pacman2_eat_fruit actor2 s;
     pacman_ghost_collisions tile_pos ALL_GHOSTS s
   }"

text \<open>The inner loop \<^verbatim>\<open>for (i = 0; i < num_move_ticks; i++)\<close> of the ghost code.\<close>

fun ghost_move_loop :: "nat \<Rightarrow> ghosttype_t \<Rightarrow> pacman_state \<Rightarrow> pacman_state option" where
  "ghost_move_loop 0 i s = Some s"
| "ghost_move_loop (Suc n) i s = do {
     r \<leftarrow> game_update_ghost_dir i s;
     let force_move = fst r;
     let s = snd r;
     let a = actor (ghost s i);
     let allow_cornering = False;
     c \<leftarrow> (if force_move then Some True else can_move s (pos a) (dir a) allow_cornering);
     let s = (if c then
                s\<lparr>ghost := (ghost s)(i := (ghost s i)\<lparr>actor :=
                     a\<lparr>pos := move (pos a) (dir a) allow_cornering, anim_tick := anim_tick a + 1\<rparr>\<rparr>)\<rparr>
              else s);
     ghost_move_loop n i s
   }"

text \<open>The body of the outer loop over the ghosts, and the loop.\<close>

definition ghost_ai :: "ghosttype_t \<Rightarrow> pacman_state \<Rightarrow> pacman_state option" where
  "ghost_ai ghost_index s = do {
     s \<leftarrow> game_update_ghost_state ghost_index s;
     let s = game_update_ghost_target ghost_index s;
     let num_move_ticks = game_ghost_speed s (ghost s ghost_index);
     ghost_move_loop num_move_ticks ghost_index s
   }"

fun ghost_ais :: "ghosttype_t list \<Rightarrow> pacman_state \<Rightarrow> pacman_state option" where
  "ghost_ais [] s = Some s"
| "ghost_ais (i # is) s = do { s' \<leftarrow> ghost_ai i s; ghost_ais is s' }"

definition game_update_actors :: "pacman_state \<Rightarrow> pacman_state option" where
  "game_update_actors s = do {
     s \<leftarrow> (if game_pacman_should_move s \<and> player2 s then update_pacman1 s else Some s);
     s \<leftarrow> (if game_pacman_should_move s \<and> \<not> player2 s then update_pacman2 s else Some s);
     ghost_ais ALL_GHOSTS s
   }"


section \<open>Text output, playfield and round setup\<close>

text \<open>
  The tile writes of the presentation code are part of the model because the movement code
  reads the tile buffer. Colour codes are dropped from every signature.
\<close>

definition conv_char :: "char \<Rightarrow> u8" where
  "conv_char c =
     (if c = CHR '' '' then 0x40
      else if c = CHR ''/'' then 58
      else if c = CHR ''-'' then 59
      else if c = CHR 0x22 then 38
      else if c = CHR ''!'' then 91
      else of_nat (of_char c))"

definition vid_color_char :: "pacman_state \<Rightarrow> int2_t \<Rightarrow> char \<Rightarrow> pacman_state option" where
  "vid_color_char s tile_pos chr = do {
     assert (valid_tile_pos tile_pos);
     Some (s\<lparr>video_ram := (video_ram s)
       (i2_y tile_pos := (video_ram s (i2_y tile_pos))(i2_x tile_pos := conv_char chr))\<rparr>)
   }"

fun vid_color_text_loop :: "int2_t \<Rightarrow> string \<Rightarrow> pacman_state \<Rightarrow> pacman_state option" where
  "vid_color_text_loop tile_pos [] s = Some s"
| "vid_color_text_loop tile_pos (chr # text) s =
     (if i2_x tile_pos < DISPLAY_TILES_X then do {
        s' \<leftarrow> vid_color_char s tile_pos chr;
        vid_color_text_loop (tile_pos\<lparr>i2_x := s16 (i2_x tile_pos + 1)\<rparr>) text s'
      }
      else Some s)"

definition vid_color_text :: "pacman_state \<Rightarrow> int2_t \<Rightarrow> string \<Rightarrow> pacman_state option" where
  "vid_color_text s tile_pos text = do {
     assert (valid_tile_pos tile_pos);
     vid_color_text_loop tile_pos text s
   }"

text \<open>\<^verbatim>\<open>vid_color_score\<close>: the loop over at most 8 digits, from right to left.\<close>

fun vid_color_score_loop :: "nat \<Rightarrow> int2_t \<Rightarrow> u32 \<Rightarrow> pacman_state \<Rightarrow> pacman_state option" where
  "vid_color_score_loop 0 tile_pos sc s = Some s"
| "vid_color_score_loop (Suc n) tile_pos sc s =
     (let chr = char_of (unat (sc mod 10) + 48) in
      if valid_tile_pos tile_pos then do {
        s' \<leftarrow> vid_color_char s tile_pos chr;
        let tile_pos = tile_pos\<lparr>i2_x := s16 (i2_x tile_pos - 1)\<rparr>;
        let sc = sc div 10;
        if sc = 0 then Some s' else vid_color_score_loop n tile_pos sc s'
      }
      else vid_color_score_loop n tile_pos sc s)"

definition vid_color_score :: "pacman_state \<Rightarrow> int2_t \<Rightarrow> u32 \<Rightarrow> pacman_state option" where
  "vid_color_score s tile_pos sc = do {
     s' \<leftarrow> vid_color_char s tile_pos (CHR ''0'');
     vid_color_score_loop 8 (tile_pos\<lparr>i2_x := s16 (i2_x tile_pos - 1)\<rparr>) sc s'
   }"

text \<open>\<^verbatim>\<open>vid_draw_tile_quad\<close>: the two nested loops over \<^verbatim>\<open>yy\<close> and \<^verbatim>\<open>xx\<close>, written out.\<close>

definition vid_draw_tile_quad :: "pacman_state \<Rightarrow> int2_t \<Rightarrow> u8 \<Rightarrow> pacman_state option" where
  "vid_draw_tile_quad s tile_pos tile_code = do {
     s \<leftarrow> vid_color_tile s (i2 (0 + i2_x tile_pos) (0 + i2_y tile_pos)) (tile_code + 0 * 2 + (1 - 0));
     s \<leftarrow> vid_color_tile s (i2 (1 + i2_x tile_pos) (0 + i2_y tile_pos)) (tile_code + 0 * 2 + (1 - 1));
     s \<leftarrow> vid_color_tile s (i2 (0 + i2_x tile_pos) (1 + i2_y tile_pos)) (tile_code + 1 * 2 + (1 - 0));
     vid_color_tile s (i2 (1 + i2_x tile_pos) (1 + i2_y tile_pos)) (tile_code + 1 * 2 + (1 - 1))
   }"

definition vid_clear :: "pacman_state \<Rightarrow> u8 \<Rightarrow> pacman_state" where
  "vid_clear s tile_code =
     s\<lparr>video_ram := (\<lambda>y x. if 0 \<le> y \<and> y < DISPLAY_TILES_Y \<and> 0 \<le> x \<and> x < DISPLAY_TILES_X
                            then tile_code else video_ram s y x)\<rparr>"

text \<open>
  The ASCII map of \<^verbatim>\<open>game_init_playfield\<close>, one string for each of the rows 3 to 33 (the
  source concatenates them into one string and reads character \<^verbatim>\<open>(y-3)*28 + x\<close>), and the
  table \<^verbatim>\<open>t\<close> that decodes a character into a tile code.
\<close>

definition playfield_rows :: "string list" where
  "playfield_rows =
    [''0UUUUUUUUUUUU45UUUUUUUUUUUU1'',
     ''L............rl............R'',
     ''L.ebbf.ebbbf.rl.ebbbf.ebbf.R'',
     ''LPr  l.r   l.rl.r   l.r  lPR'',
     ''L.guuh.guuuh.gh.guuuh.guuh.R'',
     ''L..........................R'',
     ''L.ebbf.ef.ebbbbbbf.ef.ebbf.R'',
     ''L.guuh.rl.guuyxuuh.rl.guuh.R'',
     ''L......rl....rl....rl......R'',
     ''2BBBBf.rzbbf rl ebbwl.eBBBB3'',
     ''     L.rxuuh gh guuyl.R     '',
     ''     L.rl          rl.R     '',
     ''     L.rl mjs--tjn rl.R     '',
     ''UUUUUh.gh i      q gh.gUUUUU'',
     ''      .   i      q   .      '',
     ''BBBBBf.ef i      q ef.eBBBBB'',
     ''     L.rl okkkkkkp rl.R     '',
     ''     L.rl          rl.R     '',
     ''     L.rl ebbbbbbf rl.R     '',
     ''0UUUUh.gh guuyxuuh gh.gUUUU1'',
     ''L............rl............R'',
     ''L.ebbf.ebbbf.rl.ebbbf.ebbf.R'',
     ''L.guyl.guuuh.gh.guuuh.rxuh.R'',
     ''LP..rl.......  .......rl..PR'',
     ''6bf.rl.ef.ebbbbbbf.ef.rl.eb8'',
     ''7uh.gh.rl.guuyxuuh.rl.gh.gu9'',
     ''L......rl....rl....rl......R'',
     ''L.ebbbbwzbbf.rl.ebbwzbbbbf.R'',
     ''L.guuuuuuuuh.gh.guuuuuuuuh.R'',
     ''L..........................R'',
     ''2BBBBBBBBBBBBBBBBBBBBBBBBBB3'']"

definition playfield_code :: "char \<Rightarrow> u8" where
  "playfield_code c =
     (if c = CHR '' '' then 0x40
      else if c = CHR ''0'' then 0xD1
      else if c = CHR ''1'' then 0xD0
      else if c = CHR ''2'' then 0xD5
      else if c = CHR ''3'' then 0xD4
      else if c = CHR ''4'' then 0xFB
      else if c = CHR ''5'' then 0xFA
      else if c = CHR ''6'' then 0xD7
      else if c = CHR ''7'' then 0xD9
      else if c = CHR ''8'' then 0xD6
      else if c = CHR ''9'' then 0xD8
      else if c = CHR ''U'' then 0xDB
      else if c = CHR ''L'' then 0xD3
      else if c = CHR ''R'' then 0xD2
      else if c = CHR ''B'' then 0xDC
      else if c = CHR ''b'' then 0xDF
      else if c = CHR ''e'' then 0xE7
      else if c = CHR ''f'' then 0xE6
      else if c = CHR ''g'' then 0xEB
      else if c = CHR ''h'' then 0xEA
      else if c = CHR ''l'' then 0xE8
      else if c = CHR ''r'' then 0xE9
      else if c = CHR ''u'' then 0xE5
      else if c = CHR ''w'' then 0xF5
      else if c = CHR ''x'' then 0xF2
      else if c = CHR ''y'' then 0xF3
      else if c = CHR ''z'' then 0xF4
      else if c = CHR ''m'' then 0xED
      else if c = CHR ''n'' then 0xEC
      else if c = CHR ''o'' then 0xEF
      else if c = CHR ''p'' then 0xEE
      else if c = CHR ''j'' then 0xDD
      else if c = CHR ''i'' then 0xD2
      else if c = CHR ''k'' then 0xDB
      else if c = CHR ''q'' then 0xD3
      else if c = CHR ''s'' then 0xF1
      else if c = CHR ''t'' then 0xF0
      else if c = CHR ''-'' then TILE_DOOR
      else if c = CHR ''P'' then TILE_PILL
      else TILE_DOT)"

definition game_init_playfield :: "pacman_state \<Rightarrow> pacman_state" where
  "game_init_playfield s =
     s\<lparr>video_ram := (\<lambda>y x. if 3 \<le> y \<and> y \<le> 33 \<and> 0 \<le> x \<and> x < 28
                            then playfield_code (playfield_rows ! nat (y - 3) ! nat x)
                            else video_ram s y x)\<rparr>"

definition game_disable_timers :: "pacman_state \<Rightarrow> pacman_state" where
  "game_disable_timers s =
     s\<lparr>round_won := disable (round_won s),
       game_over := disable (game_over s),
       dot_eaten := disable (dot_eaten s),
       pill_eaten := disable (pill_eaten s),
       ghost_eaten := disable (ghost_eaten s),
       pacman_eaten := disable (pacman_eaten s),
       fruit_eaten := disable (fruit_eaten s),
       force_leave_house := disable (force_leave_house s),
       fruit_active := disable (fruit_active s)\<rparr>"

definition game_init :: "pacman_state \<Rightarrow> pacman_state option" where
  "game_init s = do {
     let s = input_enable s;
     let s = game_disable_timers s;
     let s = s\<lparr>round := 0\<rparr>;
     let s = s\<lparr>freeze := FREEZETYPE_PRELUDE\<rparr>;
     let s = s\<lparr>num_lives := s8 NUM_LIVES\<rparr>;
     let s = s\<lparr>global_dot_counter_active := False\<rparr>;
     let s = s\<lparr>global_dot_counter := 0\<rparr>;
     let s = s\<lparr>num_dots_eaten := 0\<rparr>;
     let s = s\<lparr>score := 0\<rparr>;
     let s = vid_clear s TILE_SPACE;
     s \<leftarrow> vid_color_text s (i2 9 0) ''HIGH SCORE'';
     let s = game_init_playfield s;
     s \<leftarrow> vid_color_text s (i2 9 14) ''PLAYER ONE'';
     vid_color_text s (i2 11 20) ''READY!''
   }"

text \<open>The initial ghost of \<^verbatim>\<open>game_round_init\<close>; fields the initialiser leaves out are zero.\<close>

definition initial_ghost :: "ghosttype_t \<Rightarrow> dir_t \<Rightarrow> ghoststate_t \<Rightarrow> u16 \<Rightarrow> ghost_t" where
  "initial_ghost t d st limit =
     \<lparr> actor = \<lparr>dir = d, pos = ghost_starting_pos t, anim_tick = 0\<rparr>,
       gtype = t, next_dir = d, target_pos = \<lparr>i2_x = 0, i2_y = 0\<rparr>, gstate = st,
       frightened = disabled_timer, eaten = disabled_timer, dot_counter = 0, dot_limit = limit \<rparr>"

definition game_round_init :: "pacman_state \<Rightarrow> pacman_state option" where
  "game_round_init s = do {
     s \<leftarrow> vid_color_text s (i2 9 14) ''          '';
     let s = (if num_dots_eaten s = NUM_DOTS then
                (let s = s\<lparr>round := round s + 1\<rparr>;
                     s = s\<lparr>num_dots_eaten := 0\<rparr>;
                     s = game_init_playfield s
                 in s\<lparr>global_dot_counter_active := False\<rparr>)
              else
                (let s = (if num_lives s \<noteq> NUM_LIVES
                          then s\<lparr>global_dot_counter_active := True, global_dot_counter := 0\<rparr>
                          else s)
                 in s\<lparr>num_lives := s8 (num_lives s - 1)\<rparr>));
     assert (num_lives s \<ge> 0);
     let s = s\<lparr>active_fruit := FRUIT_NONE\<rparr>;
     let s = s\<lparr>freeze := FREEZETYPE_READY\<rparr>;
     let s = s\<lparr>xorshift := 0x12345678\<rparr>;
     let s = s\<lparr>num_ghosts_eaten := 0\<rparr>;
     let s = game_disable_timers s;
     s \<leftarrow> vid_color_text s (i2 11 20) ''READY!'';
     let s = s\<lparr>force_leave_house := start s (force_leave_house s)\<rparr>;
     let s = s\<lparr>pacman1 := \<lparr>pm_actor =
               \<lparr>dir = DIR_LEFT, pos = \<lparr>i2_x = 14 * 8, i2_y = 26 * 8 + 4\<rparr>, anim_tick = 0\<rparr>\<rparr>\<rparr>;
     let s = s\<lparr>pacman2 := \<lparr>pm_actor =
               \<lparr>dir = DIR_RIGHT, pos = \<lparr>i2_x = 14 * 8, i2_y = 26 * 8 + 4\<rparr>, anim_tick = 0\<rparr>\<rparr>\<rparr>;
     let s = s\<lparr>ghost := (ghost s)(GHOSTTYPE_BLINKY :=
               initial_ghost GHOSTTYPE_BLINKY DIR_LEFT GHOSTSTATE_SCATTER 0)\<rparr>;
     let s = s\<lparr>ghost := (ghost s)(GHOSTTYPE_PINKY :=
               initial_ghost GHOSTTYPE_PINKY DIR_DOWN GHOSTSTATE_HOUSE 0)\<rparr>;
     let s = s\<lparr>ghost := (ghost s)(GHOSTTYPE_INKY :=
               initial_ghost GHOSTTYPE_INKY DIR_UP GHOSTSTATE_HOUSE 30)\<rparr>;
     let s = s\<lparr>ghost := (ghost s)(GHOSTTYPE_CLYDE :=
               initial_ghost GHOSTTYPE_CLYDE DIR_UP GHOSTSTATE_HOUSE 60)\<rparr>;
     Some s
   }"

section \<open>The game tick, the intro tick and the frame loop\<close>

definition TILE_GHOST :: u8 where "TILE_GHOST = 0xB0"
definition TILE_LIFE :: u8 where "TILE_LIFE = 0x20"

text \<open>Column 0 of \<^verbatim>\<open>fruit_tiles_colors\<close>: the tile code of a fruit.\<close>

definition fruit_tile_code :: "fruit_t \<Rightarrow> u8" where
  "fruit_tile_code f = (case f of
       FRUIT_NONE \<Rightarrow> 0
     | FRUIT_CHERRIES \<Rightarrow> 0x90
     | FRUIT_STRAWBERRY \<Rightarrow> 0x94
     | FRUIT_PEACH \<Rightarrow> 0x98
     | FRUIT_APPLE \<Rightarrow> 0xA0
     | FRUIT_GRAPES \<Rightarrow> 0xA4
     | FRUIT_GALAXIAN \<Rightarrow> 0xA8
     | FRUIT_BELL \<Rightarrow> 0x9C
     | FRUIT_KEY \<Rightarrow> 0xAC)"

text \<open>
  \<^verbatim>\<open>game_update_tiles\<close>: the loop over the lives, and the loop over the last seven rounds
  that draws the fruit list from right to left (\<^verbatim>\<open>x\<close> is the loop's column variable). The
  pill colours and the blinking of a won round touch the colour buffer only.
\<close>

fun lives_loop :: "int list \<Rightarrow> pacman_state \<Rightarrow> pacman_state option" where
  "lives_loop [] s = Some s"
| "lives_loop (i # is) s = do {
     s' \<leftarrow> vid_draw_tile_quad s (i2 (2 + 2 * i) 34) TILE_LIFE;
     lives_loop is s'
   }"

fun fruits_loop :: "int list \<Rightarrow> int \<Rightarrow> pacman_state \<Rightarrow> pacman_state option" where
  "fruits_loop [] x s = Some s"
| "fruits_loop (i # is) x s =
     (if i \<ge> 0 then do {
        ls \<leftarrow> levelspec i;
        let tile_code = fruit_tile_code (bonus_fruit ls);
        s' \<leftarrow> vid_draw_tile_quad s (i2 x 34) tile_code;
        fruits_loop is (s16 (x - 2)) s'
      }
      else fruits_loop is x s)"

definition game_update_tiles :: "pacman_state \<Rightarrow> pacman_state option" where
  "game_update_tiles s = do {
     s \<leftarrow> vid_color_score s (i2 6 1) (score s);
     s \<leftarrow> (if hiscore s > 0 then vid_color_score s (i2 16 1) (hiscore s) else Some s);
     s \<leftarrow> (if after_once s (fruit_eaten s) (2 * 60) then vid_fruit_score s FRUIT_NONE else Some s);
     s \<leftarrow> lives_loop [0, 1, 2, 3, 4, 5] s;
     fruits_loop (map (\<lambda>k. uint (round s) - 7 + 1 + k) [0, 1, 2, 3, 4, 5, 6]) 24 s
   }"

text \<open>
  \<^verbatim>\<open>game_tick\<close> in three parts: what it does before the actor update, the update (run when
  no freeze flag is set), and what it does after it. \<^verbatim>\<open>game_update_sprites\<close> writes
  sprites only. The debug switches have their values of the source: \<^verbatim>\<open>DBG_ESCAPE\<close> is on,
  \<^verbatim>\<open>DBG_SKIP_PRELUDE\<close>, \<^verbatim>\<open>DBG_GODMODE\<close> and \<^verbatim>\<open>DBG_MARKERS\<close> are off.
\<close>

definition game_tick_begin :: "pacman_state \<Rightarrow> pacman_state option" where
  "game_tick_begin s = do {
     s \<leftarrow> (if now s (started s) then do {
             let s = s\<lparr>fadein := start s (fadein s)\<rparr>;
             let s = s\<lparr>ready_started := start_after s (ready_started s) (2 * 60)\<rparr>;
             game_init s
           } else Some s);
     s \<leftarrow> (if now s (ready_started s) then do {
             s \<leftarrow> game_round_init s;
             Some (s\<lparr>round_started := start_after s (round_started s) (2 * 60 + 10)\<rparr>)
           } else Some s);
     s \<leftarrow> (if now s (round_started s) then do {
             let s = s\<lparr>freeze := freeze s AND NOT FREEZETYPE_READY\<rparr>;
             vid_color_text s (i2 11 20) ''      ''
           } else Some s);
     s \<leftarrow> (if now s (fruit_active s) then do {
             ls \<leftarrow> levelspec (uint (round s));
             Some (s\<lparr>active_fruit := bonus_fruit ls\<rparr>)
           }
           else if after_once s (fruit_active s) FRUITACTIVE_TICKS
           then Some (s\<lparr>active_fruit := FRUIT_NONE\<rparr>)
           else Some s);
     ls \<leftarrow> levelspec (uint (round s));
     Some (if freeze s AND FREEZETYPE_EAT_GHOST \<noteq> 0 then
             (if after_once s (ghost_eaten s) GHOST_EATEN_FREEZE_TICKS
              then s\<lparr>freeze := freeze s AND NOT FREEZETYPE_EAT_GHOST\<rparr>
              else s)
           else s)
   }"

definition game_tick_end :: "pacman_state \<Rightarrow> pacman_state option" where
  "game_tick_end s = do {
     s \<leftarrow> game_update_tiles s;
     let s = (if score s > hiscore s then s\<lparr>hiscore := score s\<rparr> else s);
     let s = (if now s (round_won s) then
                (let s = s\<lparr>freeze := freeze s OR FREEZETYPE_WON\<rparr>
                 in s\<lparr>ready_started := start_after s (ready_started s) ROUNDWON_TICKS\<rparr>)
              else s);
     s \<leftarrow> (if now s (game_over s) then do {
             s \<leftarrow> vid_color_text s (i2 9 20) ''GAME  OVER'';
             let s = input_disable s;
             let s = s\<lparr>fadeout := start_after s (fadeout s) GAMEOVER_TICKS\<rparr>;
             Some (s\<lparr>intro_started := start_after s (intro_started s) (GAMEOVER_TICKS + FADE_TICKS)\<rparr>)
           } else Some s);
     Some (if esc (input1 s) then
             (let s = input_disable s;
                  s = s\<lparr>fadeout := start s (fadeout s)\<rparr>
              in s\<lparr>intro_started := start_after s (intro_started s) FADE_TICKS\<rparr>)
           else s)
   }"

definition game_tick :: "pacman_state \<Rightarrow> pacman_state option" where
  "game_tick s = do {
     s \<leftarrow> game_tick_begin s;
     s \<leftarrow> (if freeze s = 0 then game_update_actors s else Some s);
     game_tick_end s
   }"

text \<open>\<^verbatim>\<open>vid_char\<close> and \<^verbatim>\<open>vid_text\<close>, the variants without a colour.\<close>

definition vid_char :: "pacman_state \<Rightarrow> int2_t \<Rightarrow> char \<Rightarrow> pacman_state option" where
  "vid_char s tile_pos chr = do {
     assert (valid_tile_pos tile_pos);
     Some (s\<lparr>video_ram := (video_ram s)
       (i2_y tile_pos := (video_ram s (i2_y tile_pos))(i2_x tile_pos := conv_char chr))\<rparr>)
   }"

fun vid_text_loop :: "int2_t \<Rightarrow> string \<Rightarrow> pacman_state \<Rightarrow> pacman_state option" where
  "vid_text_loop tile_pos [] s = Some s"
| "vid_text_loop tile_pos (chr # text) s =
     (if i2_x tile_pos < DISPLAY_TILES_X then do {
        s' \<leftarrow> vid_char s tile_pos chr;
        vid_text_loop (tile_pos\<lparr>i2_x := s16 (i2_x tile_pos + 1)\<rparr>) text s'
      }
      else Some s)"

definition vid_text :: "pacman_state \<Rightarrow> int2_t \<Rightarrow> string \<Rightarrow> pacman_state option" where
  "vid_text s tile_pos text = do {
     assert (valid_tile_pos tile_pos);
     vid_text_loop tile_pos text s
   }"

text \<open>
  \<^verbatim>\<open>intro_tick\<close>. The loop over the four ghost lines threads the local \<^verbatim>\<open>delay\<close>; \<^verbatim>\<open>y\<close> is
  a \<^verbatim>\<open>uint8_t\<close>.
\<close>

definition intro_names :: "string list" where
  "intro_names = [''-TOMMY'', ''-AUTUMN'', ''-MIKE'', ''-UNIX'']"

definition intro_nicknames :: "string list" where
  "intro_nicknames = [''BLINKY'', ''PINKY'', ''INKY'', ''CLYDE'']"

fun intro_lines_loop :: "int list \<Rightarrow> u32 \<Rightarrow> pacman_state \<Rightarrow> (u32 \<times> pacman_state) option" where
  "intro_lines_loop [] delay s = Some (delay, s)"
| "intro_lines_loop (i # is) delay s = do {
     let y = (3 * i + 6) mod 256;
     let delay = delay + 30;
     s \<leftarrow> (if after_once s (intro_started s) delay then do {
             s \<leftarrow> vid_color_tile s (i2 4 (y + 0)) (TILE_GHOST + 0);
             s \<leftarrow> vid_color_tile s (i2 5 (y + 0)) (TILE_GHOST + 1);
             s \<leftarrow> vid_color_tile s (i2 4 (y + 1)) (TILE_GHOST + 2);
             s \<leftarrow> vid_color_tile s (i2 5 (y + 1)) (TILE_GHOST + 3);
             s \<leftarrow> vid_color_tile s (i2 4 (y + 2)) (TILE_GHOST + 4);
             vid_color_tile s (i2 5 (y + 2)) (TILE_GHOST + 5)
           } else Some s);
     let delay = delay + 60;
     s \<leftarrow> (if after_once s (intro_started s) delay
           then vid_color_text s (i2 7 (y + 1)) (intro_names ! nat i) else Some s);
     let delay = delay + 30;
     s \<leftarrow> (if after_once s (intro_started s) delay
           then vid_color_text s (i2 17 (y + 1)) (intro_nicknames ! nat i) else Some s);
     intro_lines_loop is delay s
   }"

definition intro_tick :: "pacman_state \<Rightarrow> pacman_state option" where
  "intro_tick s = do {
     s \<leftarrow> (if now s (intro_started s) then do {
             let s = s\<lparr>fadein := start s (fadein s)\<rparr>;
             let s = input_enable s;
             let s = vid_clear s TILE_SPACE;
             s \<leftarrow> vid_text s (i2 3 0) ''1UP   HIGH SCORE   2UP'';
             s \<leftarrow> vid_color_score s (i2 6 1) 0;
             s \<leftarrow> (if hiscore s > 0 then vid_color_score s (i2 16 1) (hiscore s) else Some s);
             s \<leftarrow> vid_text s (i2 7 5) ''CHARACTER / NICKNAME'';
             vid_text s (i2 3 35) ''CREDIT  0''
           } else Some s);
     let delay = 30;
     r \<leftarrow> intro_lines_loop [0, 1, 2, 3] delay s;
     let delay = fst r;
     let s = snd r;
     let delay = delay + 60;
     s \<leftarrow> (if after_once s (intro_started s) delay then do {
             s \<leftarrow> vid_color_tile s (i2 10 24) TILE_DOT;
             s \<leftarrow> vid_text s (i2 12 24) [CHR ''1'', CHR ''0'', CHR '' '', CHR 0x5D, CHR 0x5E, CHR 0x5F];
             s \<leftarrow> vid_color_tile s (i2 10 26) TILE_PILL;
             vid_text s (i2 12 26) [CHR ''5'', CHR ''0'', CHR '' '', CHR 0x5D, CHR 0x5E, CHR 0x5F]
           } else Some s);
     let delay = delay + 60;
     s \<leftarrow> (if after s (intro_started s) delay then
             (if since s (intro_started s) AND 0x20 \<noteq> 0
              then vid_color_text s (i2 3 31) ''                       ''
              else vid_color_text s (i2 3 31) ''PRESS ANY KEY TO START!'')
           else Some s);
     Some (if anykey (input1 s) then
             (let s = input_disable s;
                  s = s\<lparr>fadeout := start s (fadeout s)\<rparr>
              in s\<lparr>started := start_after s (started s) FADE_TICKS\<rparr>)
           else s)
   }"

text \<open>
  One round of the \<^verbatim>\<open>while\<close> loop of \<^verbatim>\<open>frame\<close>: the tick counter advances, the game state
  follows the two start triggers, and the tick function of the game state runs. The state
  after \<^verbatim>\<open>init\<close> is the zero-initialised struct with the intro trigger armed.
\<close>

definition tick_advance :: "pacman_state \<Rightarrow> pacman_state" where
  "tick_advance s =
     (let s = s\<lparr>timing_tick := timing_tick s + 1\<rparr>;
          s = (if now s (intro_started s) then s\<lparr>gamestate := GAMESTATE_INTRO\<rparr> else s)
      in if now s (started s) then s\<lparr>gamestate := GAMESTATE_GAME\<rparr> else s)"

definition frame_tick :: "pacman_state \<Rightarrow> pacman_state option" where
  "frame_tick s =
     (let s = tick_advance s in
      case gamestate s of
        GAMESTATE_INTRO \<Rightarrow> intro_tick s
      | GAMESTATE_GAME \<Rightarrow> game_tick s)"

text \<open>
  The fields that the ghost code and the tile writes never touch; used to state what a step
  leaves unchanged.
\<close>

definition players_of :: "pacman_state \<Rightarrow> pacman_t \<times> pacman_t \<times> bool \<times> u32 \<times> input_t \<times> input_t" where
  "players_of s = (pacman1 s, pacman2 s, player2 s, timing_tick s, input1 s, input2 s)"

section \<open>Concrete states\<close>

text \<open>
  The static struct \<^verbatim>\<open>state\<close> is zero-initialised at program start: every trigger holds
  tick 0, every enum its first value. The examples below are built from it.
\<close>

definition state_zero :: pacman_state where
  "state_zero = \<lparr> gamestate = GAMESTATE_INTRO, timing_tick = 0, intro_started = \<lparr>tick = 0\<rparr>,
     xorshift = 0, hiscore = 0, started = \<lparr>tick = 0\<rparr>, ready_started = \<lparr>tick = 0\<rparr>,
     round_started = \<lparr>tick = 0\<rparr>, round_won = \<lparr>tick = 0\<rparr>, game_over = \<lparr>tick = 0\<rparr>,
     dot_eaten = \<lparr>tick = 0\<rparr>, pill_eaten = \<lparr>tick = 0\<rparr>, ghost_eaten = \<lparr>tick = 0\<rparr>,
     pacman_eaten = \<lparr>tick = 0\<rparr>, fruit_eaten = \<lparr>tick = 0\<rparr>, force_leave_house = \<lparr>tick = 0\<rparr>,
     fruit_active = \<lparr>tick = 0\<rparr>, freeze = 0, round = 0, score = 0, num_lives = 0,
     num_ghosts_eaten = 0, num_dots_eaten = 0, global_dot_counter_active = False,
     global_dot_counter = 0,
     ghost = (\<lambda>_. \<lparr> actor = \<lparr>dir = DIR_RIGHT, pos = \<lparr>i2_x = 0, i2_y = 0\<rparr>, anim_tick = 0\<rparr>,
        gtype = GHOSTTYPE_BLINKY, next_dir = DIR_RIGHT, target_pos = \<lparr>i2_x = 0, i2_y = 0\<rparr>,
        gstate = GHOSTSTATE_NONE, frightened = \<lparr>tick = 0\<rparr>, eaten = \<lparr>tick = 0\<rparr>,
        dot_counter = 0, dot_limit = 0 \<rparr>),
     pacman1 = \<lparr> pm_actor = \<lparr>dir = DIR_RIGHT, pos = \<lparr>i2_x = 0, i2_y = 0\<rparr>, anim_tick = 0\<rparr> \<rparr>,
     pacman2 = \<lparr> pm_actor = \<lparr>dir = DIR_RIGHT, pos = \<lparr>i2_x = 0, i2_y = 0\<rparr>, anim_tick = 0\<rparr> \<rparr>,
     player2 = False, active_fruit = FRUIT_NONE,
     input1 = \<lparr>enabled = False, up = False, down = False, left = False, right = False,
                esc = False, anykey = False\<rparr>,
     input2 = \<lparr>enabled = False, up = False, down = False, left = False, right = False,
                esc = False, anykey = False\<rparr>,
     fadein = \<lparr>tick = 0\<rparr>, fadeout = \<lparr>tick = 0\<rparr>,
     video_ram = (\<lambda>_ _. 0) \<rparr>"



definition initial_state :: pacman_state where
  "initial_state = state_zero\<lparr>intro_started := start state_zero (intro_started state_zero)\<rparr>"

text \<open>
  The states the program can be in between two ticks: from the initial state, by ticks that
  return and by key events, in any order.
\<close>

inductive_set reachable :: "pacman_state set" where
  reachable_init: "initial_state \<in> reachable"
| reachable_tick: "s \<in> reachable \<Longrightarrow> frame_tick s = Some s' \<Longrightarrow> s' \<in> reachable"
| reachable_input: "s \<in> reachable \<Longrightarrow> input ev s \<in> reachable"

text \<open>Running a schedule of ticks (\<open>None\<close>) and key events from a state.\<close>

fun run :: "sapp_event option list \<Rightarrow> pacman_state \<Rightarrow> pacman_state option" where
  "run [] s = Some s"
| "run (None # es) s = do { s' \<leftarrow> frame_tick s; run es s' }"
| "run (Some ev # es) s = run es (input ev s)"

text \<open>
  The state of a first round at tick \<open>1120\<close>, the tick on which \<^verbatim>\<open>round_started\<close> fires and
  the READY freeze ends: the game was started at tick 870, the round initialised at tick 990.
  All actors are where \<^verbatim>\<open>game_round_init\<close> puts them and no dot is eaten yet.
\<close>

definition round_start_state :: pacman_state where
  "round_start_state = state_zero\<lparr>
     gamestate := GAMESTATE_GAME, timing_tick := 1120, xorshift := 0x12345678,
     started := \<lparr>tick = 870\<rparr>, ready_started := \<lparr>tick = 990\<rparr>, round_started := \<lparr>tick = 1120\<rparr>,
     round_won := disabled_timer, game_over := disabled_timer, dot_eaten := disabled_timer,
     pill_eaten := disabled_timer, ghost_eaten := disabled_timer, pacman_eaten := disabled_timer,
     fruit_eaten := disabled_timer, force_leave_house := \<lparr>tick = 991\<rparr>,
     fruit_active := disabled_timer, freeze := 0, num_lives := 5,
     ghost := (\<lambda>t. case t of
         GHOSTTYPE_BLINKY \<Rightarrow> initial_ghost GHOSTTYPE_BLINKY DIR_LEFT GHOSTSTATE_SCATTER 0
       | GHOSTTYPE_PINKY \<Rightarrow> initial_ghost GHOSTTYPE_PINKY DIR_DOWN GHOSTSTATE_HOUSE 0
       | GHOSTTYPE_INKY \<Rightarrow> initial_ghost GHOSTTYPE_INKY DIR_UP GHOSTSTATE_HOUSE 30
       | GHOSTTYPE_CLYDE \<Rightarrow> initial_ghost GHOSTTYPE_CLYDE DIR_UP GHOSTSTATE_HOUSE 60),
     pacman1 := \<lparr>pm_actor = \<lparr>dir = DIR_LEFT, pos = \<lparr>i2_x = 112, i2_y = 212\<rparr>, anim_tick = 0\<rparr>\<rparr>,
     pacman2 := \<lparr>pm_actor = \<lparr>dir = DIR_RIGHT, pos = \<lparr>i2_x = 112, i2_y = 212\<rparr>, anim_tick = 0\<rparr>\<rparr>,
     input1 := \<lparr>enabled = True, up = False, down = False, left = False, right = False,
                esc = False, anykey = False\<rparr>,
     input2 := \<lparr>enabled = True, up = False, down = False, left = False, right = False,
                esc = False, anykey = False\<rparr>,
     video_ram := video_ram (game_init_playfield (vid_clear state_zero TILE_SPACE))\<rparr>"



text \<open>
  Later states of the same round, for the examples: Blinky chasing while \<open>pacman1\<close> is the
  active agent; Blinky as eyes at the house entrance, and a little later inside the house;
  \<open>pacman1\<close> one pixel before the bonus fruit; the global dot counter at Clyde's threshold.
\<close>

definition chase_state :: pacman_state where
  "chase_state = round_start_state\<lparr>timing_tick := 1601, player2 := True,
     pacman1 := \<lparr>pm_actor = \<lparr>dir = DIR_LEFT, pos = \<lparr>i2_x = 60, i2_y = 212\<rparr>, anim_tick = 52\<rparr>\<rparr>,
     ghost := (ghost round_start_state)(GHOSTTYPE_BLINKY :=
       (ghost round_start_state GHOSTTYPE_BLINKY)\<lparr>
          actor := \<lparr>dir = DIR_UP, pos = \<lparr>i2_x = 172, i2_y = 40\<rparr>, anim_tick = 300\<rparr>,
          next_dir := DIR_UP, target_pos := \<lparr>i2_x = 25, i2_y = 0\<rparr>,
          gstate := GHOSTSTATE_CHASE\<rparr>)\<rparr>"

definition eyes_state :: pacman_state where
  "eyes_state = round_start_state\<lparr>timing_tick := 2000, pill_eaten := \<lparr>tick = 1900\<rparr>,
     ghost := (ghost round_start_state)(GHOSTTYPE_BLINKY :=
       (ghost round_start_state GHOSTTYPE_BLINKY)\<lparr>
          actor := \<lparr>dir = DIR_LEFT, pos = \<lparr>i2_x = 113, i2_y = 116\<rparr>, anim_tick = 700\<rparr>,
          next_dir := DIR_LEFT, target_pos := \<lparr>i2_x = 13, i2_y = 14\<rparr>,
          gstate := GHOSTSTATE_EYES, frightened := \<lparr>tick = 1900\<rparr>, eaten := \<lparr>tick = 1950\<rparr>\<rparr>)\<rparr>"

definition enterhouse_state :: pacman_state where
  "enterhouse_state = eyes_state\<lparr>timing_tick := 2020,
     ghost := (ghost eyes_state)(GHOSTTYPE_BLINKY :=
       (ghost eyes_state GHOSTTYPE_BLINKY)\<lparr>
          actor := \<lparr>dir = DIR_DOWN, pos = \<lparr>i2_x = 112, i2_y = 139\<rparr>, anim_tick = 724\<rparr>,
          next_dir := DIR_DOWN, gstate := GHOSTSTATE_ENTERHOUSE\<rparr>)\<rparr>"

definition fruit_state :: pacman_state where
  "fruit_state = round_start_state\<lparr>timing_tick := 3001, player2 := True,
     active_fruit := FRUIT_CHERRIES, fruit_active := \<lparr>tick = 2900\<rparr>,
     pill_eaten := \<lparr>tick = 2700\<rparr>, num_ghosts_eaten := 2, num_dots_eaten := 70, score := 194,
     pacman1 := \<lparr>pm_actor = \<lparr>dir = DIR_RIGHT, pos = \<lparr>i2_x = 109, i2_y = 164\<rparr>, anim_tick = 900\<rparr>\<rparr>\<rparr>"

text \<open>The same tick with \<open>pacman2\<close> as the active agent, in the place of \<open>pacman1\<close>.\<close>

definition fruit_state2 :: pacman_state where
  "fruit_state2 = fruit_state\<lparr>player2 := False, pacman2 := pacman1 fruit_state\<rparr>"

definition frightened_state :: pacman_state where
  "frightened_state = chase_state\<lparr>timing_tick := 2801, pill_eaten := \<lparr>tick = 2700\<rparr>,
     num_ghosts_eaten := 3, score := 434,
     pacman1 := \<lparr>pm_actor = \<lparr>dir = DIR_UP, pos = \<lparr>i2_x = 172, i2_y = 46\<rparr>, anim_tick = 800\<rparr>\<rparr>,
     ghost := (ghost chase_state)(GHOSTTYPE_BLINKY :=
       (ghost chase_state GHOSTTYPE_BLINKY)\<lparr>gstate := GHOSTSTATE_FRIGHTENED,
          frightened := \<lparr>tick = 2700\<rparr>\<rparr>)\<rparr>"


text \<open>
  The house a little later, at tick 2020: Blinky, still in ENTERHOUSE, is one pixel above its
  slot, and a pill was eaten one tick before, at tick 2019, which armed every frightened
  trigger for tick 2020.
\<close>

definition enterhouse_pill_state :: pacman_state where
  "enterhouse_pill_state = enterhouse_state\<lparr>pill_eaten := \<lparr>tick = 2020\<rparr>, num_ghosts_eaten := 0,
     ghost := (\<lambda>i. (ghost enterhouse_state i)\<lparr>frightened := \<lparr>tick = 2020\<rparr>\<rparr>)\<rparr>"

section \<open>Notions used in the statements\<close>

text \<open>
  The state with the fields blanked that the ghost code writes: two states with the same
  \<open>ghost_frame\<close> differ at most in the ghosts, the random number, the force-leave-house
  trigger and the dot-counter mode.
\<close>

definition ghost_frame :: "pacman_state \<Rightarrow> pacman_state" where
  "ghost_frame s = s\<lparr>ghost := (\<lambda>_. ghost state_zero GHOSTTYPE_BLINKY), xorshift := 0,
     force_leave_house := \<lparr>tick = 0\<rparr>, global_dot_counter_active := False\<rparr>"

text \<open>
  The test of the collision loop that finds an eatable ghost (ghost \<open>i\<close> is FRIGHTENED and on
  the tile), the test of the fruit branch (a fruit is active and the tile half a tile to the
  right of the actor is the fruit tile), and the sum of the score terms of \<open>m\<close> ghosts eaten
  in a row when the counter is \<open>c\<close> before the first.
\<close>

definition eaten_here :: "pacman_state \<Rightarrow> int2_t \<Rightarrow> ghosttype_t \<Rightarrow> bool" where
  "eaten_here s tile_pos i =
     (gstate (ghost s i) = GHOSTSTATE_FRIGHTENED \<and>
      equal_i2 tile_pos (pixel_to_tile_pos (pos (actor (ghost s i)))))"

fun ghost_scores :: "nat \<Rightarrow> nat \<Rightarrow> u32" where
  "ghost_scores c 0 = 0"
| "ghost_scores c (Suc m) = 10 * 2 ^ (Suc c mod 32) + ghost_scores (Suc c) m"

definition on_fruit :: "pacman_state \<Rightarrow> actor_t \<Rightarrow> bool" where
  "on_fruit s a = (active_fruit s \<noteq> FRUIT_NONE \<and>
     equal_i2 (pixel_to_tile_pos (add_i2 (pos a) (i2 (cdiv TILE_WIDTH 2) 0))) (i2 14 20))"

section \<open>The maze as a map\<close>

text \<open>
  The tile that \<^verbatim>\<open>game_init_playfield\<close> writes at column \<open>x\<close> of row \<open>y\<close>, and the tiles of the
  playfield that do not block. Left and right of the tunnel row the map has four pockets of
  non-blocking tiles (columns 0 to 4 and 23 to 27 of rows 13 to 15 and 19 to 21) that are
  closed by walls on every side; the other non-blocking tiles are the ones an actor can
  walk on.
\<close>

definition maze_tile :: "int \<Rightarrow> int \<Rightarrow> u8" where
  "maze_tile x y = playfield_code (playfield_rows ! nat (y - 3) ! nat x)"

definition free_tile :: "int \<Rightarrow> int \<Rightarrow> bool" where
  "free_tile x y = (0 \<le> x \<and> x < 28 \<and> 3 \<le> y \<and> y \<le> 33 \<and> maze_tile x y < 0xC0)"

definition side_pocket :: "int \<Rightarrow> int \<Rightarrow> bool" where
  "side_pocket x y = ((x \<le> 4 \<or> 23 \<le> x) \<and> (13 \<le> y \<and> y \<le> 15 \<or> 19 \<le> y \<and> y \<le> 21))"

definition walk :: "int \<Rightarrow> int \<Rightarrow> bool" where
  "walk x y = (free_tile x y \<and> \<not> side_pocket x y)"

definition wrap_x :: "int \<Rightarrow> int" where
  "wrap_x x = (if x < 0 then 27 else if x > 27 then 0 else x)"

section \<open>Simplification sets\<close>

lemmas const_defs = TILE_WIDTH_def TILE_HEIGHT_def DISPLAY_TILES_X_def DISPLAY_TILES_Y_def
  DISPLAY_PIXELS_X_def DISPLAY_PIXELS_Y_def ANTEPORTAS_X_def ANTEPORTAS_Y_def
  TILE_SPACE_def TILE_DOT_def TILE_PILL_def TILE_DOOR_def DISABLED_TICKS_def NUM_DOTS_def




lemmas player_defs = update_pacman1_def update_pacman2_def pacman_move_def pacman_eat_dot_def
  pacman_eat_pill_def pacman1_eat_fruit_def pacman2_eat_fruit_def pacman_ghost_collision_def
  ALL_GHOSTS_def input_dir_def can_move_def move_def is_dot_def is_pill_def is_blocking_tile_def
  tile_code_at_def assert_def

section \<open>Arithmetic helpers\<close>

lemma s16_id: "- 32768 \<le> n \<Longrightarrow> n < 32768 \<Longrightarrow> s16 n = n"
  by (simp add: s16_def)

lemma cdiv_nonneg: "0 \<le> a \<Longrightarrow> 0 < b \<Longrightarrow> cdiv a b = a div b"
  by (cases "a = 0") (simp_all add: cdiv_def)

lemma cmod_nonneg: "0 \<le> a \<Longrightarrow> 0 < b \<Longrightarrow> cmod a b = a mod b"
  by (simp add: cmod_def cdiv_nonneg minus_mult_div_eq_mod)

section \<open>Time triggers (C4, C5)\<close>

lemma since_disabled:
  assumes "tick t = DISABLED_TICKS" and "timing_tick s \<noteq> DISABLED_TICKS"
  shows "since s t = DISABLED_TICKS"
proof -
  have m: "DISABLED_TICKS = (- 1 :: u32)" by (simp add: DISABLED_TICKS_def)
  have "timing_tick s \<noteq> - 1" using assms(2) m by simp
  then have "\<not> (- 1 \<le> timing_tick s)" by (simp add: word_order.extremum_unique)
  then show ?thesis using assms(1) m by (simp add: since_def)
qed

text \<open>
  Claim C4. Arming a trigger with \<^verbatim>\<open>start\<close> at tick \<open>T\<close> (the tick of state \<open>s\<close>) makes
  \<^verbatim>\<open>now\<close> true exactly at the states whose tick is \<open>T + 1\<close>; \<^verbatim>\<open>since\<close> evaluated \<open>k\<close>
  ticks after \<open>T + 1\<close> returns \<open>k\<close>, for every \<open>k\<close> for which the 32-bit tick counter does
  not wrap around between tick \<open>T + 1\<close> and tick \<open>T + 1 + k\<close>; at every tick strictly before
  the armed tick \<^verbatim>\<open>since\<close> returns the sentinel \<^verbatim>\<open>DISABLED_TICKS\<close>.
\<close>

theorem trigger_start_now_since:
  "(now s' (start s t) \<longleftrightarrow> timing_tick s' = timing_tick s + 1) \<and>
   (timing_tick s' = timing_tick s + 1 + k \<and> unat (timing_tick s + 1) + unat k < 2 ^ 32
      \<longrightarrow> since s' (start s t) = k) \<and>
   (timing_tick s' < timing_tick s + 1 \<longrightarrow> since s' (start s t) = DISABLED_TICKS)"
proof -
  have a: "now s' (start s t) \<longleftrightarrow> timing_tick s' = timing_tick s + 1"
    by (auto simp: now_def start_def)
  have b: "since s' (start s t) = k"
    if "timing_tick s' = timing_tick s + 1 + k" "unat (timing_tick s + 1) + unat k < 2 ^ 32"
  proof -
    have "timing_tick s + 1 \<le> timing_tick s + 1 + k"
      using that(2) by (simp add: no_olen_add_nat)
    then show ?thesis using that(1) by (simp add: since_def start_def)
  qed
  have c: "since s' (start s t) = DISABLED_TICKS" if "timing_tick s' < timing_tick s + 1"
    using that by (auto simp: since_def start_def)
  show ?thesis using a b c by blast
qed

theorem trigger_start_now_since_witness:
  "now (state_zero\<lparr>timing_tick := 6\<rparr>) (start (state_zero\<lparr>timing_tick := 5\<rparr>) disabled_timer) \<and>
   \<not> now (state_zero\<lparr>timing_tick := 7\<rparr>) (start (state_zero\<lparr>timing_tick := 5\<rparr>) disabled_timer) \<and>
   since (state_zero\<lparr>timing_tick := 9\<rparr>) (start (state_zero\<lparr>timing_tick := 5\<rparr>) disabled_timer) = 3 \<and>
   since (state_zero\<lparr>timing_tick := 2\<rparr>) (start (state_zero\<lparr>timing_tick := 5\<rparr>) disabled_timer)
     = DISABLED_TICKS"
  using trigger_start_now_since [of "state_zero\<lparr>timing_tick := 6\<rparr>" "state_zero\<lparr>timing_tick := 5\<rparr>" disabled_timer 0]
    trigger_start_now_since [of "state_zero\<lparr>timing_tick := 7\<rparr>" "state_zero\<lparr>timing_tick := 5\<rparr>" disabled_timer 0]
    trigger_start_now_since [of "state_zero\<lparr>timing_tick := 9\<rparr>" "state_zero\<lparr>timing_tick := 5\<rparr>" disabled_timer 3]
    trigger_start_now_since [of "state_zero\<lparr>timing_tick := 2\<rparr>" "state_zero\<lparr>timing_tick := 5\<rparr>" disabled_timer 0]
  by (simp add: state_zero_def)

text \<open>
  Claim C5. A disabled trigger (its tick is the sentinel \<^verbatim>\<open>DISABLED_TICKS\<close>) satisfies none
  of \<^verbatim>\<open>now\<close>, \<^verbatim>\<open>before\<close>, \<^verbatim>\<open>after\<close> and \<^verbatim>\<open>between\<close>, for every argument \<open>n\<close> and every
  \<open>lo < hi\<close>, at every tick of a game session: the data model takes the sentinel never to
  equal a real tick, so the ticks of a session are the ticks other than the sentinel.
  \<^verbatim>\<open>between\<close> returns (its assertion holds) and returns false.
\<close>

theorem disabled_trigger_never_fires:
  assumes "tick t = DISABLED_TICKS" and "timing_tick s \<noteq> DISABLED_TICKS" and "lo < hi"
  shows "\<not> now s t \<and> \<not> before s t n \<and> \<not> after s t n \<and> between s t lo hi = Some False"
  using assms since_disabled [OF assms(1,2)]
  by (auto simp: now_def before_def after_def between_def assert_def)

theorem disabled_trigger_never_fires_witness:
  "\<not> now (state_zero\<lparr>timing_tick := 100\<rparr>) (disable \<lparr>tick = 7\<rparr>) \<and>
   \<not> before (state_zero\<lparr>timing_tick := 100\<rparr>) (disable \<lparr>tick = 7\<rparr>) 60 \<and>
   \<not> after (state_zero\<lparr>timing_tick := 100\<rparr>) (disable \<lparr>tick = 7\<rparr>) 60 \<and>
   between (state_zero\<lparr>timing_tick := 100\<rparr>) (disable \<lparr>tick = 7\<rparr>) 0 60 = Some False"
  using disabled_trigger_never_fires [of "disable \<lparr>tick = 7\<rparr>" "state_zero\<lparr>timing_tick := 100\<rparr>" 0 60 60]
  by (simp add: state_zero_def disable_def DISABLED_TICKS_def)

section \<open>Tunnel wraparound (C8)\<close>

lemma move_x_horizontal:
  "i2_x (move p DIR_LEFT c) = (let x = s16 (i2_x p - 1) in if x < 0 then 223 else if x \<ge> 224 then 0 else x)"
  "i2_x (move p DIR_RIGHT c) = (let x = s16 (i2_x p + 1) in if x < 0 then 223 else if x \<ge> 224 then 0 else x)"
  by (simp_all add: move_def Let_def dir_to_vec_def add_i2_def const_defs s16_id)

lemma move_x_vertical_nocorner:
  "d = DIR_UP \<or> d = DIR_DOWN \<Longrightarrow> 0 \<le> i2_x p \<Longrightarrow> i2_x p < 224 \<Longrightarrow> i2_x (move p d False) = i2_x p"
  by (auto simp add: move_def Let_def dir_to_vec_def add_i2_def const_defs s16_id)

lemma move_x_vertical_corner:
  assumes "d = DIR_UP \<or> d = DIR_DOWN" "0 \<le> i2_x p" "i2_x p < 224"
  shows "\<bar>i2_x (move p d True) - i2_x p\<bar> \<le> 1"
proof -
  let ?x = "i2_x p"
  have m: "cmod ?x 8 = ?x mod 8" using assms by (simp add: cmod_nonneg)
  have dm: "i2_x (dist_to_tile_mid (add_i2 p (dir_to_vec d))) = 4 - ?x mod 8"
    using assms m by (auto simp: dist_to_tile_mid_def add_i2_def dir_to_vec_def i2_def const_defs s16_id cdiv_nonneg)
  have x0: "i2_x (add_i2 p (dir_to_vec d)) = ?x"
    using assms by (auto simp: add_i2_def dir_to_vec_def s16_id)
  have vy: "i2_x (dir_to_vec d) = 0" "i2_y (dir_to_vec d) \<noteq> 0"
    using assms(1) by (auto simp: dir_to_vec_def)
  consider "?x = 0" | "?x = 223" | "1 \<le> ?x \<and> ?x \<le> 222" using assms by linarith
  then show ?thesis
  proof cases
    case 1
    then show ?thesis using dm x0 vy by (simp add: move_def Let_def const_defs s16_id)
  next
    case 2
    then show ?thesis using dm x0 vy by (simp add: move_def Let_def const_defs s16_id)
  next
    case 3
    then show ?thesis using dm x0 vy by (auto simp add: move_def Let_def const_defs s16_id)
  qed
qed

lemma move_x_step:
  assumes "0 \<le> i2_x p" and "i2_x p < DISPLAY_PIXELS_X"
  shows "(i2_x p = 0 \<longrightarrow> i2_x (move p DIR_LEFT c) = DISPLAY_PIXELS_X - 1) \<and>
         (i2_x p = DISPLAY_PIXELS_X - 1 \<longrightarrow> i2_x (move p DIR_RIGHT c) = 0) \<and>
         (\<not> (d = DIR_LEFT \<and> i2_x p = 0) \<and> \<not> (d = DIR_RIGHT \<and> i2_x p = DISPLAY_PIXELS_X - 1)
            \<longrightarrow> \<bar>i2_x (move p d c) - i2_x p\<bar> \<le> 1)"
proof -
  have r: "0 \<le> i2_x p" "i2_x p < 224" using assms by (simp_all add: const_defs)
  have a: "i2_x p = 0 \<longrightarrow> i2_x (move p DIR_LEFT c) = DISPLAY_PIXELS_X - 1"
    by (simp add: move_x_horizontal const_defs s16_id)
  have b: "i2_x p = DISPLAY_PIXELS_X - 1 \<longrightarrow> i2_x (move p DIR_RIGHT c) = 0"
    by (simp add: move_x_horizontal const_defs s16_id)
  have c: "\<bar>i2_x (move p d c) - i2_x p\<bar> \<le> 1"
    if "\<not> (d = DIR_LEFT \<and> i2_x p = 0)" "\<not> (d = DIR_RIGHT \<and> i2_x p = DISPLAY_PIXELS_X - 1)"
  proof (cases d)
    case DIR_RIGHT
    then show ?thesis using that r by (simp add: move_x_horizontal const_defs s16_id Let_def)
  next
    case DIR_LEFT
    then show ?thesis using that r by (simp add: move_x_horizontal const_defs s16_id Let_def)
  next
    case DIR_DOWN
    then show ?thesis using r move_x_vertical_corner[of d p] move_x_vertical_nocorner[of d p]
      by (cases c) simp_all
  next
    case DIR_UP
    then show ?thesis using r move_x_vertical_corner[of d p] move_x_vertical_nocorner[of d p]
      by (cases c) simp_all
  qed
  show ?thesis using a b c by blast
qed

text \<open>Facts of the map, by evaluation: the border rows and columns, and the walls around the pockets.\<close>

lemma maze_rows_3_33: "list_all (\<lambda>x. \<not> free_tile x 3 \<and> \<not> free_tile x 33) [0..27]"
  by code_simp

lemma maze_columns_0_27:
  "list_all (\<lambda>y. \<not> free_tile 0 y \<and> \<not> free_tile 27 y) ([3..12] @ [16] @ [18] @ [22..33])"
  by code_simp

lemma maze_tunnel_ends: "free_tile 0 17 \<and> free_tile 27 17"
  by code_simp

lemma maze_pocket_walls_x:
  "list_all (\<lambda>y. \<not> free_tile 5 y \<and> \<not> free_tile 22 y) ([13..15] @ [19..21])"
  by code_simp

lemma maze_pocket_walls_y:
  "list_all (\<lambda>x. list_all (\<lambda>y. \<not> free_tile x y) [12, 16, 18, 22]) ([0..4] @ [23..27])"
  by code_simp

lemma border_rows_blocked: "0 \<le> x \<Longrightarrow> x \<le> 27 \<Longrightarrow> \<not> free_tile x 3 \<and> \<not> free_tile x 33"
  using maze_rows_3_33 unfolding list_all_iff set_upto by simp

lemma border_columns_blocked:
  "3 \<le> y \<Longrightarrow> y \<le> 33 \<Longrightarrow> y \<le> 12 \<or> y = 16 \<or> y = 18 \<or> 22 \<le> y \<Longrightarrow> \<not> free_tile 0 y \<and> \<not> free_tile 27 y"
  using maze_columns_0_27 unfolding list_all_iff set_append set_upto by auto

lemma pocket_walls_x:
  "13 \<le> y \<and> y \<le> 15 \<or> 19 \<le> y \<and> y \<le> 21 \<Longrightarrow> \<not> free_tile 5 y \<and> \<not> free_tile 22 y"
  using maze_pocket_walls_x unfolding list_all_iff set_append set_upto by auto

lemma pocket_walls_y:
  "0 \<le> x \<and> x \<le> 4 \<or> 23 \<le> x \<and> x \<le> 27 \<Longrightarrow> y = 12 \<or> y = 16 \<or> y = 18 \<or> y = 22 \<Longrightarrow> \<not> free_tile x y"
  using maze_pocket_walls_y unfolding list_all_iff set_append set_upto by auto

lemma free_tile_rows: "free_tile x y \<Longrightarrow> 4 \<le> y \<and> y \<le> 32"
proof -
  assume f: "free_tile x y"
  then have r: "0 \<le> x" "x \<le> 27" "3 \<le> y" "y \<le> 33" by (auto simp: free_tile_def)
  from border_rows_blocked [OF r(1) r(2)] f show ?thesis using r by (cases "y = 3"; cases "y = 33") auto
qed

lemma walk_bounds: "walk x y \<Longrightarrow> 0 \<le> x \<and> x < 28 \<and> 4 \<le> y \<and> y \<le> 32"
  using free_tile_rows [of x y] by (auto simp: walk_def free_tile_def)

lemma walk_border: "walk x y \<Longrightarrow> x = 0 \<or> x = 27 \<Longrightarrow> y = 17"
proof (rule ccontr)
  assume w: "walk x y" and x: "x = 0 \<or> x = 27" and n: "y \<noteq> 17"
  from w have b: "3 \<le> y" "y \<le> 33" and f: "free_tile x y" and p: "\<not> side_pocket x y"
    by (auto simp: walk_def free_tile_def)
  from p x have "y \<le> 12 \<or> y = 16 \<or> y = 18 \<or> 22 \<le> y"
    using b n unfolding side_pocket_def by arith
  from border_columns_blocked [OF b this] f x show False by auto
qed

lemma walk_tunnel: "walk 0 17" "walk 27 17"
  using maze_tunnel_ends by (simp_all add: walk_def side_pocket_def)

text \<open>
  The walkable tiles are closed: a non-blocking tile next to a walkable tile (with the
  columns 0 and 27 next to each other) is walkable, so no step from tile to tile leads from
  a walkable tile into a pocket.
\<close>

lemma pocket_border:
  assumes "side_pocket x y" and "\<not> side_pocket x' y'" and "0 \<le> x'" "x' < 28"
    and "(x' = wrap_x (x + 1) \<and> y' = y) \<or> (x' = wrap_x (x - 1) \<and> y' = y) \<or> (x' = x \<and> y' = y + 1) \<or> (x' = x \<and> y' = y - 1)"
    and "0 \<le> x" "x < 28"
  shows "\<not> free_tile x' y'"
proof -
  from assms have "(x' = 5 \<or> x' = 22) \<and> (13 \<le> y' \<and> y' \<le> 15 \<or> 19 \<le> y' \<and> y' \<le> 21) \<or>
      (0 \<le> x' \<and> x' \<le> 4 \<or> 23 \<le> x' \<and> x' \<le> 27) \<and> (y' = 12 \<or> y' = 16 \<or> y' = 18 \<or> y' = 22)"
    unfolding side_pocket_def wrap_x_def by (elim disjE conjE; simp split: if_splits; arith)
  then show ?thesis
    using pocket_walls_x [of y'] pocket_walls_y [of x' y'] by blast
qed

lemma walk_closed:
  assumes w: "walk x y" and f: "free_tile x' y'"
    and n: "(x' = wrap_x (x + 1) \<and> y' = y) \<or> (x' = wrap_x (x - 1) \<and> y' = y) \<or> (x' = x \<and> y' = y + 1) \<or> (x' = x \<and> y' = y - 1)"
  shows "walk x' y'"
proof (rule ccontr)
  assume "\<not> walk x' y'"
  with f have p: "side_pocket x' y'" by (simp add: walk_def)
  from w have np: "\<not> side_pocket x y" and b: "0 \<le> x" "x < 28" and fx: "free_tile x y"
    by (auto simp: walk_def free_tile_def)
  from f have b': "0 \<le> x'" "x' < 28" by (auto simp: free_tile_def)
  from n b b' have "(x = wrap_x (x' + 1) \<and> y = y') \<or> (x = wrap_x (x' - 1) \<and> y = y') \<or> (x = x' \<and> y = y' + 1) \<or> (x = x' \<and> y = y' - 1)"
    by (auto simp: wrap_x_def split: if_splits)
  from pocket_border [OF p np b this b'] fx show False by simp
qed

lemma pixel_tile:
  assumes "0 \<le> i2_x p" "i2_x p < 224" "0 \<le> i2_y p" "i2_y p < 288"
  shows "pixel_to_tile_pos p = \<lparr>i2_x = i2_x p div 8, i2_y = i2_y p div 8\<rparr>"
proof -
  from assms have "0 \<le> i2_x p div 8" "i2_x p div 8 < 28" "0 \<le> i2_y p div 8" "i2_y p div 8 < 36"
    by presburger+
  with assms show ?thesis
    by (simp add: pixel_to_tile_pos_def i2_def const_defs cdiv_nonneg s16_id)
qed

text \<open>
  Claim C8. Let \<open>p\<close> be a pixel of the display on a walkable tile, the kind of position an
  actor has, and let \<open>d\<close> be any direction, with or without cornering. Moving left from
  \<open>x = 0\<close> gives \<open>x = DISPLAY_PIXELS_X - 1\<close>, moving right from \<open>x = DISPLAY_PIXELS_X - 1\<close>
  gives \<open>x = 0\<close>, and these are moves on the tunnel row: whenever the tile of \<open>p\<close> is not a
  tunnel tile of row 17, the horizontal coordinate changes by at most one pixel, so it does
  not wrap.
\<close>

theorem move_wraps_only_on_tunnel_row:
  assumes "0 \<le> i2_x p" and "i2_x p < DISPLAY_PIXELS_X" and "0 \<le> i2_y p" and "i2_y p < DISPLAY_PIXELS_Y"
    and "walk (i2_x (pixel_to_tile_pos p)) (i2_y (pixel_to_tile_pos p))"
  shows "(i2_x p = 0 \<longrightarrow> i2_x (move p DIR_LEFT c) = DISPLAY_PIXELS_X - 1 \<and> is_tunnel (pixel_to_tile_pos p)) \<and>
         (i2_x p = DISPLAY_PIXELS_X - 1 \<longrightarrow> i2_x (move p DIR_RIGHT c) = 0 \<and> is_tunnel (pixel_to_tile_pos p)) \<and>
         (\<not> is_tunnel (pixel_to_tile_pos p) \<longrightarrow> \<bar>i2_x (move p d c) - i2_x p\<bar> \<le> 1)"
proof -
  have r: "0 \<le> i2_x p" "i2_x p < 224" "0 \<le> i2_y p" "i2_y p < 288"
    using assms by (simp_all add: const_defs)
  have t: "pixel_to_tile_pos p = \<lparr>i2_x = i2_x p div 8, i2_y = i2_y p div 8\<rparr>"
    using r by (rule pixel_tile)
  have w: "walk (i2_x p div 8) (i2_y p div 8)" using assms(5) t by simp
  have e: "is_tunnel (pixel_to_tile_pos p)" if "i2_x p = 0 \<or> i2_x p = 223"
  proof -
    from that have "i2_x p div 8 = 0 \<or> i2_x p div 8 = 27" by auto
    with w walk_border have "i2_y p div 8 = 17" by blast
    with \<open>i2_x p div 8 = 0 \<or> i2_x p div 8 = 27\<close> show ?thesis by (auto simp: t is_tunnel_def)
  qed
  note m = move_x_step [OF assms(1) assms(2), of c d]
  have a: "i2_x p = 0 \<longrightarrow> i2_x (move p DIR_LEFT c) = DISPLAY_PIXELS_X - 1 \<and> is_tunnel (pixel_to_tile_pos p)"
    using m e by simp
  have b: "i2_x p = DISPLAY_PIXELS_X - 1 \<longrightarrow> i2_x (move p DIR_RIGHT c) = 0 \<and> is_tunnel (pixel_to_tile_pos p)"
    using m e by (simp add: const_defs)
  have c: "\<not> is_tunnel (pixel_to_tile_pos p) \<longrightarrow> \<bar>i2_x (move p d c) - i2_x p\<bar> \<le> 1"
    using m e by (auto simp: const_defs)
  show ?thesis using a b c by blast
qed

theorem move_wraps_only_on_tunnel_row_witness:
  "walk (i2_x (pixel_to_tile_pos (i2 0 140))) (i2_y (pixel_to_tile_pos (i2 0 140))) \<and>
   i2_x (move (i2 0 140) DIR_LEFT True) = 223 \<and> is_tunnel (pixel_to_tile_pos (i2 0 140)) \<and>
   walk (i2_x (pixel_to_tile_pos (i2 223 140))) (i2_y (pixel_to_tile_pos (i2 223 140))) \<and>
   i2_x (move (i2 223 140) DIR_RIGHT True) = 0 \<and>
   walk (i2_x (pixel_to_tile_pos (i2 100 36))) (i2_y (pixel_to_tile_pos (i2 100 36))) \<and>
   \<not> is_tunnel (pixel_to_tile_pos (i2 100 36)) \<and>
   \<bar>i2_x (move (i2 100 36) DIR_LEFT True) - 100\<bar> \<le> 1"
proof -
  have w1: "walk (i2_x (pixel_to_tile_pos (i2 0 140))) (i2_y (pixel_to_tile_pos (i2 0 140)))"
    and w2: "walk (i2_x (pixel_to_tile_pos (i2 223 140))) (i2_y (pixel_to_tile_pos (i2 223 140)))"
    and w3: "walk (i2_x (pixel_to_tile_pos (i2 100 36))) (i2_y (pixel_to_tile_pos (i2 100 36)))"
    and n3: "\<not> is_tunnel (pixel_to_tile_pos (i2 100 36))"
    by code_simp+
  have r: "i2_x (i2 0 140) = 0" "i2_y (i2 0 140) = 140" "i2_x (i2 223 140) = 223" "i2_y (i2 223 140) = 140"
    "i2_x (i2 100 36) = 100" "i2_y (i2 100 36) = 36"
    by (simp_all add: i2_def s16_def)
  show ?thesis
    using move_wraps_only_on_tunnel_row [where p = "i2 0 140" and d = DIR_LEFT and c = True]
      move_wraps_only_on_tunnel_row [where p = "i2 223 140" and d = DIR_RIGHT and c = True]
      move_wraps_only_on_tunnel_row [where p = "i2 100 36" and d = DIR_LEFT and c = True]
      w1 w2 w3 n3 r
    by (simp add: const_defs)
qed


section \<open>What the steps leave unchanged\<close>

lemma assert_Some [simp]: "(assert b = Some u) = b"
  by (simp add: assert_def)

lemma players_of_upd [simp]:
  "players_of (s\<lparr>score := a\<rparr>) = players_of s"
  "players_of (s\<lparr>dot_eaten := t\<rparr>) = players_of s"
  "players_of (s\<lparr>pill_eaten := t\<rparr>) = players_of s"
  "players_of (s\<lparr>fruit_eaten := t\<rparr>) = players_of s"
  "players_of (s\<lparr>ghost_eaten := t\<rparr>) = players_of s"
  "players_of (s\<lparr>pacman_eaten := t\<rparr>) = players_of s"
  "players_of (s\<lparr>force_leave_house := t\<rparr>) = players_of s"
  "players_of (s\<lparr>ready_started := t\<rparr>) = players_of s"
  "players_of (s\<lparr>game_over := t\<rparr>) = players_of s"
  "players_of (s\<lparr>round_won := t\<rparr>) = players_of s"
  "players_of (s\<lparr>fruit_active := t\<rparr>) = players_of s"
  "players_of (s\<lparr>num_ghosts_eaten := n\<rparr>) = players_of s"
  "players_of (s\<lparr>num_dots_eaten := n\<rparr>) = players_of s"
  "players_of (s\<lparr>active_fruit := f\<rparr>) = players_of s"
  "players_of (s\<lparr>freeze := fr\<rparr>) = players_of s"
  "players_of (s\<lparr>ghost := gs\<rparr>) = players_of s"
  "players_of (s\<lparr>global_dot_counter_active := b\<rparr>) = players_of s"
  "players_of (s\<lparr>global_dot_counter := n\<rparr>) = players_of s"
  "players_of (s\<lparr>xorshift := r\<rparr>) = players_of s"
  "players_of (s\<lparr>video_ram := v\<rparr>) = players_of s"
  by (simp_all add: players_of_def)

lemma vid_tile_players: "vid_tile s p c = Some s' \<Longrightarrow> players_of s' = players_of s"
  by (auto simp: vid_tile_def split: Option.bind_splits)

lemma vid_color_tile_players: "vid_color_tile s p c = Some s' \<Longrightarrow> players_of s' = players_of s"
  by (auto simp: vid_color_tile_def split: Option.bind_splits)

lemma vid_fruit_score_loop_players:
  "vid_fruit_score_loop f is s = Some s' \<Longrightarrow> players_of s' = players_of s"
proof (induction "is" arbitrary: s)
  case Nil
  then show ?case by simp
next
  case (Cons i "is")
  then show ?case
    by (auto split: Option.bind_splits dest!: vid_color_tile_players)
qed

lemma vid_fruit_score_players: "vid_fruit_score s f = Some s' \<Longrightarrow> players_of s' = players_of s"
  unfolding vid_fruit_score_def by (rule vid_fruit_score_loop_players)

lemma dot_counter_loop_players [simp]: "players_of (dot_counter_loop is s) = players_of s"
  by (induction "is") simp_all

lemma dot_counters_players [simp]: "players_of (game_update_ghosthouse_dot_counters s) = players_of s"
  by (simp add: game_update_ghosthouse_dot_counters_def)

lemma dots_eaten_players [simp]: "players_of (game_update_dots_eaten s) = players_of s"
  by (simp add: game_update_dots_eaten_def Let_def)

lemma frighten_ghosts_players [simp]: "players_of (frighten_ghosts s) = players_of s"
  by (simp add: frighten_ghosts_def ALL_GHOSTS_def)

lemma eat_dot_players: "pacman_eat_dot tp s = Some s' \<Longrightarrow> players_of s' = players_of s"
  by (auto simp: pacman_eat_dot_def Let_def split: Option.bind_splits if_splits
      dest!: vid_tile_players)

lemma eat_pill_players: "pacman_eat_pill tp s = Some s' \<Longrightarrow> players_of s' = players_of s"
  by (auto simp: pacman_eat_pill_def Let_def split: Option.bind_splits if_splits
      dest!: vid_tile_players)

lemma pacman1_eat_fruit_players: "pacman1_eat_fruit a s = Some s' \<Longrightarrow> players_of s' = players_of s"
  by (auto simp: pacman1_eat_fruit_def Let_def split: Option.bind_splits if_splits
      dest!: vid_fruit_score_players)


lemma collision_players: "pacman_ghost_collision tp i s = Some s' \<Longrightarrow> players_of s' = players_of s"
  by (auto simp: pacman_ghost_collision_def Let_def split: Option.bind_splits if_splits)

lemma collisions_players: "pacman_ghost_collisions tp is s = Some s' \<Longrightarrow> players_of s' = players_of s"
proof (induction "is" arbitrary: s)
  case Nil
  then show ?case by simp
next
  case (Cons i "is")
  then show ?case
    by (auto split: Option.bind_splits dest!: collision_players)
qed



lemma ghost_target_players [simp]: "players_of (game_update_ghost_target i s) = players_of s"
  by (simp add: game_update_ghost_target_def Let_def xorshift32_def split: ghoststate_t.splits ghosttype_t.splits)








section \<open>Totality of the ghost code\<close>

text \<open>
  Every tile read of the ghost code goes through \<^verbatim>\<open>clamped_tile_pos\<close>, so its assertions
  hold in every state: the ghost part of the actor update always returns.
\<close>

lemma clamped_tile_pos_valid:
  "0 \<le> i2_x (clamped_tile_pos p) \<and> i2_x (clamped_tile_pos p) < 28 \<and>
   3 \<le> i2_y (clamped_tile_pos p) \<and> i2_y (clamped_tile_pos p) \<le> 33"
  by (simp add: clamped_tile_pos_def Let_def const_defs s16_id)

lemma is_blocking_tile_clamped:
  "is_blocking_tile s (clamped_tile_pos p) =
     Some (video_ram s (i2_y (clamped_tile_pos p)) (i2_x (clamped_tile_pos p)) \<ge> 0xC0)"
  using clamped_tile_pos_valid [of p]
  by (simp add: is_blocking_tile_def tile_code_at_def assert_def const_defs)

lemma can_move_total: "\<exists>b. can_move s p d c = Some b"
  by (simp add: can_move_def Let_def is_blocking_tile_clamped del: ex_simps) auto

lemma levelspec_round: "\<exists>ls. levelspec (uint (r :: u8)) = Some ls"
  by (simp add: levelspec_def assert_def)

lemma ghost_new_state_total: "\<exists>r. ghost_new_state i s = Some r"
  using levelspec_round [of "round s"]
  by (auto simp: ghost_new_state_def Let_def split: ghoststate_t.splits)

lemma ghost_state_total: "\<exists>s'. game_update_ghost_state i s = Some s'"
  using ghost_new_state_total [of i s]
  by (auto simp: game_update_ghost_state_def Let_def split: prod.splits)

lemma ghost_dir_step_total: "\<exists>r. ghost_dir_step i la d acc = Some r"
  by (simp add: ghost_dir_step_def Let_def is_blocking_tile_clamped)

lemma ghost_dir_loop_total: "\<exists>r. ghost_dir_loop i la ds acc = Some r"
proof (induction ds arbitrary: acc)
  case Nil
  then show ?case by simp
next
  case (Cons d ds)
  obtain r where "ghost_dir_step i la d acc = Some r" using ghost_dir_step_total by blast
  then show ?case using Cons by simp
qed

lemma ghost_dir_total: "\<exists>r. game_update_ghost_dir i s = Some r"
proof -
  have "\<And>la acc. \<exists>r. ghost_dir_loop i la dirs acc = Some r" by (rule ghost_dir_loop_total)
  then show ?thesis
    by (auto simp: game_update_ghost_dir_def Let_def split: Option.bind_splits)
       (metis option.distinct(1))
qed

lemma ghost_move_loop_total: "\<exists>s'. ghost_move_loop n i s = Some s'"
proof (induction n arbitrary: s)
  case 0
  then show ?case by simp
next
  case (Suc n)
  obtain r where r: "game_update_ghost_dir i s = Some r" using ghost_dir_total by blast
  obtain b where b: "can_move (snd r) (pos (actor (ghost (snd r) i))) (dir (actor (ghost (snd r) i))) False = Some b"
    using can_move_total by blast
  show ?case using r b Suc by (simp add: Let_def)
qed

lemma ghost_ai_total: "\<exists>s'. ghost_ai i s = Some s'"
proof -
  obtain s1 where "game_update_ghost_state i s = Some s1" using ghost_state_total by blast
  then show ?thesis using ghost_move_loop_total by (simp add: ghost_ai_def Let_def)
qed

lemma ghost_ais_total: "\<exists>s'. ghost_ais is s = Some s'"
proof (induction "is" arbitrary: s)
  case Nil
  then show ?case by simp
next
  case (Cons i "is")
  obtain s1 where "ghost_ai i s = Some s1" using ghost_ai_total by blast
  then show ?case using Cons by simp
qed


section \<open>What the ghost code leaves unchanged\<close>

lemma ghost_frame_upd [simp]:
  "ghost_frame (s\<lparr>ghost := g\<rparr>) = ghost_frame s"
  "ghost_frame (s\<lparr>xorshift := x\<rparr>) = ghost_frame s"
  "ghost_frame (s\<lparr>force_leave_house := t\<rparr>) = ghost_frame s"
  "ghost_frame (s\<lparr>global_dot_counter_active := b\<rparr>) = ghost_frame s"
  by (simp_all add: ghost_frame_def)

lemma ghost_new_state_frame:
  "ghost_new_state i s = Some (ns, s') \<Longrightarrow> ghost_frame s' = ghost_frame s"
  by (auto simp: ghost_new_state_def Let_def split: ghoststate_t.splits if_splits Option.bind_splits)

lemma ghost_state_frame: "game_update_ghost_state i s = Some s' \<Longrightarrow> ghost_frame s' = ghost_frame s"
  by (auto simp: game_update_ghost_state_def Let_def split: Option.bind_splits if_splits prod.splits
      dest!: ghost_new_state_frame)

lemma ghost_target_frame [simp]: "ghost_frame (game_update_ghost_target i s) = ghost_frame s"
  by (simp add: game_update_ghost_target_def Let_def xorshift32_def split: ghoststate_t.splits ghosttype_t.splits)

lemma ghost_dir_step_frame:
  "ghost_dir_step i la d acc = Some acc' \<Longrightarrow> ghost_frame (snd acc') = ghost_frame (snd acc)"
  by (auto simp: ghost_dir_step_def Let_def split: Option.bind_splits if_splits)

lemma ghost_dir_loop_frame:
  "ghost_dir_loop i la ds acc = Some acc' \<Longrightarrow> ghost_frame (snd acc') = ghost_frame (snd acc)"
proof (induction ds arbitrary: acc)
  case Nil
  then show ?case by simp
next
  case (Cons d ds)
  then show ?case
    by (auto split: Option.bind_splits dest!: ghost_dir_step_frame)
qed

lemma ghost_dir_frame:
  "game_update_ghost_dir i s = Some r \<Longrightarrow> ghost_frame (snd r) = ghost_frame s"
  by (auto simp: game_update_ghost_dir_def Let_def split: Option.bind_splits if_splits
      dest!: ghost_dir_loop_frame)

lemma ghost_move_loop_frame:
  "ghost_move_loop n i s = Some s' \<Longrightarrow> ghost_frame s' = ghost_frame s"
proof (induction n arbitrary: s)
  case 0
  then show ?case by simp
next
  case (Suc n)
  then show ?case
    by (auto simp: Let_def split: Option.bind_splits if_splits dest!: ghost_dir_frame)
qed

lemma ghost_ai_frame: "ghost_ai i s = Some s' \<Longrightarrow> ghost_frame s' = ghost_frame s"
  by (auto simp: ghost_ai_def Let_def split: Option.bind_splits
      dest!: ghost_state_frame ghost_move_loop_frame)

lemma ghost_ais_frame: "ghost_ais is s = Some s' \<Longrightarrow> ghost_frame s' = ghost_frame s"
proof (induction "is" arbitrary: s)
  case Nil
  then show ?case by simp
next
  case (Cons i "is")
  then show ?case
    by (auto split: Option.bind_splits dest!: ghost_ai_frame)
qed

lemma ghost_frame_fields:
  assumes "ghost_frame s' = ghost_frame s"
  shows "score s' = score s" "num_ghosts_eaten s' = num_ghosts_eaten s" "timing_tick s' = timing_tick s"
    "video_ram s' = video_ram s" "freeze s' = freeze s" "pacman1 s' = pacman1 s" "pacman2 s' = pacman2 s"
    "global_dot_counter s' = global_dot_counter s" "gamestate s' = gamestate s"
    "round_started s' = round_started s" "started s' = started s" "ready_started s' = ready_started s"
    "num_dots_eaten s' = num_dots_eaten s" "num_lives s' = num_lives s" "ghost_eaten s' = ghost_eaten s"
    "pill_eaten s' = pill_eaten s" "round s' = round s"
proof -
  have a: "\<And>f. f (ghost_frame s') = f (ghost_frame s)" using assms by simp
  show "score s' = score s" using a [of score] by (simp add: ghost_frame_def)
  show "num_ghosts_eaten s' = num_ghosts_eaten s" using a [of num_ghosts_eaten] by (simp add: ghost_frame_def)
  show "timing_tick s' = timing_tick s" using a [of timing_tick] by (simp add: ghost_frame_def)
  show "video_ram s' = video_ram s" using a [of video_ram] by (simp add: ghost_frame_def)
  show "freeze s' = freeze s" using a [of freeze] by (simp add: ghost_frame_def)
  show "pacman1 s' = pacman1 s" using a [of pacman1] by (simp add: ghost_frame_def)
  show "pacman2 s' = pacman2 s" using a [of pacman2] by (simp add: ghost_frame_def)
  show "global_dot_counter s' = global_dot_counter s" using a [of global_dot_counter] by (simp add: ghost_frame_def)
  show "gamestate s' = gamestate s" using a [of gamestate] by (simp add: ghost_frame_def)
  show "round_started s' = round_started s" using a [of round_started] by (simp add: ghost_frame_def)
  show "started s' = started s" using a [of started] by (simp add: ghost_frame_def)
  show "ready_started s' = ready_started s" using a [of ready_started] by (simp add: ghost_frame_def)
  show "num_dots_eaten s' = num_dots_eaten s" using a [of num_dots_eaten] by (simp add: ghost_frame_def)
  show "num_lives s' = num_lives s" using a [of num_lives] by (simp add: ghost_frame_def)
  show "ghost_eaten s' = ghost_eaten s" using a [of ghost_eaten] by (simp add: ghost_frame_def)
  show "pill_eaten s' = pill_eaten s" using a [of pill_eaten] by (simp add: ghost_frame_def)
  show "round s' = round s" using a [of round] by (simp add: ghost_frame_def)
qed

text \<open>The ghost code for ghost \<open>j\<close> changes no other ghost, and it never turns a ghost into eyes.\<close>

lemma ghost_new_state_ghost:
  "ghost_new_state j s = Some (ns, s') \<Longrightarrow> ghost s' = ghost s"
  by (auto simp: ghost_new_state_def Let_def split: ghoststate_t.splits if_splits Option.bind_splits)

lemma ghost_new_state_eyes:
  "ghost_new_state j s = Some (ns, s') \<Longrightarrow> ns = GHOSTSTATE_EYES \<Longrightarrow> gstate (ghost s j) = GHOSTSTATE_EYES"
  by (auto simp: ghost_new_state_def Let_def game_scatter_chase_phase_def
      split: ghoststate_t.splits if_splits Option.bind_splits)

lemma ghost_state_others:
  "game_update_ghost_state j s = Some s' \<Longrightarrow> i \<noteq> j \<Longrightarrow> ghost s' i = ghost s i"
  by (auto simp: game_update_ghost_state_def Let_def split: Option.bind_splits if_splits prod.splits
      dest!: ghost_new_state_ghost)

lemma ghost_state_eyes:
  assumes "game_update_ghost_state j s = Some s'" "gstate (ghost s' j) = GHOSTSTATE_EYES"
  shows "gstate (ghost s j) = GHOSTSTATE_EYES"
proof -
  from assms(1) obtain ns s1 where n: "ghost_new_state j s = Some (ns, s1)"
    by (auto simp: game_update_ghost_state_def split: Option.bind_splits prod.splits)
  have g: "ghost s1 = ghost s" using n by (rule ghost_new_state_ghost)
  show ?thesis
  proof (cases "ns = gstate (ghost s1 j)")
    case True
    with assms n g show ?thesis by (simp add: game_update_ghost_state_def)
  next
    case False
    with assms n have "ns = GHOSTSTATE_EYES" by (auto simp: game_update_ghost_state_def Let_def)
    with n show ?thesis by (rule ghost_new_state_eyes)
  qed
qed

lemma ghost_target_others [simp]:
  "i \<noteq> j \<Longrightarrow> ghost (game_update_ghost_target j s) i = ghost s i"
  by (simp add: game_update_ghost_target_def Let_def xorshift32_def split: ghoststate_t.splits ghosttype_t.splits prod.splits)

lemma ghost_target_gstate [simp]:
  "gstate (ghost (game_update_ghost_target j s) i) = gstate (ghost s i)"
  by (cases "i = j") (simp_all add: game_update_ghost_target_def Let_def xorshift32_def
      split: ghoststate_t.splits ghosttype_t.splits prod.splits)

lemma ghost_dir_step_others:
  "ghost_dir_step j la d acc = Some acc' \<Longrightarrow>
     (i \<noteq> j \<longrightarrow> ghost (snd acc') i = ghost (snd acc) i) \<and>
     gstate (ghost (snd acc') i) = gstate (ghost (snd acc) i)"
  by (auto simp: ghost_dir_step_def Let_def split: Option.bind_splits if_splits)

lemma ghost_dir_loop_others:
  "ghost_dir_loop j la ds acc = Some acc' \<Longrightarrow>
     (i \<noteq> j \<longrightarrow> ghost (snd acc') i = ghost (snd acc) i) \<and>
     gstate (ghost (snd acc') i) = gstate (ghost (snd acc) i)"
proof (induction ds arbitrary: acc)
  case Nil
  then show ?case by simp
next
  case (Cons d ds)
  then obtain a1 where a: "ghost_dir_step j la d acc = Some a1" and b: "ghost_dir_loop j la ds a1 = Some acc'"
    by (auto split: Option.bind_splits)
  from ghost_dir_step_others [OF a, of i] Cons.IH [OF b] show ?case by simp
qed

lemma ghost_dir_others:
  "game_update_ghost_dir j s = Some r \<Longrightarrow>
     (i \<noteq> j \<longrightarrow> ghost (snd r) i = ghost s i) \<and> gstate (ghost (snd r) i) = gstate (ghost s i)"
  by (auto simp: game_update_ghost_dir_def Let_def split: Option.bind_splits if_splits
      dest!: ghost_dir_loop_others [where i = i])

lemma ghost_move_loop_others:
  "ghost_move_loop n j s = Some s' \<Longrightarrow>
     (i \<noteq> j \<longrightarrow> ghost s' i = ghost s i) \<and> gstate (ghost s' i) = gstate (ghost s i)"
proof (induction n arbitrary: s)
  case 0
  then show ?case by simp
next
  case (Suc n)
  then obtain r where a: "game_update_ghost_dir j s = Some r"
    by (auto split: Option.bind_splits)
  let ?s1 = "snd r"
  let ?a = "actor (ghost ?s1 j)"
  from Suc.prems a obtain c where
    b: "ghost_move_loop n j (if c then ?s1\<lparr>ghost := (ghost ?s1)(j := (ghost ?s1 j)\<lparr>actor :=
                     ?a\<lparr>pos := move (pos ?a) (dir ?a) False, anim_tick := anim_tick ?a + 1\<rparr>\<rparr>)\<rparr>
              else ?s1) = Some s'"
    by (auto simp: Let_def split: Option.bind_splits)
  from ghost_dir_others [OF a, of i] Suc.IH [OF b] show ?case by (auto split: if_splits)
qed

lemma ghost_ai_others:
  assumes "ghost_ai j s = Some s'"
  shows "(i \<noteq> j \<longrightarrow> ghost s' i = ghost s i) \<and>
         (gstate (ghost s' i) = GHOSTSTATE_EYES \<longrightarrow> gstate (ghost s i) = GHOSTSTATE_EYES)"
proof -
  from assms obtain s1 where a: "game_update_ghost_state j s = Some s1"
    and b: "ghost_move_loop (game_ghost_speed (game_update_ghost_target j s1) (ghost (game_update_ghost_target j s1) j)) j
              (game_update_ghost_target j s1) = Some s'"
    by (auto simp: ghost_ai_def Let_def split: Option.bind_splits)
  from ghost_move_loop_others [OF b, of i]
  have m: "(i \<noteq> j \<longrightarrow> ghost s' i = ghost (game_update_ghost_target j s1) i)"
    "gstate (ghost s' i) = gstate (ghost s1 i)" by simp_all
  show ?thesis
  proof (cases "i = j")
    case True
    with m ghost_state_eyes [OF a] show ?thesis by auto
  next
    case False
    with m ghost_state_others [OF a False] show ?thesis by simp
  qed
qed

lemma ghost_ais_eyes:
  "ghost_ais is s = Some s' \<Longrightarrow> gstate (ghost s' i) = GHOSTSTATE_EYES \<Longrightarrow> gstate (ghost s i) = GHOSTSTATE_EYES"
proof (induction "is" arbitrary: s)
  case Nil
  then show ?case by simp
next
  case (Cons j "is")
  then obtain s1 where a: "ghost_ai j s = Some s1" and b: "ghost_ais is s1 = Some s'"
    by (auto split: Option.bind_splits)
  from Cons.IH [OF b Cons.prems(2)] ghost_ai_others [OF a, of i] show ?case by simp
qed

section \<open>One player agent per tick (C2)\<close>

lemma players_of_pacman1_upd [simp]:
  "players_of (s\<lparr>pacman1 := p\<rparr>) = (p, pacman2 s, player2 s, timing_tick s, input1 s, input2 s)"
  "players_of (s\<lparr>pacman2 := p\<rparr>) = (pacman1 s, p, player2 s, timing_tick s, input1 s, input2 s)"
  by (simp_all add: players_of_def)

lemma update_pacman1_frame:
  assumes "update_pacman1 s = Some s'"
  shows "pacman2 s' = pacman2 s \<and> player2 s' = player2 s \<and> timing_tick s' = timing_tick s"
proof -
  from assms obtain a s1 s2 s3 where
    "pacman_eat_dot (pixel_to_tile_pos (pos a)) (s\<lparr>pacman1 := (pacman1 s)\<lparr>pm_actor := a\<rparr>\<rparr>) = Some s1"
    "pacman_eat_pill (pixel_to_tile_pos (pos a)) s1 = Some s2"
    "pacman1_eat_fruit a s2 = Some s3"
    "pacman_ghost_collisions (pixel_to_tile_pos (pos a)) ALL_GHOSTS s3 = Some s'"
    by (auto simp: update_pacman1_def Let_def split: Option.bind_splits)
  then have "players_of s' = players_of (s\<lparr>pacman1 := (pacman1 s)\<lparr>pm_actor := a\<rparr>\<rparr>)"
    using eat_dot_players eat_pill_players pacman1_eat_fruit_players collisions_players by metis
  then show ?thesis by (simp add: players_of_def)
qed


lemma game_update_actors_eq:
  "game_update_actors s =
     (if game_pacman_should_move s
      then (if player2 s then update_pacman1 s else update_pacman2 s)
      else Some s) \<bind> ghost_ais ALL_GHOSTS"
proof (cases "game_pacman_should_move s \<and> player2 s")
  case True
  show ?thesis
  proof (cases "update_pacman1 s")
    case None
    then show ?thesis using True by (simp add: game_update_actors_def)
  next
    case (Some s1)
    then have "player2 s1" using True update_pacman1_frame by blast
    then show ?thesis using True Some by (simp add: game_update_actors_def)
  qed
next
  case False
  then show ?thesis by (auto simp: game_update_actors_def)
qed








section \<open>Blinky's chase target (C1)\<close>

lemma blinky_chase_target_general:
  assumes "gstate (ghost s i) = GHOSTSTATE_CHASE" and "gtype (ghost s i) = GHOSTTYPE_BLINKY"
  shows "target_pos (ghost (game_update_ghost_target i s) i)
           = pixel_to_tile_pos (pos (pm_actor (pacman2 s)))"
  using assms by (simp add: game_update_ghost_target_def Let_def)

text \<open>
  Claim C1. The code assigns Blinky's chase target twice, \<^verbatim>\<open>pos = pm1_pos; pos = pm2_pos;\<close>,
  so the target is always the tile of \<open>pacman2\<close>. In \<open>chase_state\<close> the flag \<open>player2\<close> is
  true, the player-controlled agent is \<open>pacman1\<close>, on tile (7, 26), and Blinky, in CHASE
  state, is given the tile (14, 26) of the parked \<open>pacman2\<close> as its target.
\<close>

theorem blinky_chase_targets_inactive_pacman2:
  "player2 chase_state \<and>
   gstate (ghost chase_state GHOSTTYPE_BLINKY) = GHOSTSTATE_CHASE \<and>
   gtype (ghost chase_state GHOSTTYPE_BLINKY) = GHOSTTYPE_BLINKY \<and>
   pixel_to_tile_pos (pos (pm_actor (pacman1 chase_state))) = i2 7 26 \<and>
   pixel_to_tile_pos (pos (pm_actor (pacman2 chase_state))) = i2 14 26 \<and>
   target_pos (ghost (game_update_ghost_target GHOSTTYPE_BLINKY chase_state) GHOSTTYPE_BLINKY) = i2 14 26"
  by code_simp

section \<open>The frightened trigger of an eaten ghost (C9)\<close>

lemma before_disabled:
  "tick t = DISABLED_TICKS \<Longrightarrow> timing_tick s \<noteq> DISABLED_TICKS \<Longrightarrow> \<not> before s t n"
  by (simp add: before_def since_disabled)

text \<open>
  What the transition code does, for every state: the trigger is disabled when a ghost
  leaves ENTERHOUSE, and left as it is when a ghost leaves EYES.
\<close>

lemma enterhouse_exit_disables_frightened:
  "(gstate (ghost s i) = GHOSTSTATE_ENTERHOUSE \<and>
    nearequal_i2 (pos (actor (ghost s i))) (ghost_house_target_pos (gtype (ghost s i))) 1 \<longrightarrow>
      (\<exists>s'. game_update_ghost_state i s = Some s' \<and>
            gstate (ghost s' i) = GHOSTSTATE_LEAVEHOUSE \<and>
            tick (frightened (ghost s' i)) = DISABLED_TICKS \<and>
            (\<forall>s'' n. timing_tick s'' \<noteq> DISABLED_TICKS \<longrightarrow> \<not> before s'' (frightened (ghost s' i)) n)))
   \<and> (gstate (ghost s i) = GHOSTSTATE_EYES \<longrightarrow>
      (\<exists>s'. game_update_ghost_state i s = Some s' \<and>
            frightened (ghost s' i) = frightened (ghost s i) \<and>
            (gstate (ghost s' i) = GHOSTSTATE_ENTERHOUSE \<longleftrightarrow>
               nearequal_i2 (pos (actor (ghost s i))) (i2 ANTEPORTAS_X ANTEPORTAS_Y) 1)))"
proof -
  have a: "\<exists>s'. game_update_ghost_state i s = Some s' \<and>
            gstate (ghost s' i) = GHOSTSTATE_LEAVEHOUSE \<and>
            tick (frightened (ghost s' i)) = DISABLED_TICKS \<and>
            (\<forall>s'' n. timing_tick s'' \<noteq> DISABLED_TICKS \<longrightarrow> \<not> before s'' (frightened (ghost s' i)) n)"
    if "gstate (ghost s i) = GHOSTSTATE_ENTERHOUSE"
       "nearequal_i2 (pos (actor (ghost s i))) (ghost_house_target_pos (gtype (ghost s i))) 1"
  proof -
    have "game_update_ghost_state i s =
            Some (s\<lparr>ghost := (ghost s)(i := (ghost s i)\<lparr>frightened := disable (frightened (ghost s i)),
                                                       gstate := GHOSTSTATE_LEAVEHOUSE\<rparr>)\<rparr>)"
      using that by (simp add: game_update_ghost_state_def ghost_new_state_def Let_def)
    then show ?thesis by (simp add: disable_def before_disabled)
  qed
  have b: "\<exists>s'. game_update_ghost_state i s = Some s' \<and>
            frightened (ghost s' i) = frightened (ghost s i) \<and>
            (gstate (ghost s' i) = GHOSTSTATE_ENTERHOUSE \<longleftrightarrow>
               nearequal_i2 (pos (actor (ghost s i))) (i2 ANTEPORTAS_X ANTEPORTAS_Y) 1)"
    if "gstate (ghost s i) = GHOSTSTATE_EYES"
    using that by (simp add: game_update_ghost_state_def ghost_new_state_def Let_def)
  show ?thesis using a b by blast
qed

text \<open>
  Claim C9 does not hold of the code, and the code goes against its own comment. The
  \<^verbatim>\<open>switch\<close> that handles a transition is on the state the ghost \<^emph>\<open>leaves\<close>, so the line
  \<^verbatim>\<open>disable(&ghost->frightened)\<close> under \<^verbatim>\<open>case GHOSTSTATE_ENTERHOUSE\<close>, commented "a ghost
  that was eaten is immune to frighten until Pacman eats another pill", runs when the ghost
  leaves ENTERHOUSE, not when it enters. Two runs show the difference. In \<open>eyes_state\<close> the
  eyes of Blinky reach the house entrance: the ghost enters ENTERHOUSE and its trigger keeps
  the tick 1900 it was armed with. In \<open>enterhouse_pill_state\<close> a pill was eaten at tick 2019
  while Blinky was in ENTERHOUSE, and every frightened trigger holds tick 2020; the actor
  update of tick 2020 takes Blinky to LEAVEHOUSE and disables its trigger, so that Blinky
  does not pass the frightened check for this pill, which Inky, with the same trigger value
  before the update, does.
\<close>

theorem enterhouse_exit_wipes_next_pill:
  "gstate (ghost eyes_state GHOSTTYPE_BLINKY) = GHOSTSTATE_EYES \<and>
   map_option (\<lambda>s'. (gstate (ghost s' GHOSTTYPE_BLINKY), tick (frightened (ghost s' GHOSTTYPE_BLINKY))))
     (game_update_ghost_state GHOSTTYPE_BLINKY eyes_state) = Some (GHOSTSTATE_ENTERHOUSE, 1900) \<and>
   (1900 :: u32) \<noteq> DISABLED_TICKS \<and>
   gstate (ghost enterhouse_pill_state GHOSTTYPE_BLINKY) = GHOSTSTATE_ENTERHOUSE \<and>
   tick (frightened (ghost enterhouse_pill_state GHOSTTYPE_BLINKY)) = 2020 \<and>
   tick (frightened (ghost enterhouse_pill_state GHOSTTYPE_INKY)) = 2020 \<and>
   tick (pill_eaten enterhouse_pill_state) = 2020 \<and> timing_tick enterhouse_pill_state = 2020 \<and>
   map_option (\<lambda>s'. (gstate (ghost s' GHOSTTYPE_BLINKY),
                     tick (frightened (ghost s' GHOSTTYPE_BLINKY)) = DISABLED_TICKS,
                     before s' (frightened (ghost s' GHOSTTYPE_BLINKY)) 360,
                     before s' (frightened (ghost s' GHOSTTYPE_INKY)) 360))
     (game_update_actors enterhouse_pill_state) = Some (GHOSTSTATE_LEAVEHOUSE, True, False, True)"
  by code_simp


section \<open>Effects of single steps of the player code\<close>

lemma assert_True [simp]: "assert True = Some ()"
  by (simp add: assert_def)

lemma dots_eaten_fields [simp]:
  "score (game_update_dots_eaten s) = score s"
  "pill_eaten (game_update_dots_eaten s) = pill_eaten s"
  "num_ghosts_eaten (game_update_dots_eaten s) = num_ghosts_eaten s"
  "ghost (game_update_dots_eaten s) = ghost s"
  "timing_tick (game_update_dots_eaten s) = timing_tick s"
  "video_ram (game_update_dots_eaten s) = video_ram s"
  "global_dot_counter_active (game_update_dots_eaten s) = global_dot_counter_active s"
  "global_dot_counter (game_update_dots_eaten s) = global_dot_counter s"
  by (simp_all add: game_update_dots_eaten_def Let_def)

lemma frighten_ghosts_eq:
  "frighten_ghosts s = s\<lparr>ghost := \<lambda>i. (ghost s i)\<lparr>frightened := start s (frightened (ghost s i))\<rparr>\<rparr>"
proof -
  have "(\<lambda>i. (ghost s i)\<lparr>frightened := start s (frightened (ghost s i))\<rparr>) =
        (ghost s)
        (GHOSTTYPE_BLINKY := (ghost s GHOSTTYPE_BLINKY)\<lparr>frightened := start s (frightened (ghost s GHOSTTYPE_BLINKY))\<rparr>,
         GHOSTTYPE_PINKY := (ghost s GHOSTTYPE_PINKY)\<lparr>frightened := start s (frightened (ghost s GHOSTTYPE_PINKY))\<rparr>,
         GHOSTTYPE_INKY := (ghost s GHOSTTYPE_INKY)\<lparr>frightened := start s (frightened (ghost s GHOSTTYPE_INKY))\<rparr>,
         GHOSTTYPE_CLYDE := (ghost s GHOSTTYPE_CLYDE)\<lparr>frightened := start s (frightened (ghost s GHOSTTYPE_CLYDE))\<rparr>)"
    (is "?l = ?r")
  proof
    fix i show "?l i = ?r i" by (cases i) simp_all
  qed
  then show ?thesis
    by (simp add: frighten_ghosts_def ALL_GHOSTS_def start_def)
qed

lemma vid_fruit_score_explicit:
  "vid_fruit_score s f = Some (s\<lparr>video_ram := (video_ram s)
     (20 := (video_ram s 20)(12 := fruit_score_tiles f ! 0, 13 := fruit_score_tiles f ! 1,
                             14 := fruit_score_tiles f ! 2, 15 := fruit_score_tiles f ! 3))\<rparr>)"
  by (simp add: vid_fruit_score_def vid_color_tile_def valid_tile_pos_def i2_def s16_def
      DISPLAY_TILES_X_def DISPLAY_TILES_Y_def)

lemma vid_fruit_score_eq: "\<exists>v. vid_fruit_score s f = Some (s\<lparr>video_ram := v\<rparr>)"
  using vid_fruit_score_explicit by blast

lemma pacman_eat_pill_effects:
  assumes "is_pill s tp = Some True"
  shows "\<exists>s'. pacman_eat_pill tp s = Some s' \<and> score s' = score s + 5 \<and>
           pill_eaten s' = start s (pill_eaten s) \<and> num_ghosts_eaten s' = 0 \<and>
           (\<forall>i. ghost s' i = (ghost s i)\<lparr>frightened := start s (frightened (ghost s i))\<rparr>)"
proof -
  have v: "valid_tile_pos tp"
    using assms by (auto simp: is_pill_def tile_code_at_def valid_tile_pos_def split: Option.bind_splits)
  show ?thesis
    using assms v
    by (simp add: pacman_eat_pill_def vid_tile_def Let_def frighten_ghosts_eq start_def)
qed

lemma pacman1_eat_fruit_effects:
  assumes "active_fruit s \<noteq> FRUIT_NONE"
    and "equal_i2 (pixel_to_tile_pos (add_i2 (pos a) (i2 (cdiv TILE_WIDTH 2) 0))) (i2 14 20)"
  shows "\<exists>ls s'. levelspec (uint (round s)) = Some ls \<and> pacman1_eat_fruit a s = Some s' \<and>
           score s' = score s + ucast (bonus_score ls) \<and> active_fruit s' = FRUIT_NONE \<and>
           fruit_eaten s' = start s (fruit_eaten s) \<and>
           pill_eaten s' = start s (pill_eaten s) \<and> num_ghosts_eaten s' = 0 \<and>
           (\<forall>i. ghost s' i = (ghost s i)\<lparr>frightened := start s (frightened (ghost s i))\<rparr>)"
proof -
  obtain ls where ls: "levelspec (uint (round s)) = Some ls" using levelspec_round by blast
  let ?s1 = "s\<lparr>fruit_eaten := start s (fruit_eaten s), score := score s + ucast (bonus_score ls)\<rparr>"
  obtain v where v: "vid_fruit_score ?s1 (active_fruit s) = Some (?s1\<lparr>video_ram := v\<rparr>)"
    using vid_fruit_score_eq by blast
  show ?thesis
    using assms ls v
    by (simp add: pacman1_eat_fruit_def Let_def frighten_ghosts_eq start_def)
qed

lemma pacman2_eat_fruit_effects:
  assumes "active_fruit s \<noteq> FRUIT_NONE"
    and "equal_i2 (pixel_to_tile_pos (add_i2 (pos a) (i2 (cdiv TILE_WIDTH 2) 0))) (i2 14 20)"
  shows "\<exists>ls s'. levelspec (uint (round s)) = Some ls \<and> pacman2_eat_fruit a s = Some s' \<and>
           score s' = score s + ucast (bonus_score ls) \<and> active_fruit s' = FRUIT_NONE \<and>
           fruit_eaten s' = start s (fruit_eaten s) \<and>
           pill_eaten s' = pill_eaten s \<and> num_ghosts_eaten s' = num_ghosts_eaten s \<and>
           ghost s' = ghost s"
proof -
  obtain ls where ls: "levelspec (uint (round s)) = Some ls" using levelspec_round by blast
  let ?s1 = "s\<lparr>fruit_eaten := start s (fruit_eaten s), score := score s + ucast (bonus_score ls)\<rparr>"
  obtain v where v: "vid_fruit_score ?s1 (active_fruit s) = Some (?s1\<lparr>video_ram := v\<rparr>)"
    using vid_fruit_score_eq by blast
  show ?thesis
    using assms ls v
    by (simp add: pacman2_eat_fruit_def Let_def start_def)
qed

text \<open>Text output changes the tile buffer only.\<close>

lemma vid_color_char_video: "vid_color_char s p c = Some s' \<Longrightarrow> \<exists>v. s' = s\<lparr>video_ram := v\<rparr>"
  by (auto simp: vid_color_char_def split: Option.bind_splits)

lemma vid_color_text_loop_video:
  "vid_color_text_loop p str s = Some s' \<Longrightarrow> \<exists>v. s' = s\<lparr>video_ram := v\<rparr>"
proof (induction str arbitrary: p s)
  case Nil
  then have "s' = s\<lparr>video_ram := video_ram s\<rparr>" by simp
  then show ?case by blast
next
  case (Cons c str)
  show ?case
  proof (cases "i2_x p < DISPLAY_TILES_X")
    case True
    then obtain s1 where a: "vid_color_char s p c = Some s1"
      and b: "vid_color_text_loop (p\<lparr>i2_x := s16 (i2_x p + 1)\<rparr>) str s1 = Some s'"
      using Cons.prems by (auto split: Option.bind_splits)
    obtain v1 where "s1 = s\<lparr>video_ram := v1\<rparr>" using vid_color_char_video [OF a] by blast
    moreover obtain v2 where "s' = s1\<lparr>video_ram := v2\<rparr>" using Cons.IH [OF b] by blast
    ultimately have "s' = s\<lparr>video_ram := v2\<rparr>" by simp
    then show ?thesis by blast
  next
    case False
    then have "s' = s\<lparr>video_ram := video_ram s\<rparr>" using Cons.prems by simp
    then show ?thesis by blast
  qed
qed

lemma vid_color_text_video:
  "vid_color_text s p str = Some s' \<Longrightarrow> \<exists>v. s' = s\<lparr>video_ram := v\<rparr>"
  by (auto simp: vid_color_text_def split: Option.bind_splits dest: vid_color_text_loop_video)

lemma game_disable_timers_fields [simp]:
  "global_dot_counter_active (game_disable_timers s) = global_dot_counter_active s"
  "num_ghosts_eaten (game_disable_timers s) = num_ghosts_eaten s"
  "num_lives (game_disable_timers s) = num_lives s"
  "timing_tick (game_disable_timers s) = timing_tick s"
  by (simp_all add: game_disable_timers_def)

lemma game_init_playfield_fields [simp]:
  "global_dot_counter_active (game_init_playfield s) = global_dot_counter_active s"
  "num_ghosts_eaten (game_init_playfield s) = num_ghosts_eaten s"
  "num_lives (game_init_playfield s) = num_lives s"
  "num_dots_eaten (game_init_playfield s) = num_dots_eaten s"
  "timing_tick (game_init_playfield s) = timing_tick s"
  by (simp_all add: game_init_playfield_def)

lemma game_round_init_mode:
  assumes "game_round_init s = Some s'"
  shows "global_dot_counter_active s' =
           (if num_dots_eaten s = NUM_DOTS then False
            else if num_lives s \<noteq> NUM_LIVES then True
            else global_dot_counter_active s)
         \<and> num_ghosts_eaten s' = 0"
proof -
  from assms obtain s1 where a: "vid_color_text s (i2 9 14) ''          '' = Some s1"
    by (auto simp: game_round_init_def split: Option.bind_splits)
  obtain v1 where s1: "s1 = s\<lparr>video_ram := v1\<rparr>" using vid_color_text_video [OF a] by blast
  from assms a obtain s2 s3 where
     "vid_color_text s2 (i2 11 20) ''READY!'' = Some s3"
     and m2: "global_dot_counter_active s2 = (if num_dots_eaten s = NUM_DOTS then False
            else if num_lives s \<noteq> NUM_LIVES then True
            else global_dot_counter_active s)"
     and n2: "num_ghosts_eaten s2 = 0"
     and e: "global_dot_counter_active s' = global_dot_counter_active s3 \<and> num_ghosts_eaten s' = num_ghosts_eaten s3"
    by (auto simp: game_round_init_def Let_def s1 split: Option.bind_splits if_splits)
  then show ?thesis using vid_color_text_video by fastforce
qed


section \<open>Eating the bonus fruit (C3)\<close>

text \<open>The collision loop always returns, and it leaves the triggers of the fruit code as they are.\<close>

lemma collision_keeps:
  assumes "pacman_ghost_collision tp i s = Some s'"
  shows "pill_eaten s' = pill_eaten s \<and> fruit_eaten s' = fruit_eaten s \<and> active_fruit s' = active_fruit s \<and>
         timing_tick s' = timing_tick s \<and> (\<forall>j. frightened (ghost s' j) = frightened (ghost s j))"
  using assms
  by (auto simp: pacman_ghost_collision_def Let_def split: if_splits)

lemma collision_total: "\<exists>s'. pacman_ghost_collision tp i s = Some s'"
  by (simp add: pacman_ghost_collision_def Let_def)

lemma collisions_total: "\<exists>s'. pacman_ghost_collisions tp is s = Some s'"
proof (induction "is" arbitrary: s)
  case Nil
  then show ?case by simp
next
  case (Cons i "is")
  obtain s1 where "pacman_ghost_collision tp i s = Some s1" using collision_total by blast
  then show ?case using Cons.IH [of s1] by simp
qed

lemma collisions_keep:
  assumes "pacman_ghost_collisions tp is s = Some s'"
  shows "pill_eaten s' = pill_eaten s \<and> fruit_eaten s' = fruit_eaten s \<and> active_fruit s' = active_fruit s \<and>
         timing_tick s' = timing_tick s \<and> (\<forall>j. frightened (ghost s' j) = frightened (ghost s j))"
  using assms
proof (induction "is" arbitrary: s)
  case Nil
  then show ?case by simp
next
  case (Cons i "is")
  then obtain s1 where a: "pacman_ghost_collision tp i s = Some s1"
    and b: "pacman_ghost_collisions tp is s1 = Some s'"
    by (auto split: Option.bind_splits)
  from collision_keeps [OF a] Cons.IH [OF b] show ?case by simp
qed

lemma eat_dot_none: "is_dot s tp = Some False \<Longrightarrow> pacman_eat_dot tp s = Some s"
  by (simp add: pacman_eat_dot_def)

lemma eat_pill_none: "is_pill s tp = Some False \<Longrightarrow> pacman_eat_pill tp s = Some s"
  by (simp add: pacman_eat_pill_def)

lemma is_dot_pacman [simp]:
  "is_dot (s\<lparr>pacman1 := p\<rparr>) tp = is_dot s tp" "is_dot (s\<lparr>pacman2 := p\<rparr>) tp = is_dot s tp"
  "is_pill (s\<lparr>pacman1 := p\<rparr>) tp = is_pill s tp" "is_pill (s\<lparr>pacman2 := p\<rparr>) tp = is_pill s tp"
  by (simp_all add: is_dot_def is_pill_def tile_code_at_def)

text \<open>
  Claim C3. Take a tick on which the player code runs (\<^verbatim>\<open>game_pacman_should_move\<close>), with
  a fruit active, and let \<open>a\<close> be the actor of the selected agent after its move: \<open>pacman1\<close>,
  the agent of player 1, when the flag \<open>player2\<close> is set, and \<open>pacman2\<close> otherwise. Let \<open>a\<close>
  be on the fruit (the tile half a tile to the right of it is the fruit tile (14, 20)), on
  a tile that holds neither dot nor pill. Then the player code of the selected agent
  returns and the actor update is that code followed by the ghost code. Its fruit branch, run
  in the state \<open>s\<close> with the moved actor, awards the level's bonus score (state \<open>s3\<close>), clears
  the fruit and arms \<open>fruit_eaten\<close>. For \<open>pacman1\<close> it also arms \<open>pill_eaten\<close>, sets the
  ghosts-eaten counter to 0 (in \<open>s3\<close>, before the collision test that follows) and arms the
  frightened trigger of every ghost, which are the three effects of the pill branch (last
  conjunct). For \<open>pacman2\<close> it leaves \<open>pill_eaten\<close>, the counter and every frightened trigger
  as they are.
\<close>

theorem fruit_frightens_for_pacman1_only:
  assumes gate: "game_pacman_should_move s"
    and fruit: "active_fruit s \<noteq> FRUIT_NONE"
    and mv: "pacman_move s (pm_actor (if player2 s then pacman1 s else pacman2 s)) = Some a"
    and on: "equal_i2 (pixel_to_tile_pos (add_i2 (pos a) (i2 (cdiv TILE_WIDTH 2) 0))) (i2 14 20)"
    and nd: "is_dot s (pixel_to_tile_pos (pos a)) = Some False"
    and np: "is_pill s (pixel_to_tile_pos (pos a)) = Some False"
  shows "\<exists>ls s3 s'. levelspec (uint (round s)) = Some ls \<and>
     (if player2 s then pacman1_eat_fruit a (s\<lparr>pacman1 := (pacman1 s)\<lparr>pm_actor := a\<rparr>\<rparr>)
      else pacman2_eat_fruit a (s\<lparr>pacman2 := (pacman2 s)\<lparr>pm_actor := a\<rparr>\<rparr>)) = Some s3 \<and>
     pacman_ghost_collisions (pixel_to_tile_pos (pos a)) ALL_GHOSTS s3 = Some s' \<and>
     (if player2 s then update_pacman1 s else update_pacman2 s) = Some s' \<and>
     game_update_actors s = ghost_ais ALL_GHOSTS s' \<and>
     score s3 = score s + ucast (bonus_score ls) \<and>
     active_fruit s' = FRUIT_NONE \<and> fruit_eaten s' = start s (fruit_eaten s) \<and>
     (player2 s \<longrightarrow> pill_eaten s' = start s (pill_eaten s) \<and> num_ghosts_eaten s3 = 0 \<and>
        (\<forall>i. frightened (ghost s' i) = start s (frightened (ghost s i)))) \<and>
     (\<not> player2 s \<longrightarrow> pill_eaten s' = pill_eaten s \<and> num_ghosts_eaten s3 = num_ghosts_eaten s \<and>
        (\<forall>i. frightened (ghost s' i) = frightened (ghost s i))) \<and>
     (is_pill s0 tp = Some True \<longrightarrow>
        (\<exists>s4. pacman_eat_pill tp s0 = Some s4 \<and>
           pill_eaten s4 = start s0 (pill_eaten s0) \<and> num_ghosts_eaten s4 = 0 \<and>
           (\<forall>i. frightened (ghost s4 i) = start s0 (frightened (ghost s0 i)))))"
proof (cases "player2 s")
  case True
  have pill: "is_pill s0 tp = Some True \<longrightarrow>
        (\<exists>s4. pacman_eat_pill tp s0 = Some s4 \<and>
           pill_eaten s4 = start s0 (pill_eaten s0) \<and> num_ghosts_eaten s4 = 0 \<and>
           (\<forall>i. frightened (ghost s4 i) = start s0 (frightened (ghost s0 i))))"
    using pacman_eat_pill_effects [of s0 tp] by auto
  let ?s0 = "s\<lparr>pacman1 := (pacman1 s)\<lparr>pm_actor := a\<rparr>\<rparr>"
  let ?T = "pixel_to_tile_pos (pos a)"
  have f: "active_fruit ?s0 \<noteq> FRUIT_NONE" using fruit by simp
  from pacman1_eat_fruit_effects [OF f on] obtain ls s3 where
    ls: "levelspec (uint (round s)) = Some ls" and s3: "pacman1_eat_fruit a ?s0 = Some s3"
    and e: "score s3 = score s + ucast (bonus_score ls)" "active_fruit s3 = FRUIT_NONE"
      "fruit_eaten s3 = start s (fruit_eaten s)" "pill_eaten s3 = start s (pill_eaten s)"
      "num_ghosts_eaten s3 = 0"
      "\<forall>i. ghost s3 i = (ghost s i)\<lparr>frightened := start s (frightened (ghost s i))\<rparr>"
    by (auto simp: start_def)
  obtain s' where s': "pacman_ghost_collisions ?T ALL_GHOSTS s3 = Some s'"
    using collisions_total by blast
  have u: "update_pacman1 s = Some s'"
    using mv True nd np s3 s' by (simp add: update_pacman1_def eat_dot_none eat_pill_none)
  have g: "game_update_actors s = ghost_ais ALL_GHOSTS s'"
    using gate True u by (simp add: game_update_actors_eq)
  from collisions_keep [OF s'] e
  have k: "active_fruit s' = FRUIT_NONE" "fruit_eaten s' = start s (fruit_eaten s)"
    "pill_eaten s' = start s (pill_eaten s)"
    "\<forall>i. frightened (ghost s' i) = start s (frightened (ghost s i))"
    by simp_all
  show ?thesis using True ls s3 s' u g e k pill by auto
next
  case False
  have pill: "is_pill s0 tp = Some True \<longrightarrow>
        (\<exists>s4. pacman_eat_pill tp s0 = Some s4 \<and>
           pill_eaten s4 = start s0 (pill_eaten s0) \<and> num_ghosts_eaten s4 = 0 \<and>
           (\<forall>i. frightened (ghost s4 i) = start s0 (frightened (ghost s0 i))))"
    using pacman_eat_pill_effects [of s0 tp] by auto
  let ?s0 = "s\<lparr>pacman2 := (pacman2 s)\<lparr>pm_actor := a\<rparr>\<rparr>"
  let ?T = "pixel_to_tile_pos (pos a)"
  have f: "active_fruit ?s0 \<noteq> FRUIT_NONE" using fruit by simp
  from pacman2_eat_fruit_effects [OF f on] obtain ls s3 where
    ls: "levelspec (uint (round s)) = Some ls" and s3: "pacman2_eat_fruit a ?s0 = Some s3"
    and e: "score s3 = score s + ucast (bonus_score ls)" "active_fruit s3 = FRUIT_NONE"
      "fruit_eaten s3 = start s (fruit_eaten s)" "pill_eaten s3 = pill_eaten s"
      "num_ghosts_eaten s3 = num_ghosts_eaten s"
      "ghost s3 = ghost s"
    by (auto simp: start_def)
  obtain s' where s': "pacman_ghost_collisions ?T ALL_GHOSTS s3 = Some s'"
    using collisions_total by blast
  have u: "update_pacman2 s = Some s'"
    using mv False nd np s3 s' by (simp add: update_pacman2_def eat_dot_none eat_pill_none)
  have g: "game_update_actors s = ghost_ais ALL_GHOSTS s'"
    using gate False u by (simp add: game_update_actors_eq)
  from collisions_keep [OF s'] e
  have k: "active_fruit s' = FRUIT_NONE" "fruit_eaten s' = start s (fruit_eaten s)"
    "pill_eaten s' = pill_eaten s"
    "\<forall>i. frightened (ghost s' i) = frightened (ghost s i)"
    by simp_all
  show ?thesis using False ls s3 s' u g e k pill by auto
qed

theorem fruit_frightens_for_pacman1_only_witness:
  "game_pacman_should_move fruit_state \<and> player2 fruit_state \<and> active_fruit fruit_state \<noteq> FRUIT_NONE \<and>
   pacman_move fruit_state (pm_actor (pacman1 fruit_state)) =
     Some \<lparr>dir = DIR_RIGHT, pos = \<lparr>i2_x = 110, i2_y = 164\<rparr>, anim_tick = 901\<rparr> \<and>
   map_option (\<lambda>s'. (active_fruit s', tick (fruit_eaten s'), tick (pill_eaten s'),
        tick (frightened (ghost s' GHOSTTYPE_CLYDE)))) (update_pacman1 fruit_state)
     = Some (FRUIT_NONE, 3002, 3002, 3002) \<and>
   game_pacman_should_move fruit_state2 \<and> \<not> player2 fruit_state2 \<and> active_fruit fruit_state2 \<noteq> FRUIT_NONE \<and>
   pacman_move fruit_state2 (pm_actor (pacman2 fruit_state2)) =
     Some \<lparr>dir = DIR_RIGHT, pos = \<lparr>i2_x = 110, i2_y = 164\<rparr>, anim_tick = 901\<rparr> \<and>
   map_option (\<lambda>s'. (active_fruit s', tick (fruit_eaten s'), tick (pill_eaten s'),
        tick (frightened (ghost s' GHOSTTYPE_CLYDE)))) (update_pacman2 fruit_state2)
     = Some (FRUIT_NONE, 3002, 2700, DISABLED_TICKS) \<and>
   map_option (\<lambda>s'. (tick (pill_eaten s'), num_ghosts_eaten s',
        tick (frightened (ghost s' GHOSTTYPE_CLYDE))))
     (pacman_eat_pill (i2 1 6) fruit_state) = Some (3002, 0, 3002)"
proof -
  let ?a = "\<lparr>dir = DIR_RIGHT, pos = \<lparr>i2_x = 110, i2_y = 164\<rparr>, anim_tick = 901\<rparr>"
  have g1: "game_pacman_should_move fruit_state" and p1: "player2 fruit_state"
    and f1: "active_fruit fruit_state \<noteq> FRUIT_NONE"
    and m1: "pacman_move fruit_state (pm_actor (pacman1 fruit_state)) = Some ?a"
    and d1: "is_dot fruit_state (pixel_to_tile_pos (pos ?a)) = Some False"
    and l1: "is_pill fruit_state (pixel_to_tile_pos (pos ?a)) = Some False"
    and g2: "game_pacman_should_move fruit_state2" and p2: "\<not> player2 fruit_state2"
    and f2: "active_fruit fruit_state2 \<noteq> FRUIT_NONE"
    and m2: "pacman_move fruit_state2 (pm_actor (pacman2 fruit_state2)) = Some ?a"
    and d2: "is_dot fruit_state2 (pixel_to_tile_pos (pos ?a)) = Some False"
    and l2: "is_pill fruit_state2 (pixel_to_tile_pos (pos ?a)) = Some False"
    and on: "equal_i2 (pixel_to_tile_pos (add_i2 (pos ?a) (i2 (cdiv TILE_WIDTH 2) 0))) (i2 14 20)"
    by code_simp+
  have v: "tick (start fruit_state (fruit_eaten fruit_state)) = 3002"
    "tick (start fruit_state (pill_eaten fruit_state)) = 3002"
    "tick (start fruit_state (frightened (ghost fruit_state GHOSTTYPE_CLYDE))) = 3002"
    "tick (start fruit_state2 (fruit_eaten fruit_state2)) = 3002"
    "tick (pill_eaten fruit_state2) = 2700"
    "tick (frightened (ghost fruit_state2 GHOSTTYPE_CLYDE)) = DISABLED_TICKS"
    by code_simp+
  have m1': "pacman_move fruit_state (pm_actor (if player2 fruit_state then pacman1 fruit_state else pacman2 fruit_state)) = Some ?a"
    using m1 p1 by simp
  have m2': "pacman_move fruit_state2 (pm_actor (if player2 fruit_state2 then pacman1 fruit_state2 else pacman2 fruit_state2)) = Some ?a"
    using m2 p2 by simp
  have h3: "is_pill fruit_state (i2 1 6) = Some True" by code_simp
  from fruit_frightens_for_pacman1_only [OF g1 f1 m1' on d1 l1, of fruit_state "i2 1 6"] h3 v
  have r3: "map_option (\<lambda>s'. (tick (pill_eaten s'), num_ghosts_eaten s',
        tick (frightened (ghost s' GHOSTTYPE_CLYDE))))
     (pacman_eat_pill (i2 1 6) fruit_state) = Some (3002, 0, 3002)"
    by auto
  from fruit_frightens_for_pacman1_only [OF g1 f1 m1' on d1 l1, of fruit_state "i2 1 6"] p1 v
  have r1: "map_option (\<lambda>s'. (active_fruit s', tick (fruit_eaten s'), tick (pill_eaten s'),
        tick (frightened (ghost s' GHOSTTYPE_CLYDE)))) (update_pacman1 fruit_state)
     = Some (FRUIT_NONE, 3002, 3002, 3002)"
    by auto
  from fruit_frightens_for_pacman1_only [OF g2 f2 m2' on d2 l2, of fruit_state "i2 1 6"] p2 v
  have r2: "map_option (\<lambda>s'. (active_fruit s', tick (fruit_eaten s'), tick (pill_eaten s'),
        tick (frightened (ghost s' GHOSTTYPE_CLYDE)))) (update_pacman2 fruit_state2)
     = Some (FRUIT_NONE, 3002, 2700, DISABLED_TICKS)"
    by auto
  show ?thesis using g1 p1 f1 m1 r1 g2 p2 f2 m2 r2 r3 by blast
qed


section \<open>Eating a frightened ghost (C6)\<close>

text \<open>The effect of each step of the player code on score, counter and ghosts.\<close>

lemma dot_counter_loop_fields [simp]:
  "score (dot_counter_loop is s) = score s"
  "num_ghosts_eaten (dot_counter_loop is s) = num_ghosts_eaten s"
  "ghost_eaten (dot_counter_loop is s) = ghost_eaten s"
  "timing_tick (dot_counter_loop is s) = timing_tick s"
  "active_fruit (dot_counter_loop is s) = active_fruit s"
  "round (dot_counter_loop is s) = round s"
  "pill_eaten (dot_counter_loop is s) = pill_eaten s"
  "fruit_eaten (dot_counter_loop is s) = fruit_eaten s"
  "video_ram (dot_counter_loop is s) = video_ram s"
  "gstate (ghost (dot_counter_loop is s) i) = gstate (ghost s i)"
  "actor (ghost (dot_counter_loop is s) i) = actor (ghost s i)"
  "eaten (ghost (dot_counter_loop is s) i) = eaten (ghost s i)"
  "frightened (ghost (dot_counter_loop is s) i) = frightened (ghost s i)"
  by (induction "is"; simp)+

lemma dot_counters_fields [simp]:
  "score (game_update_ghosthouse_dot_counters s) = score s"
  "num_ghosts_eaten (game_update_ghosthouse_dot_counters s) = num_ghosts_eaten s"
  "ghost_eaten (game_update_ghosthouse_dot_counters s) = ghost_eaten s"
  "timing_tick (game_update_ghosthouse_dot_counters s) = timing_tick s"
  "active_fruit (game_update_ghosthouse_dot_counters s) = active_fruit s"
  "round (game_update_ghosthouse_dot_counters s) = round s"
  "pill_eaten (game_update_ghosthouse_dot_counters s) = pill_eaten s"
  "fruit_eaten (game_update_ghosthouse_dot_counters s) = fruit_eaten s"
  "video_ram (game_update_ghosthouse_dot_counters s) = video_ram s"
  "gstate (ghost (game_update_ghosthouse_dot_counters s) i) = gstate (ghost s i)"
  "actor (ghost (game_update_ghosthouse_dot_counters s) i) = actor (ghost s i)"
  "eaten (ghost (game_update_ghosthouse_dot_counters s) i) = eaten (ghost s i)"
  "frightened (ghost (game_update_ghosthouse_dot_counters s) i) = frightened (ghost s i)"
  by (simp_all add: game_update_ghosthouse_dot_counters_def)

lemma dots_eaten_fields2 [simp]:
  "ghost_eaten (game_update_dots_eaten s) = ghost_eaten s"
  "active_fruit (game_update_dots_eaten s) = active_fruit s"
  "round (game_update_dots_eaten s) = round s"
  "fruit_eaten (game_update_dots_eaten s) = fruit_eaten s"
  by (simp_all add: game_update_dots_eaten_def Let_def)

lemma eat_dot_effect:
  assumes "valid_tile_pos T"
  shows "\<exists>s1. pacman_eat_dot T s = Some s1 \<and>
     score s1 = score s + (if is_dot s T = Some True then 1 else 0) \<and>
     num_ghosts_eaten s1 = num_ghosts_eaten s \<and> ghost_eaten s1 = ghost_eaten s \<and>
     timing_tick s1 = timing_tick s \<and> active_fruit s1 = active_fruit s \<and> round s1 = round s \<and>
     pill_eaten s1 = pill_eaten s \<and> fruit_eaten s1 = fruit_eaten s \<and> is_pill s1 T = is_pill s T \<and>
     (\<forall>i. gstate (ghost s1 i) = gstate (ghost s i) \<and> actor (ghost s1 i) = actor (ghost s i) \<and>
          eaten (ghost s1 i) = eaten (ghost s i) \<and> frightened (ghost s1 i) = frightened (ghost s i))"
  using assms
  by (simp add: pacman_eat_dot_def is_dot_def is_pill_def tile_code_at_def valid_tile_pos_def vid_tile_def
      Let_def TILE_DOT_def TILE_PILL_def TILE_SPACE_def)

lemma eat_pill_effect:
  assumes "valid_tile_pos T"
  shows "\<exists>s1. pacman_eat_pill T s = Some s1 \<and>
     score s1 = score s + (if is_pill s T = Some True then 5 else 0) \<and>
     num_ghosts_eaten s1 = (if is_pill s T = Some True then 0 else num_ghosts_eaten s) \<and>
     ghost_eaten s1 = ghost_eaten s \<and>
     timing_tick s1 = timing_tick s \<and> active_fruit s1 = active_fruit s \<and> round s1 = round s \<and>
     fruit_eaten s1 = fruit_eaten s \<and>
     (\<forall>i. gstate (ghost s1 i) = gstate (ghost s i) \<and> actor (ghost s1 i) = actor (ghost s i) \<and>
          eaten (ghost s1 i) = eaten (ghost s i))"
  using assms
  by (simp add: pacman_eat_pill_def is_pill_def tile_code_at_def valid_tile_pos_def vid_tile_def
      Let_def frighten_ghosts_eq)

lemma fruit1_effect:
  "\<exists>ls s3. levelspec (uint (round s)) = Some ls \<and> pacman1_eat_fruit a s = Some s3 \<and>
     score s3 = score s + (if on_fruit s a then ucast (bonus_score ls) else 0) \<and>
     num_ghosts_eaten s3 = (if on_fruit s a then 0 else num_ghosts_eaten s) \<and>
     ghost_eaten s3 = ghost_eaten s \<and> timing_tick s3 = timing_tick s \<and>
     (\<forall>i. gstate (ghost s3 i) = gstate (ghost s i) \<and> actor (ghost s3 i) = actor (ghost s i) \<and>
          eaten (ghost s3 i) = eaten (ghost s i))"
proof -
  obtain ls where ls: "levelspec (uint (round s)) = Some ls" using levelspec_round by blast
  let ?s1 = "s\<lparr>fruit_eaten := start s (fruit_eaten s), score := score s + ucast (bonus_score ls)\<rparr>"
  obtain v where v: "vid_fruit_score ?s1 (active_fruit s) = Some (?s1\<lparr>video_ram := v\<rparr>)"
    using vid_fruit_score_eq by blast
  show ?thesis
    using ls v by (simp add: pacman1_eat_fruit_def on_fruit_def Let_def frighten_ghosts_eq start_def)
qed

lemma fruit2_effect:
  "\<exists>ls s3. levelspec (uint (round s)) = Some ls \<and> pacman2_eat_fruit a s = Some s3 \<and>
     score s3 = score s + (if on_fruit s a then ucast (bonus_score ls) else 0) \<and>
     num_ghosts_eaten s3 = num_ghosts_eaten s \<and>
     ghost_eaten s3 = ghost_eaten s \<and> timing_tick s3 = timing_tick s \<and>
     (\<forall>i. gstate (ghost s3 i) = gstate (ghost s i) \<and> actor (ghost s3 i) = actor (ghost s i) \<and>
          eaten (ghost s3 i) = eaten (ghost s i))"
proof -
  obtain ls where ls: "levelspec (uint (round s)) = Some ls" using levelspec_round by blast
  let ?s1 = "s\<lparr>fruit_eaten := start s (fruit_eaten s), score := score s + ucast (bonus_score ls)\<rparr>"
  obtain v where v: "vid_fruit_score ?s1 (active_fruit s) = Some (?s1\<lparr>video_ram := v\<rparr>)"
    using vid_fruit_score_eq by blast
  show ?thesis
    using ls v by (simp add: pacman2_eat_fruit_def on_fruit_def Let_def start_def)
qed

lemma collision_effect:
  "\<exists>s1. pacman_ghost_collision T i s = Some s1 \<and> timing_tick s1 = timing_tick s \<and>
     (\<forall>j. j \<noteq> i \<longrightarrow> ghost s1 j = ghost s j) \<and>
     (eaten_here s T i \<longrightarrow>
        gstate (ghost s1 i) = GHOSTSTATE_EYES \<and> eaten (ghost s1 i) = start s (eaten (ghost s i)) \<and>
        ghost_eaten s1 = start s (ghost_eaten s) \<and> num_ghosts_eaten s1 = num_ghosts_eaten s + 1 \<and>
        score s1 = score s + 10 * 2 ^ (unat (num_ghosts_eaten s + 1) mod 32)) \<and>
     (\<not> eaten_here s T i \<longrightarrow>
        ghost s1 i = ghost s i \<and> ghost_eaten s1 = ghost_eaten s \<and>
        num_ghosts_eaten s1 = num_ghosts_eaten s \<and> score s1 = score s)"
  by (simp add: pacman_ghost_collision_def eaten_here_def Let_def start_def)

lemma ghost_scores_mod: "c mod 32 = c' mod 32 \<Longrightarrow> ghost_scores c m = ghost_scores c' m"
proof (induction m arbitrary: c c')
  case 0
  then show ?case by simp
next
  case (Suc m)
  have "Suc c mod 32 = Suc c' mod 32" using Suc.prems by (metis mod_Suc_eq)
  then show ?case using Suc.IH [of "Suc c" "Suc c'"] by simp
qed

lemma unat_inc_mod32: "unat ((c :: u8) + 1) mod 32 = Suc (unat c) mod 32"
proof -
  have "unat (c + 1) = Suc (unat c) mod 256" by (simp add: unat_word_ariths)
  then show ?thesis by (simp add: mod_mod_cancel)
qed

lemma collisions_effect:
  assumes "distinct is"
  shows "\<exists>s'. pacman_ghost_collisions T is s = Some s' \<and> timing_tick s' = timing_tick s \<and>
     (\<forall>j. j \<notin> set is \<longrightarrow> ghost s' j = ghost s j) \<and>
     (\<forall>j. j \<in> set is \<and> eaten_here s T j \<longrightarrow>
        gstate (ghost s' j) = GHOSTSTATE_EYES \<and> eaten (ghost s' j) = start s (eaten (ghost s j)) \<and>
        ghost_eaten s' = start s (ghost_eaten s)) \<and>
     (filter (eaten_here s T) is = [] \<longrightarrow> ghost_eaten s' = ghost_eaten s) \<and>
     num_ghosts_eaten s' = num_ghosts_eaten s + of_nat (length (filter (eaten_here s T) is)) \<and>
     score s' = score s + ghost_scores (unat (num_ghosts_eaten s)) (length (filter (eaten_here s T) is))"
  using assms
proof (induction "is" arbitrary: s)
  case Nil
  then show ?case by simp
next
  case (Cons i "is")
  from collision_effect [of T i s] obtain s1 where
    a: "pacman_ghost_collision T i s = Some s1" and t: "timing_tick s1 = timing_tick s"
    and o: "\<forall>j. j \<noteq> i \<longrightarrow> ghost s1 j = ghost s j"
    and y: "eaten_here s T i \<longrightarrow>
        gstate (ghost s1 i) = GHOSTSTATE_EYES \<and> eaten (ghost s1 i) = start s (eaten (ghost s i)) \<and>
        ghost_eaten s1 = start s (ghost_eaten s) \<and> num_ghosts_eaten s1 = num_ghosts_eaten s + 1 \<and>
        score s1 = score s + 10 * 2 ^ (unat (num_ghosts_eaten s + 1) mod 32)"
    and n: "\<not> eaten_here s T i \<longrightarrow>
        ghost s1 i = ghost s i \<and> ghost_eaten s1 = ghost_eaten s \<and>
        num_ghosts_eaten s1 = num_ghosts_eaten s \<and> score s1 = score s"
    by blast
  from Cons.prems have d: "distinct is" and ni: "i \<notin> set is" by simp_all
  from Cons.IH [OF d, of s1] obtain s' where
    b: "pacman_ghost_collisions T is s1 = Some s'" and t': "timing_tick s' = timing_tick s1"
    and o': "\<forall>j. j \<notin> set is \<longrightarrow> ghost s' j = ghost s1 j"
    and y': "\<forall>j. j \<in> set is \<and> eaten_here s1 T j \<longrightarrow>
        gstate (ghost s' j) = GHOSTSTATE_EYES \<and> eaten (ghost s' j) = start s1 (eaten (ghost s1 j)) \<and>
        ghost_eaten s' = start s1 (ghost_eaten s1)"
    and e': "filter (eaten_here s1 T) is = [] \<longrightarrow> ghost_eaten s' = ghost_eaten s1"
    and c': "num_ghosts_eaten s' = num_ghosts_eaten s1 + of_nat (length (filter (eaten_here s1 T) is))"
    and sc': "score s' = score s1 + ghost_scores (unat (num_ghosts_eaten s1)) (length (filter (eaten_here s1 T) is))"
    by blast
  have same: "eaten_here s1 T j = eaten_here s T j" if "j \<in> set is" for j
    using that ni o by (auto simp: eaten_here_def)
  then have f: "filter (eaten_here s1 T) is = filter (eaten_here s T) is"
    by (intro filter_cong) auto
  have st: "start s1 = start s" using t by (simp add: start_def fun_eq_iff)
  have r: "pacman_ghost_collisions T (i # is) s = Some s'" using a b by simp
  have g1: "\<forall>j. j \<notin> set (i # is) \<longrightarrow> ghost s' j = ghost s j" using o o' by auto
  have ge: "ghost_eaten s1 = start s (ghost_eaten s) \<Longrightarrow> ghost_eaten s' = start s (ghost_eaten s)"
  proof (cases "filter (eaten_here s1 T) is = []")
    case True
    assume "ghost_eaten s1 = start s (ghost_eaten s)"
    with e' True show ?thesis by simp
  next
    case False
    assume h: "ghost_eaten s1 = start s (ghost_eaten s)"
    from False obtain j where "j \<in> set is" "eaten_here s1 T j"
      by (metis filter_False)
    with y' have "ghost_eaten s' = start s1 (ghost_eaten s1)" by blast
    with h st show ?thesis by (simp add: start_def)
  qed
  have g2: "\<forall>j. j \<in> set (i # is) \<and> eaten_here s T j \<longrightarrow>
        gstate (ghost s' j) = GHOSTSTATE_EYES \<and> eaten (ghost s' j) = start s (eaten (ghost s j)) \<and>
        ghost_eaten s' = start s (ghost_eaten s)"
  proof (intro allI impI)
    fix j assume h: "j \<in> set (i # is) \<and> eaten_here s T j"
    show "gstate (ghost s' j) = GHOSTSTATE_EYES \<and> eaten (ghost s' j) = start s (eaten (ghost s j)) \<and>
        ghost_eaten s' = start s (ghost_eaten s)"
    proof (cases "j = i")
      case True
      with h y ni o' ge show ?thesis by simp
    next
      case False
      with h have ji: "j \<in> set is" by simp
      with h same have "eaten_here s1 T j" by simp
      with y' ji have "gstate (ghost s' j) = GHOSTSTATE_EYES" "eaten (ghost s' j) = start s1 (eaten (ghost s1 j))"
        "ghost_eaten s' = start s1 (ghost_eaten s1)" by blast+
      moreover have "ghost s1 j = ghost s j" using False o by simp
      moreover have "start s1 (ghost_eaten s1) = start s (ghost_eaten s)"
        using st by (simp add: start_def)
      ultimately show ?thesis using st by simp
    qed
  qed
  have g3: "filter (eaten_here s T) (i # is) = [] \<longrightarrow> ghost_eaten s' = ghost_eaten s"
    using n e' f by (auto split: if_splits)
  have g4: "num_ghosts_eaten s' = num_ghosts_eaten s + of_nat (length (filter (eaten_here s T) (i # is)))"
    using y n c' f by (cases "eaten_here s T i") simp_all
  have g5: "score s' = score s + ghost_scores (unat (num_ghosts_eaten s)) (length (filter (eaten_here s T) (i # is)))"
  proof (cases "eaten_here s T i")
    case True
    have "ghost_scores (unat (num_ghosts_eaten s + 1)) m = ghost_scores (Suc (unat (num_ghosts_eaten s))) m" for m
      by (rule ghost_scores_mod) (rule unat_inc_mod32)
    with True y sc' f show ?thesis by (simp add: unat_inc_mod32)
  next
    case False
    with n sc' f show ?thesis by simp
  qed
  show ?case using r t t' g1 g2 g3 g4 g5 by auto
qed

lemma distinct_ALL_GHOSTS: "distinct ALL_GHOSTS"
  by (simp add: ALL_GHOSTS_def)

lemma set_ALL_GHOSTS: "i \<in> set ALL_GHOSTS"
  by (cases i) (simp_all add: ALL_GHOSTS_def)

lemma player_code_effect:
  assumes mv: "pacman_move s (pm_actor (if player2 s then pacman1 s else pacman2 s)) = Some a"
    and val: "valid_tile_pos (pixel_to_tile_pos (pos a))"
  shows "\<exists>ls s'. levelspec (uint (round s)) = Some ls \<and>
     (if player2 s then update_pacman1 s else update_pacman2 s) = Some s' \<and>
     (\<forall>i. eaten_here s (pixel_to_tile_pos (pos a)) i \<longrightarrow>
        gstate (ghost s' i) = GHOSTSTATE_EYES \<and> eaten (ghost s' i) = start s (eaten (ghost s i)) \<and>
        ghost_eaten s' = start s (ghost_eaten s)) \<and>
     num_ghosts_eaten s' =
       (if is_pill s (pixel_to_tile_pos (pos a)) = Some True \<or> (player2 s \<and> on_fruit s a)
        then 0 else num_ghosts_eaten s)
       + of_nat (length (filter (eaten_here s (pixel_to_tile_pos (pos a))) ALL_GHOSTS)) \<and>
     score s' = score s
       + (if is_dot s (pixel_to_tile_pos (pos a)) = Some True then 1 else 0)
       + (if is_pill s (pixel_to_tile_pos (pos a)) = Some True then 5 else 0)
       + (if on_fruit s a then ucast (bonus_score ls) else 0)
       + ghost_scores
           (unat (if is_pill s (pixel_to_tile_pos (pos a)) = Some True \<or> (player2 s \<and> on_fruit s a)
                  then 0 else num_ghosts_eaten s))
           (length (filter (eaten_here s (pixel_to_tile_pos (pos a))) ALL_GHOSTS))"
proof -
  let ?T = "pixel_to_tile_pos (pos a)"
  let ?s0 = "if player2 s then s\<lparr>pacman1 := (pacman1 s)\<lparr>pm_actor := a\<rparr>\<rparr>
             else s\<lparr>pacman2 := (pacman2 s)\<lparr>pm_actor := a\<rparr>\<rparr>"
  have s0: "score ?s0 = score s" "num_ghosts_eaten ?s0 = num_ghosts_eaten s" "ghost_eaten ?s0 = ghost_eaten s"
    "timing_tick ?s0 = timing_tick s" "active_fruit ?s0 = active_fruit s" "round ?s0 = round s"
    "ghost ?s0 = ghost s" "is_dot ?s0 ?T = is_dot s ?T" "is_pill ?s0 ?T = is_pill s ?T"
    by (simp_all add: is_dot_def is_pill_def tile_code_at_def)
  from eat_dot_effect [OF val, of ?s0] obtain s1 where
    d: "pacman_eat_dot ?T ?s0 = Some s1"
    and d1: "score s1 = score s + (if is_dot s ?T = Some True then 1 else 0)"
      "num_ghosts_eaten s1 = num_ghosts_eaten s" "ghost_eaten s1 = ghost_eaten s"
      "timing_tick s1 = timing_tick s" "active_fruit s1 = active_fruit s" "round s1 = round s"
      "is_pill s1 ?T = is_pill s ?T"
      "\<forall>i. gstate (ghost s1 i) = gstate (ghost s i) \<and> actor (ghost s1 i) = actor (ghost s i) \<and>
          eaten (ghost s1 i) = eaten (ghost s i)"
    using s0 by auto
  from eat_pill_effect [OF val, of s1] obtain s2 where
    p: "pacman_eat_pill ?T s1 = Some s2"
    and p1: "score s2 = score s1 + (if is_pill s ?T = Some True then 5 else 0)"
      "num_ghosts_eaten s2 = (if is_pill s ?T = Some True then 0 else num_ghosts_eaten s)"
      "ghost_eaten s2 = ghost_eaten s"
      "timing_tick s2 = timing_tick s" "active_fruit s2 = active_fruit s" "round s2 = round s"
      "\<forall>i. gstate (ghost s2 i) = gstate (ghost s i) \<and> actor (ghost s2 i) = actor (ghost s i) \<and>
          eaten (ghost s2 i) = eaten (ghost s i)"
    using d1 by auto
  have of: "on_fruit s2 a = on_fruit s a" using p1 by (simp add: on_fruit_def)
  obtain ls s3 where ls: "levelspec (uint (round s)) = Some ls"
    and f: "(if player2 s then pacman1_eat_fruit a s2 else pacman2_eat_fruit a s2) = Some s3"
    and f1: "score s3 = score s2 + (if on_fruit s a then ucast (bonus_score ls) else 0)"
      "num_ghosts_eaten s3 = (if player2 s \<and> on_fruit s a then 0 else num_ghosts_eaten s2)"
      "ghost_eaten s3 = ghost_eaten s" "timing_tick s3 = timing_tick s"
      "\<forall>i. gstate (ghost s3 i) = gstate (ghost s i) \<and> actor (ghost s3 i) = actor (ghost s i) \<and>
          eaten (ghost s3 i) = eaten (ghost s i)"
  proof (cases "player2 s")
    case True
    from fruit1_effect [of s2 a] obtain ls s3 where
      "levelspec (uint (round s2)) = Some ls" "pacman1_eat_fruit a s2 = Some s3"
      "score s3 = score s2 + (if on_fruit s2 a then ucast (bonus_score ls) else 0)"
      "num_ghosts_eaten s3 = (if on_fruit s2 a then 0 else num_ghosts_eaten s2)"
      "ghost_eaten s3 = ghost_eaten s2" "timing_tick s3 = timing_tick s2"
      "\<forall>i. gstate (ghost s3 i) = gstate (ghost s2 i) \<and> actor (ghost s3 i) = actor (ghost s2 i) \<and>
          eaten (ghost s3 i) = eaten (ghost s2 i)"
      by blast
    with True p1 of that [of ls s3] show ?thesis by simp
  next
    case False
    from fruit2_effect [of s2 a] obtain ls s3 where
      "levelspec (uint (round s2)) = Some ls" "pacman2_eat_fruit a s2 = Some s3"
      "score s3 = score s2 + (if on_fruit s2 a then ucast (bonus_score ls) else 0)"
      "num_ghosts_eaten s3 = num_ghosts_eaten s2"
      "ghost_eaten s3 = ghost_eaten s2" "timing_tick s3 = timing_tick s2"
      "\<forall>i. gstate (ghost s3 i) = gstate (ghost s2 i) \<and> actor (ghost s3 i) = actor (ghost s2 i) \<and>
          eaten (ghost s3 i) = eaten (ghost s2 i)"
      by blast
    with False p1 of that [of ls s3] show ?thesis by simp
  qed
  have eh: "eaten_here s3 ?T = eaten_here s ?T" using f1 by (simp add: eaten_here_def fun_eq_iff)
  have st: "start s3 = start s" using f1 by (simp add: start_def fun_eq_iff)
  from collisions_effect [OF distinct_ALL_GHOSTS, of ?T s3] obtain s' where
    c: "pacman_ghost_collisions ?T ALL_GHOSTS s3 = Some s'"
    and c1: "\<forall>j. j \<in> set ALL_GHOSTS \<and> eaten_here s3 ?T j \<longrightarrow>
        gstate (ghost s' j) = GHOSTSTATE_EYES \<and> eaten (ghost s' j) = start s3 (eaten (ghost s3 j)) \<and>
        ghost_eaten s' = start s3 (ghost_eaten s3)"
    and c2: "num_ghosts_eaten s' = num_ghosts_eaten s3 + of_nat (length (filter (eaten_here s3 ?T) ALL_GHOSTS))"
    and c3: "score s' = score s3 + ghost_scores (unat (num_ghosts_eaten s3)) (length (filter (eaten_here s3 ?T) ALL_GHOSTS))"
    by blast
  have u: "(if player2 s then update_pacman1 s else update_pacman2 s) = Some s'"
    using mv d p f c by (auto simp: update_pacman1_def update_pacman2_def split: if_splits)
  have n3: "num_ghosts_eaten s3 = (if is_pill s ?T = Some True \<or> (player2 s \<and> on_fruit s a)
        then 0 else num_ghosts_eaten s)"
    using f1 p1 by simp
  have g1: "\<forall>i. eaten_here s ?T i \<longrightarrow>
        gstate (ghost s' i) = GHOSTSTATE_EYES \<and> eaten (ghost s' i) = start s (eaten (ghost s i)) \<and>
        ghost_eaten s' = start s (ghost_eaten s)"
    using c1 eh st f1 set_ALL_GHOSTS by simp
  have g2: "num_ghosts_eaten s' =
       (if is_pill s ?T = Some True \<or> (player2 s \<and> on_fruit s a) then 0 else num_ghosts_eaten s)
       + of_nat (length (filter (eaten_here s ?T) ALL_GHOSTS))"
    using c2 eh n3 by simp
  have g3: "score s' = score s
       + (if is_dot s ?T = Some True then 1 else 0)
       + (if is_pill s ?T = Some True then 5 else 0)
       + (if on_fruit s a then ucast (bonus_score ls) else 0)
       + ghost_scores
           (unat (if is_pill s ?T = Some True \<or> (player2 s \<and> on_fruit s a) then 0 else num_ghosts_eaten s))
           (length (filter (eaten_here s ?T) ALL_GHOSTS))"
    using c3 eh n3 f1 p1 d1 by simp
  show ?thesis using ls u g1 g2 g3 by blast
qed

text \<open>
  Claim C6, as stated, fails in four ways. (1) The ghosts-eaten counter is not reset by pill
  consumption only: in \<open>fruit_state\<close> the counter is 2 and \<open>pacman1\<close> is one pixel before
  the bonus fruit, on a tile without a pill; its player code moves it, eats the fruit and
  resets the counter to 0, with no dot or pill eaten. (2) Round initialisation resets the
  counter too. (3) Sharing a tile is not enough: at tick 2808 of the round of
  \<open>frightened_state\<close> the game is not frozen and the active agent \<open>pacman1\<close> is on the tile
  (21, 5) of the frightened Blinky, but the tick is a multiple of 8, the player code with its
  collision test does not run, and after the actor update Blinky is still FRIGHTENED on
  that tile, with counter and score unchanged. (4) The score term is a 32-bit shift: with
  the counter at 31, eating Blinky (and the dot of this tile, 1 point) takes the counter to
  32 and the score from 434 to 445, a gain of 10 for the ghost.
\<close>

theorem ghost_counter_counterexamples:
  "num_ghosts_eaten fruit_state = 2 \<and> is_pill fruit_state (i2 13 20) = Some False \<and>
   map_option (\<lambda>s'. (pixel_to_tile_pos (pos (pm_actor (pacman1 s'))), num_ghosts_eaten s', num_dots_eaten s'))
     (update_pacman1 fruit_state) = Some (i2 13 20, 0, num_dots_eaten fruit_state) \<and>
   map_option num_ghosts_eaten (game_round_init fruit_state) = Some 0 \<and>
   freeze (frightened_state\<lparr>timing_tick := 2808\<rparr>) = 0 \<and>
   eaten_here (frightened_state\<lparr>timing_tick := 2808\<rparr>)
     (pixel_to_tile_pos (pos (pm_actor (pacman1 (frightened_state\<lparr>timing_tick := 2808\<rparr>))))) GHOSTTYPE_BLINKY \<and>
   map_option (\<lambda>s'. (gstate (ghost s' GHOSTTYPE_BLINKY),
                     pixel_to_tile_pos (pos (actor (ghost s' GHOSTTYPE_BLINKY))),
                     pixel_to_tile_pos (pos (pm_actor (pacman1 s'))), num_ghosts_eaten s', score s'))
     (game_update_actors (frightened_state\<lparr>timing_tick := 2808\<rparr>))
     = Some (GHOSTSTATE_FRIGHTENED, i2 21 5, i2 21 5, 3, 434) \<and>
   map_option (\<lambda>s'. (num_ghosts_eaten s', score s'))
     (game_update_actors (frightened_state\<lparr>num_ghosts_eaten := 31\<rparr>)) = Some (32, 445) \<and>
   score (frightened_state\<lparr>num_ghosts_eaten := 31\<rparr>) = 434"
  by code_simp

text \<open>
  Claim C6, amended. Take a tick on which the player code runs (\<^verbatim>\<open>game_pacman_should_move\<close>)
  and let \<open>a\<close> be the actor of the active agent after its move, on a tile of the display.
  Then the player code and the actor update return, and every ghost that is FRIGHTENED and
  on the tile of \<open>a\<close> is eaten: after the player code its state is EYES and its \<open>eaten\<close>
  trigger is armed, and the shared \<open>ghost_eaten\<close> trigger is armed. After the update the
  counter is the number of ghosts eaten on this tick, added to 0 if a pill was eaten or
  \<open>pacman1\<close> ate the fruit on this tick and to the old counter otherwise; the score has
  grown by the points for dot, pill and fruit and by \<open>10 * 2 ^ (count mod 32)\<close> for each
  ghost eaten, with its incremented count, which is 20, 40, 80 and 160 for counts 1 to 4.
  On a tick on which the player code does not run, the actor update eats no ghost: counter,
  score and the \<open>ghost_eaten\<close> trigger are unchanged and no ghost becomes eyes. Round
  initialisation sets the counter to 0.
\<close>

theorem frightened_ghost_eaten:
  "(game_pacman_should_move s \<and>
    pacman_move s (pm_actor (if player2 s then pacman1 s else pacman2 s)) = Some a \<and>
    valid_tile_pos (pixel_to_tile_pos (pos a)) \<longrightarrow>
     (\<exists>ls s' s''. levelspec (uint (round s)) = Some ls \<and>
        (if player2 s then update_pacman1 s else update_pacman2 s) = Some s' \<and>
        ghost_ais ALL_GHOSTS s' = Some s'' \<and> game_update_actors s = Some s'' \<and>
        (\<forall>i. eaten_here s (pixel_to_tile_pos (pos a)) i \<longrightarrow>
           gstate (ghost s' i) = GHOSTSTATE_EYES \<and> eaten (ghost s' i) = start s (eaten (ghost s i)) \<and>
           ghost_eaten s'' = start s (ghost_eaten s)) \<and>
        num_ghosts_eaten s'' =
          (if is_pill s (pixel_to_tile_pos (pos a)) = Some True \<or> (player2 s \<and> on_fruit s a)
           then 0 else num_ghosts_eaten s)
          + of_nat (length (filter (eaten_here s (pixel_to_tile_pos (pos a))) ALL_GHOSTS)) \<and>
        score s'' = score s
          + (if is_dot s (pixel_to_tile_pos (pos a)) = Some True then 1 else 0)
          + (if is_pill s (pixel_to_tile_pos (pos a)) = Some True then 5 else 0)
          + (if on_fruit s a then ucast (bonus_score ls) else 0)
          + ghost_scores
              (unat (if is_pill s (pixel_to_tile_pos (pos a)) = Some True \<or> (player2 s \<and> on_fruit s a)
                     then 0 else num_ghosts_eaten s))
              (length (filter (eaten_here s (pixel_to_tile_pos (pos a))) ALL_GHOSTS))))
   \<and> (\<not> game_pacman_should_move s \<and> game_update_actors s = Some s2 \<longrightarrow>
        num_ghosts_eaten s2 = num_ghosts_eaten s \<and> score s2 = score s \<and> ghost_eaten s2 = ghost_eaten s \<and>
        (\<forall>i. gstate (ghost s2 i) = GHOSTSTATE_EYES \<longrightarrow> gstate (ghost s i) = GHOSTSTATE_EYES))
   \<and> (game_round_init s = Some s4 \<longrightarrow> num_ghosts_eaten s4 = 0)
   \<and> ghost_scores c 1 = 10 * 2 ^ (Suc c mod 32)
   \<and> ghost_scores 0 1 = 20 \<and> ghost_scores 1 1 = 40 \<and> ghost_scores 2 1 = 80 \<and> ghost_scores 3 1 = 160"
proof -
  have a: "\<exists>ls s' s''. levelspec (uint (round s)) = Some ls \<and>
        (if player2 s then update_pacman1 s else update_pacman2 s) = Some s' \<and>
        ghost_ais ALL_GHOSTS s' = Some s'' \<and> game_update_actors s = Some s'' \<and>
        (\<forall>i. eaten_here s (pixel_to_tile_pos (pos a)) i \<longrightarrow>
           gstate (ghost s' i) = GHOSTSTATE_EYES \<and> eaten (ghost s' i) = start s (eaten (ghost s i)) \<and>
           ghost_eaten s'' = start s (ghost_eaten s)) \<and>
        num_ghosts_eaten s'' =
          (if is_pill s (pixel_to_tile_pos (pos a)) = Some True \<or> (player2 s \<and> on_fruit s a)
           then 0 else num_ghosts_eaten s)
          + of_nat (length (filter (eaten_here s (pixel_to_tile_pos (pos a))) ALL_GHOSTS)) \<and>
        score s'' = score s
          + (if is_dot s (pixel_to_tile_pos (pos a)) = Some True then 1 else 0)
          + (if is_pill s (pixel_to_tile_pos (pos a)) = Some True then 5 else 0)
          + (if on_fruit s a then ucast (bonus_score ls) else 0)
          + ghost_scores
              (unat (if is_pill s (pixel_to_tile_pos (pos a)) = Some True \<or> (player2 s \<and> on_fruit s a)
                     then 0 else num_ghosts_eaten s))
              (length (filter (eaten_here s (pixel_to_tile_pos (pos a))) ALL_GHOSTS))"
    if gate: "game_pacman_should_move s"
      and mv: "pacman_move s (pm_actor (if player2 s then pacman1 s else pacman2 s)) = Some a"
      and val: "valid_tile_pos (pixel_to_tile_pos (pos a))"
  proof -
    from player_code_effect [OF mv val] obtain ls s' where
      ls: "levelspec (uint (round s)) = Some ls"
      and u: "(if player2 s then update_pacman1 s else update_pacman2 s) = Some s'"
      and e: "\<forall>i. eaten_here s (pixel_to_tile_pos (pos a)) i \<longrightarrow>
        gstate (ghost s' i) = GHOSTSTATE_EYES \<and> eaten (ghost s' i) = start s (eaten (ghost s i)) \<and>
        ghost_eaten s' = start s (ghost_eaten s)"
      and n: "num_ghosts_eaten s' =
          (if is_pill s (pixel_to_tile_pos (pos a)) = Some True \<or> (player2 s \<and> on_fruit s a)
           then 0 else num_ghosts_eaten s)
          + of_nat (length (filter (eaten_here s (pixel_to_tile_pos (pos a))) ALL_GHOSTS))"
      and sc: "score s' = score s
          + (if is_dot s (pixel_to_tile_pos (pos a)) = Some True then 1 else 0)
          + (if is_pill s (pixel_to_tile_pos (pos a)) = Some True then 5 else 0)
          + (if on_fruit s a then ucast (bonus_score ls) else 0)
          + ghost_scores
              (unat (if is_pill s (pixel_to_tile_pos (pos a)) = Some True \<or> (player2 s \<and> on_fruit s a)
                     then 0 else num_ghosts_eaten s))
              (length (filter (eaten_here s (pixel_to_tile_pos (pos a))) ALL_GHOSTS))"
      by blast
    obtain s'' where g: "ghost_ais ALL_GHOSTS s' = Some s''" using ghost_ais_total by blast
    note f = ghost_frame_fields [OF ghost_ais_frame [OF g]]
    have ga: "game_update_actors s = Some s''"
      using gate u g by (auto simp: game_update_actors_eq split: if_splits)
    have e'': "\<forall>i. eaten_here s (pixel_to_tile_pos (pos a)) i \<longrightarrow>
           gstate (ghost s' i) = GHOSTSTATE_EYES \<and> eaten (ghost s' i) = start s (eaten (ghost s i)) \<and>
           ghost_eaten s'' = start s (ghost_eaten s)"
      using e unfolding f(15) by blast
    note n'' = n [folded f(2)]
    note sc'' = sc [folded f(1)]
    show ?thesis using ls u g ga e'' n'' sc'' by blast
  qed
  have b: "num_ghosts_eaten s2 = num_ghosts_eaten s \<and> score s2 = score s \<and> ghost_eaten s2 = ghost_eaten s \<and>
        (\<forall>i. gstate (ghost s2 i) = GHOSTSTATE_EYES \<longrightarrow> gstate (ghost s i) = GHOSTSTATE_EYES)"
    if "\<not> game_pacman_should_move s" "game_update_actors s = Some s2"
  proof -
    from that have g: "ghost_ais ALL_GHOSTS s = Some s2" by (simp add: game_update_actors_eq)
    note f = ghost_frame_fields [OF ghost_ais_frame [OF g]]
    show ?thesis using f(1) f(2) f(15) ghost_ais_eyes [OF g] by blast
  qed
  have c: "num_ghosts_eaten s4 = 0" if "game_round_init s = Some s4"
    using game_round_init_mode [OF that] by simp
  have d: "ghost_scores c 1 = 10 * 2 ^ (Suc c mod 32) \<and> ghost_scores 0 1 = 20 \<and> ghost_scores 1 1 = 40 \<and>
      ghost_scores 2 1 = 80 \<and> ghost_scores 3 1 = 160"
    by simp
  show ?thesis using a b c d by blast
qed

theorem frightened_ghost_eaten_witness:
  "game_pacman_should_move frightened_state \<and> player2 frightened_state \<and>
   pacman_move frightened_state (pm_actor (pacman1 frightened_state)) =
     Some \<lparr>dir = DIR_UP, pos = \<lparr>i2_x = 172, i2_y = 45\<rparr>, anim_tick = 801\<rparr> \<and>
   eaten_here frightened_state (i2 21 5) GHOSTTYPE_BLINKY \<and>
   num_ghosts_eaten frightened_state = 3 \<and> score frightened_state = 434 \<and>
   map_option (\<lambda>s'. (gstate (ghost s' GHOSTTYPE_BLINKY), tick (eaten (ghost s' GHOSTTYPE_BLINKY))))
     (update_pacman1 frightened_state) = Some (GHOSTSTATE_EYES, 2802) \<and>
   map_option (\<lambda>s'. (tick (ghost_eaten s'), num_ghosts_eaten s', score s'))
     (game_update_actors frightened_state) = Some (2802, 4, 595) \<and>
   \<not> game_pacman_should_move (frightened_state\<lparr>timing_tick := 2808\<rparr>) \<and>
   map_option (\<lambda>s'. (num_ghosts_eaten s', score s'))
     (game_update_actors (frightened_state\<lparr>timing_tick := 2808\<rparr>)) = Some (3, 434) \<and>
   map_option num_ghosts_eaten (game_round_init frightened_state) = Some 0"
proof -
  let ?a = "\<lparr>dir = DIR_UP, pos = \<lparr>i2_x = 172, i2_y = 45\<rparr>, anim_tick = 801\<rparr>"
  let ?w = "frightened_state\<lparr>timing_tick := 2808\<rparr>"
  have gate: "game_pacman_should_move frightened_state" and p: "player2 frightened_state"
    and mv: "pacman_move frightened_state (pm_actor (pacman1 frightened_state)) = Some ?a"
    and val: "valid_tile_pos (pixel_to_tile_pos (pos ?a))"
    and t: "pixel_to_tile_pos (pos ?a) = i2 21 5"
    and eh: "eaten_here frightened_state (i2 21 5) GHOSTTYPE_BLINKY"
    and m: "length (filter (eaten_here frightened_state (i2 21 5)) ALL_GHOSTS) = 1"
    and dot: "is_dot frightened_state (i2 21 5) = Some True"
    and pill: "is_pill frightened_state (i2 21 5) = Some False"
    and fr: "\<not> on_fruit frightened_state ?a"
    and v: "num_ghosts_eaten frightened_state = 3" "score frightened_state = 434"
      "tick (start frightened_state (eaten (ghost frightened_state GHOSTTYPE_BLINKY))) = 2802"
      "tick (start frightened_state (ghost_eaten frightened_state)) = 2802"
    and ng: "\<not> game_pacman_should_move ?w"
    by code_simp+
  have mv': "pacman_move frightened_state
      (pm_actor (if player2 frightened_state then pacman1 frightened_state else pacman2 frightened_state)) = Some ?a"
    using mv p by simp
  note A = frightened_ghost_eaten [of frightened_state ?a, THEN conjunct1, THEN mp, OF conjI [OF gate conjI [OF mv' val]]]
  have t': "pixel_to_tile_pos \<lparr>i2_x = 172, i2_y = 45\<rparr> = i2 21 5" using t by simp
  have B: "\<exists>s' s''. update_pacman1 frightened_state = Some s' \<and>
      game_update_actors frightened_state = Some s'' \<and>
      (\<forall>i. eaten_here frightened_state (i2 21 5) i \<longrightarrow>
         gstate (ghost s' i) = GHOSTSTATE_EYES \<and>
         eaten (ghost s' i) = start frightened_state (eaten (ghost frightened_state i)) \<and>
         ghost_eaten s'' = start frightened_state (ghost_eaten frightened_state)) \<and>
      num_ghosts_eaten s'' = 4 \<and> score s'' = 595"
    using A by (simp add: t' m dot pill fr p v) blast
  then obtain s' s'' where u: "update_pacman1 frightened_state = Some s'"
    and ga: "game_update_actors frightened_state = Some s''"
    and e: "\<forall>i. eaten_here frightened_state (i2 21 5) i \<longrightarrow>
         gstate (ghost s' i) = GHOSTSTATE_EYES \<and>
         eaten (ghost s' i) = start frightened_state (eaten (ghost frightened_state i)) \<and>
         ghost_eaten s'' = start frightened_state (ghost_eaten frightened_state)"
    and n: "num_ghosts_eaten s'' = 4" and sc: "score s'' = 595"
    by blast
  have r1: "map_option (\<lambda>s'. (gstate (ghost s' GHOSTTYPE_BLINKY), tick (eaten (ghost s' GHOSTTYPE_BLINKY))))
     (update_pacman1 frightened_state) = Some (GHOSTSTATE_EYES, 2802)"
    using u e eh v by simp
  have r2: "map_option (\<lambda>s'. (tick (ghost_eaten s'), num_ghosts_eaten s', score s'))
     (game_update_actors frightened_state) = Some (2802, 4, 595)"
    using ga e eh n sc v by simp
  obtain s2 where s2: "game_update_actors ?w = Some s2"
    using ng ghost_ais_total [of ALL_GHOSTS ?w] by (auto simp: game_update_actors_eq)
  from frightened_ghost_eaten [of ?w _ s2] ng s2
  have "num_ghosts_eaten s2 = num_ghosts_eaten ?w \<and> score s2 = score ?w" by blast
  then have r3: "map_option (\<lambda>s'. (num_ghosts_eaten s', score s')) (game_update_actors ?w) = Some (3, 434)"
    using s2 v by simp
  obtain s4 where s4: "game_round_init frightened_state = Some s4"
  proof -
    have "map_option (\<lambda>_. True) (game_round_init frightened_state) = Some True" by code_simp
    then show ?thesis using that by auto
  qed
  from frightened_ghost_eaten [of frightened_state _ _ s4] s4
  have "num_ghosts_eaten s4 = 0" by blast
  then have r4: "map_option num_ghosts_eaten (game_round_init frightened_state) = Some 0"
    using s4 by simp
  show ?thesis using gate p mv eh v r1 r2 ng r3 r4 by blast
qed

section \<open>Dot-counter modes (C7)\<close>


lemma dot_counter_loop_mode [simp]:
  "global_dot_counter_active (dot_counter_loop is s) = global_dot_counter_active s"
  "global_dot_counter (dot_counter_loop is s) = global_dot_counter s"
  by (induction "is") simp_all

lemma dot_counters_mode [simp]:
  "global_dot_counter_active (game_update_ghosthouse_dot_counters s) = global_dot_counter_active s"
  by (simp add: game_update_ghosthouse_dot_counters_def)

lemma frighten_ghosts_mode [simp]:
  "global_dot_counter_active (frighten_ghosts s) = global_dot_counter_active s"
  by (simp add: frighten_ghosts_def ALL_GHOSTS_def)











lemma ghost_target_mode [simp]:
  "global_dot_counter_active (game_update_ghost_target i s) = global_dot_counter_active s"
  by (simp add: game_update_ghost_target_def Let_def xorshift32_def split: ghoststate_t.splits ghosttype_t.splits)













end
